theory Spec2Isabelle
  imports Main "HOL-Library.Word"
begin

unbundle bit_operations_syntax

section \<open>The VR4300 pipeline of vr4300/pipeline.c\<close>

text \<open>
  A shallow embedding of the pipeline advancer: the four inter-stage latches, the five
  stage functions, the slow-path entry points, \<open>vr4300_cycle\<close> and
  \<open>vr4300_pipeline_init\<close>. The C structures are records, the enumerations are
  datatypes, fixed-width integers are words, and every function that mutates
  \<open>struct vr4300\<close> takes the state and returns the new one.

  The headers of the file (cpu.h, cp0.h, decoder.h, fault.h, opcodes.h, pipeline.h,
  segment.h) are not part of the sources at hand. What they declare is treated as
  follows: structure layouts are rebuilt from the member accesses of pipeline.c; the
  functions, tables and constants they provide are fields of the record \<open>env\<close>, so that
  every definition below is parametric in them. A field of a latch is prefixed with the
  name of its latch (\<open>exdc_dest\<close> is \<open>exdc_latch->dest\<close>), because several
  structures use the same member names.
\<close>

subsection \<open>Data model\<close>

text \<open>
  Modelled from the spec: \<open>enum vr4300_fault_id\<close> is declared in a header of pipeline.c;
  pipeline.c only names \<open>VR4300_FAULT_NONE\<close>. The other kinds follow the fault
  taxonomy of the specification.
\<close>

datatype vr4300_fault_id =
    VR4300_FAULT_NONE
  | VR4300_FAULT_IADE
  | VR4300_FAULT_ICB
  | VR4300_FAULT_LDI
  | VR4300_FAULT_DADE
  | VR4300_FAULT_DCM
  | VR4300_FAULT_DCB
  | VR4300_FAULT_INTR
  | VR4300_FAULT_RST

text \<open>
  The bus request type. pipeline.c names three values and treats every other value as
  an assertion failure; \<open>VR4300_BUS_REQUEST_OTHER\<close> stands for any such value.
\<close>

datatype vr4300_bus_request_type =
    VR4300_BUS_REQUEST_NONE
  | VR4300_BUS_REQUEST_READ
  | VR4300_BUS_REQUEST_WRITE
  | VR4300_BUS_REQUEST_OTHER

datatype error =
    Abort_tlb_miss
  | Assert_unsupported_request
  | Undefined_shift
  | Undefined_lut_index

text \<open>
  Modelled from the spec: the latch, pipeline, segment, opcode and bus request structures
  are declared in the headers pipeline.c includes. Their fields
  here are the members pipeline.c reads and writes, which are also the ones the data
  model of the specification lists; addresses, results and register values are 64-bit,
  instruction words, physical addresses, sizes, shift amounts, register indexes and the
  two counters of the pipeline are 32-bit unsigned.
\<close>

record vr4300_latch =
  pc :: "64 word"
  fault :: vr4300_fault_id
  cause_data :: "32 word"

record segment =
  start :: "64 word"
  seg_length :: "64 word"
  offset :: "64 word"
  mapped :: bool
  cached :: bool

record vr4300_opcode =
  opcode_id :: "32 word"
  flags :: "32 word"

record vr4300_bus_request =
  vaddr :: "64 word"
  data :: "64 word"
  dqm :: "64 word"
  request_type :: vr4300_bus_request_type
  request_paddr :: "32 word"
  request_size :: "32 word"
  postshift :: "32 word"
  two_words :: bool

record vr4300_icrf_latch =
  icrf_common :: vr4300_latch
  icrf_segment :: segment
  icrf_pc :: "64 word"

record vr4300_rfex_latch =
  rfex_common :: vr4300_latch
  rfex_opcode :: vr4300_opcode
  rfex_iw :: "32 word"
  rfex_iw_mask :: "32 word"
  rfex_paddr :: "32 word"

record vr4300_exdc_latch =
  exdc_common :: vr4300_latch
  exdc_segment :: segment
  exdc_result :: "64 word"
  exdc_dest :: "32 word"
  exdc_request :: vr4300_bus_request

record vr4300_dcwb_latch =
  dcwb_common :: vr4300_latch
  dcwb_result :: "64 word"
  dcwb_dest :: "32 word"

record vr4300_pipeline =
  dcwb_latch :: vr4300_dcwb_latch
  exdc_latch :: vr4300_exdc_latch
  rfex_latch :: vr4300_rfex_latch
  icrf_latch :: vr4300_icrf_latch
  exception_history :: "32 word"
  cycles_to_stall :: "32 word"
  fault_present :: bool

text \<open>
  Modelled from the spec: \<open>struct vr4300_dcache_line\<close> is declared in a header that is
  not among the sources.
  A data cache line is the byte buffer \<open>line->data\<close>, addressed by the low bits of the
  physical address, and the bookkeeping (tag, dirty bit) that only
  \<open>vr4300_dcache_set_dirty\<close> touches here, kept as one word. The data cache is the
  array of its lines, and a pointer to a line is its index. Arrays (the register file, a
  line's bytes, the TLB tables) are functions of the index: their bounds are declared in
  the same headers, and pipeline.c does not check them.
\<close>

record vr4300_dcache_line =
  line_data :: "nat \<Rightarrow> 8 word"
  line_metadata :: "32 word"

type_synonym vr4300_dcache = "nat \<Rightarrow> vr4300_dcache_line"

record 't vr4300_cp0 =
  tlb :: 't
  page_mask :: "nat \<Rightarrow> 32 word"
  pfn :: "nat \<Rightarrow> nat \<Rightarrow> 32 word"

text \<open>
  \<open>struct vr4300\<close>. The register file is the array \<open>regs\<close>; the TLB (\<open>'t\<close>) and the
  instruction cache (\<open>'i\<close>) are only handed to their probe functions, so they stay
  abstract.
\<close>

record ('t, 'i) vr4300 =
  regs :: "nat \<Rightarrow> 64 word"
  cycles :: "64 word"
  signals :: "32 word"
  pipeline :: vr4300_pipeline
  cp0 :: "'t vr4300_cp0"
  icache :: 'i
  dcache :: vr4300_dcache

text \<open>
  What pipeline.c takes from its headers: register indexes and flag masks, the byte
  order of the host (which \<open>memcpy\<close> between a cache line and an integer exposes), the
  decoder, the segment table, the TLB and cache probes, the opcode dispatch table and
  the fault raisers.
\<close>

record ('t, 'i) env =
  VR4300_REGISTER_CP1_0 :: "32 word"
  VR4300_CP0_REGISTER_STATUS :: nat
  VR4300_CP0_REGISTER_CAUSE :: nat
  VR4300_CP0_REGISTER_COUNT :: nat
  VR4300_CP0_REGISTER_COMPARE :: nat
  VR4300_CP0_REGISTER_ENTRYHI :: nat
  PIPELINE_CYCLE_TYPE :: nat
  OPCODE_INFO_BRANCH :: "32 word"
  OPCODE_INFO_NEEDRS :: "32 word"
  OPCODE_INFO_NEEDRT :: "32 word"
  VR4300_SIGNAL_COLDRESET :: "32 word"
  host_big_endian :: bool
  vr4300_decode_instruction :: "32 word \<Rightarrow> vr4300_opcode"
  get_segment :: "64 word \<Rightarrow> 32 word \<Rightarrow> segment option"
  get_default_segment :: segment
  tlb_probe :: "'t \<Rightarrow> 64 word \<Rightarrow> 32 word \<Rightarrow> int"
  vr4300_icache_probe :: "'i \<Rightarrow> 64 word \<Rightarrow> 32 word \<Rightarrow> (nat \<Rightarrow> 8 word) option"
  vr4300_dcache_probe :: "vr4300_dcache \<Rightarrow> 64 word \<Rightarrow> 32 word \<Rightarrow> nat option"
  vr4300_dcache_set_dirty :: "vr4300_dcache_line \<Rightarrow> vr4300_dcache_line"
  vr4300_function_table ::
    "32 word \<Rightarrow> ('t, 'i) vr4300 \<Rightarrow> 32 word \<Rightarrow> 64 word \<Rightarrow> 64 word \<Rightarrow> int \<times> ('t, 'i) vr4300"
  VR4300_IADE :: "('t, 'i) vr4300 \<Rightarrow> ('t, 'i) vr4300"
  VR4300_ICB :: "('t, 'i) vr4300 \<Rightarrow> ('t, 'i) vr4300"
  VR4300_LDI :: "('t, 'i) vr4300 \<Rightarrow> ('t, 'i) vr4300"
  VR4300_RST :: "('t, 'i) vr4300 \<Rightarrow> ('t, 'i) vr4300"
  VR4300_INTR :: "('t, 'i) vr4300 \<Rightarrow> ('t, 'i) vr4300"
  VR4300_DADE :: "('t, 'i) vr4300 \<Rightarrow> ('t, 'i) vr4300"
  VR4300_DCM :: "('t, 'i) vr4300 \<Rightarrow> ('t, 'i) vr4300"
  VR4300_DCB :: "('t, 'i) vr4300 \<Rightarrow> ('t, 'i) vr4300"

text \<open>
  Modelled from the spec: \<open>enum vr4300_register\<close> is declared in a header of pipeline.c. The
  specification fixes the architectural zero register as the first slot, index 0.
\<close>

definition VR4300_REGISTER_R0 :: nat where
  "VR4300_REGISTER_R0 = 0"

subsection \<open>Updating one latch\<close>

definition upd_dcwb ::
  "(vr4300_dcwb_latch \<Rightarrow> vr4300_dcwb_latch) \<Rightarrow> ('t, 'i) vr4300 \<Rightarrow> ('t, 'i) vr4300" where
  "upd_dcwb f s = s\<lparr>pipeline := (pipeline s)\<lparr>dcwb_latch := f (dcwb_latch (pipeline s))\<rparr>\<rparr>"

definition upd_exdc ::
  "(vr4300_exdc_latch \<Rightarrow> vr4300_exdc_latch) \<Rightarrow> ('t, 'i) vr4300 \<Rightarrow> ('t, 'i) vr4300" where
  "upd_exdc f s = s\<lparr>pipeline := (pipeline s)\<lparr>exdc_latch := f (exdc_latch (pipeline s))\<rparr>\<rparr>"

definition upd_rfex ::
  "(vr4300_rfex_latch \<Rightarrow> vr4300_rfex_latch) \<Rightarrow> ('t, 'i) vr4300 \<Rightarrow> ('t, 'i) vr4300" where
  "upd_rfex f s = s\<lparr>pipeline := (pipeline s)\<lparr>rfex_latch := f (rfex_latch (pipeline s))\<rparr>\<rparr>"

definition upd_icrf ::
  "(vr4300_icrf_latch \<Rightarrow> vr4300_icrf_latch) \<Rightarrow> ('t, 'i) vr4300 \<Rightarrow> ('t, 'i) vr4300" where
  "upd_icrf f s = s\<lparr>pipeline := (pipeline s)\<lparr>icrf_latch := f (icrf_latch (pipeline s))\<rparr>\<rparr>"

subsection \<open>memcpy between a cache line and an integer\<close>

text \<open>
  \<open>memcpy(&word, line->data + off, sizeof(word))\<close> reads the bytes in the byte order of
  the host, and the copy back writes them in the same order.
\<close>

definition le_word32 :: "8 word list \<Rightarrow> 32 word" where
  "le_word32 bs = foldr (\<lambda>b w. ucast b OR push_bit 8 w) bs 0"

definition le_word64 :: "8 word list \<Rightarrow> 64 word" where
  "le_word64 bs = foldr (\<lambda>b w. ucast b OR push_bit 8 w) bs 0"

definition le_bytes32 :: "32 word \<Rightarrow> 8 word list" where
  "le_bytes32 w = map (\<lambda>k. ucast (drop_bit (8 * k) w)) [0 ..< 4]"

definition le_bytes64 :: "64 word \<Rightarrow> 8 word list" where
  "le_bytes64 w = map (\<lambda>k. ucast (drop_bit (8 * k) w)) [0 ..< 8]"

definition put_bytes :: "(nat \<Rightarrow> 8 word) \<Rightarrow> nat \<Rightarrow> 8 word list \<Rightarrow> (nat \<Rightarrow> 8 word)" where
  "put_bytes d off bs = (\<lambda>k. if off \<le> k \<and> k < off + length bs then bs ! (k - off) else d k)"

definition memcpy_load32 :: "bool \<Rightarrow> (nat \<Rightarrow> 8 word) \<Rightarrow> nat \<Rightarrow> 32 word" where
  "memcpy_load32 be d off =
     (let bs = map (\<lambda>k. d (off + k)) [0 ..< 4] in le_word32 (if be then rev bs else bs))"

definition memcpy_load64 :: "bool \<Rightarrow> (nat \<Rightarrow> 8 word) \<Rightarrow> nat \<Rightarrow> 64 word" where
  "memcpy_load64 be d off =
     (let bs = map (\<lambda>k. d (off + k)) [0 ..< 8] in le_word64 (if be then rev bs else bs))"

definition memcpy_store32 :: "bool \<Rightarrow> (nat \<Rightarrow> 8 word) \<Rightarrow> nat \<Rightarrow> 32 word \<Rightarrow> (nat \<Rightarrow> 8 word)" where
  "memcpy_store32 be d off w =
     put_bytes d off (if be then rev (le_bytes32 w) else le_bytes32 w)"

definition memcpy_store64 :: "bool \<Rightarrow> (nat \<Rightarrow> 8 word) \<Rightarrow> nat \<Rightarrow> 64 word \<Rightarrow> (nat \<Rightarrow> 8 word)" where
  "memcpy_store64 be d off w =
     put_bytes d off (if be then rev (le_bytes64 w) else le_bytes64 w)"

subsection \<open>Address translation inside RF and DC\<close>

text \<open>
  Both stages compute \<open>paddr = vaddr - segment->offset\<close> and, in a mapped segment,
  replace it by the TLB translation; a TLB miss calls \<open>abort()\<close>. The two stages carry
  the same statements, written once here.
\<close>

definition tlb_translate ::
  "('t, 'i) env \<Rightarrow> ('t, 'i) vr4300 \<Rightarrow> segment \<Rightarrow> 64 word \<Rightarrow> error + 32 word" where
  "tlb_translate env s seg va =
     (if mapped seg then
        (let asid = (ucast (regs s (VR4300_CP0_REGISTER_ENTRYHI env) AND 0xFF) :: 32 word);
             index = tlb_probe env (tlb (cp0 s)) va asid
         in if 0 \<le> index then
              (let pm = page_mask (cp0 s) (nat index);
                   select = (if (ucast (pm + 1) :: 64 word) AND va = 0 then 0 else 1 :: nat)
               in Inr (ucast ((ucast (pfn (cp0 s) (nat index) select) :: 64 word)
                         OR (va AND ucast pm))))
            else Inl Abort_tlb_miss)
      else Inr (ucast (va - offset seg)))"

subsection \<open>Instruction cache stage\<close>

definition vr4300_ic_stage ::
  "('t, 'i) env \<Rightarrow> ('t, 'i) vr4300 \<Rightarrow> int \<times> ('t, 'i) vr4300" where
  "vr4300_ic_stage env s =
     (let rfex = rfex_latch (pipeline s);
          icrf = icrf_latch (pipeline s);
          seg = icrf_segment icrf;
          pc0 = icrf_pc icrf;
          decode_iw = rfex_iw rfex AND rfex_iw_mask rfex;
          opcode = vr4300_decode_instruction env decode_iw;
          s1 = upd_rfex (\<lambda>l. l\<lparr>rfex_iw := decode_iw, rfex_opcode := opcode,
                 rfex_iw_mask := - 1\<rparr>) s;
          s2 = upd_icrf (\<lambda>l. l\<lparr>icrf_common := \<lparr>pc = pc0, fault = VR4300_FAULT_NONE,
                 cause_data = (if flags opcode AND OPCODE_INFO_BRANCH env \<noteq> 0
                               then 0x80000000 else 0)\<rparr>\<rparr>) s1
      in if seg_length seg \<le> pc0 - start seg then
           (case get_segment env pc0 (ucast (regs s (VR4300_CP0_REGISTER_STATUS env))) of
              None \<Rightarrow> (1, VR4300_IADE env s2)
            | Some seg' \<Rightarrow>
                (0, upd_icrf (\<lambda>l. l\<lparr>icrf_segment := seg', icrf_pc := pc0 + 4\<rparr>) s2))
         else (0, upd_icrf (\<lambda>l. l\<lparr>icrf_pc := pc0 + 4\<rparr>) s2))"

subsection \<open>Register fetch and decode stage\<close>

definition vr4300_rf_stage ::
  "('t, 'i) env \<Rightarrow> ('t, 'i) vr4300 \<Rightarrow> error + int \<times> ('t, 'i) vr4300" where
  "vr4300_rf_stage env s =
     (let icrf = icrf_latch (pipeline s);
          seg = icrf_segment icrf;
          va = pc (icrf_common icrf);
          s1 = upd_rfex (\<lambda>l. l\<lparr>rfex_common := icrf_common icrf\<rparr>) s
      in case tlb_translate env s1 seg va of
           Inl e \<Rightarrow> Inl e
         | Inr paddr \<Rightarrow>
             (case (if cached seg then vr4300_icache_probe env (icache s1) va paddr else None) of
                None \<Rightarrow> Inr (1, VR4300_ICB env (upd_rfex (\<lambda>l. l\<lparr>rfex_paddr := paddr\<rparr>) s1))
              | Some line \<Rightarrow>
                  Inr (0, upd_rfex (\<lambda>l. l\<lparr>rfex_iw := memcpy_load32 (host_big_endian env) line
                             (unat (paddr AND 0x1C))\<rparr>) s1)))"

subsection \<open>Execution stage\<close>

definition rs_select_lut :: "('t, 'i) env \<Rightarrow> 32 word list" where
  "rs_select_lut env = [0, VR4300_REGISTER_CP1_0 env, 21, 11]"

definition rt_select_lut :: "('t, 'i) env \<Rightarrow> 32 word list" where
  "rt_select_lut env = [0, 0, VR4300_REGISTER_CP1_0 env, 0]"

text \<open>
  The opcode flags the stage works with: the reads-Rs and reads-Rt bits are cleared
  unless the EX/DC latch still holds a read request.
\<close>

definition ex_flags :: "('t, 'i) env \<Rightarrow> ('t, 'i) vr4300 \<Rightarrow> 32 word" where
  "ex_flags env s =
     (let fl = flags (rfex_opcode (rfex_latch (pipeline s)))
      in if request_type (exdc_request (exdc_latch (pipeline s))) \<noteq> VR4300_BUS_REQUEST_READ
         then fl AND NOT (OPCODE_INFO_NEEDRS env OR OPCODE_INFO_NEEDRT env)
         else fl)"

definition ex_fr :: "('t, 'i) env \<Rightarrow> ('t, 'i) vr4300 \<Rightarrow> 32 word" where
  "ex_fr env s =
     (drop_bit 26 (ucast (regs s (VR4300_CP0_REGISTER_STATUS env)) :: 32 word) AND 0x1) XOR 1"

definition ex_rs :: "('t, 'i) env \<Rightarrow> ('t, 'i) vr4300 \<Rightarrow> 32 word" where
  "ex_rs env s =
     (let iw = rfex_iw (rfex_latch (pipeline s));
          rslutidx = ex_flags env s AND 0x1;
          rs = (drop_bit (unat (rs_select_lut env ! unat (2 + rslutidx))) iw AND 0x1F)
                 + rs_select_lut env ! unat rslutidx
      in rs AND NOT (rslutidx AND ex_fr env s))"

definition ex_rt :: "('t, 'i) env \<Rightarrow> ('t, 'i) vr4300 \<Rightarrow> 32 word" where
  "ex_rt env s =
     (let iw = rfex_iw (rfex_latch (pipeline s));
          rtlutidx = ex_flags env s AND 0x2;
          rt = (drop_bit 16 iw AND 0x1F) + rt_select_lut env ! unat rtlutidx
      in rt AND NOT (drop_bit 1 rtlutidx AND ex_fr env s))"

definition ex_ldi :: "('t, 'i) env \<Rightarrow> ('t, 'i) vr4300 \<Rightarrow> bool" where
  "ex_ldi env s =
     (let dest = dcwb_dest (dcwb_latch (pipeline s)); fl = ex_flags env s
      in (dest = ex_rs env s \<and> fl AND OPCODE_INFO_NEEDRS env \<noteq> 0) \<or>
         (dest = ex_rt env s \<and> fl AND OPCODE_INFO_NEEDRT env \<noteq> 0))"

text \<open>
  The forwarding sequence: plant the DC/WB result in its destination slot, zero register
  zero, read both operands, restore the slot.
\<close>

definition ex_forward ::
  "('t, 'i) vr4300 \<Rightarrow> 32 word \<Rightarrow> 32 word \<Rightarrow> 64 word \<times> 64 word \<times> ('t, 'i) vr4300" where
  "ex_forward s rs rt =
     (let dcwb = dcwb_latch (pipeline s);
          temp = regs s (unat (dcwb_dest dcwb));
          regs1 = (regs s)(unat (dcwb_dest dcwb) := dcwb_result dcwb);
          regs2 = regs1(VR4300_REGISTER_R0 := 0);
          rs_reg = regs2 (unat rs);
          rt_reg = regs2 (unat rt);
          regs3 = regs2(unat (dcwb_dest dcwb) := temp)
      in (rs_reg, rt_reg, s\<lparr>regs := regs3\<rparr>))"

definition vr4300_ex_stage ::
  "('t, 'i) env \<Rightarrow> ('t, 'i) vr4300 \<Rightarrow> int \<times> ('t, 'i) vr4300" where
  "vr4300_ex_stage env s =
     (let rfex = rfex_latch (pipeline s);
          s1 = upd_exdc (\<lambda>l. l\<lparr>exdc_common := rfex_common rfex\<rparr>) s
      in if ex_ldi env s then (1, VR4300_LDI env s1)
         else
           (case ex_forward s1 (ex_rs env s) (ex_rt env s) of
              (rs_reg, rt_reg, s2) \<Rightarrow>
                vr4300_function_table env (opcode_id (rfex_opcode rfex))
                  (upd_exdc (\<lambda>l. l\<lparr>exdc_dest := of_nat VR4300_REGISTER_R0,
                     exdc_request := (exdc_request l)\<lparr>request_type := VR4300_BUS_REQUEST_NONE\<rparr>\<rparr>) s2)
                  (rfex_iw rfex) rs_reg rt_reg))"

subsection \<open>Data cache stage\<close>

definition interrupt_pending :: "32 word \<Rightarrow> 32 word \<Rightarrow> bool" where
  "interrupt_pending cause status =
     (cause AND status AND 0xFF00 \<noteq> 0 \<and> status AND 0x1 \<noteq> 0 \<and> status AND 0x6 = 0)"

text \<open>
  The datum a read extracts from the line. A shift by the width of its operand or more
  is undefined in C and an error here.
\<close>

definition dc_read_sdata ::
  "bool \<Rightarrow> vr4300_bus_request \<Rightarrow> 32 word \<Rightarrow> (nat \<Rightarrow> 8 word) \<Rightarrow> error + 64 word" where
  "dc_read_sdata be request paddr d =
     (if \<not> two_words request then
        (let rshiftamt = (push_bit 3 (4 - request_size request) :: 32 word);
             lshiftamt = (push_bit 3 (paddr AND 0x3) :: 32 word);
             word = memcpy_load32 be d (unat (paddr AND 0xC))
         in if unat rshiftamt < 32 \<and> unat lshiftamt < 32
            then Inr (scast (signed_drop_bit (unat rshiftamt) (push_bit (unat lshiftamt) word)))
            else Inl Undefined_shift)
      else
        (let rshiftamt = (push_bit 3 (8 - request_size request) :: 32 word);
             lshiftamt = (push_bit 3 (paddr AND 0x7) :: 32 word);
             hiword = memcpy_load32 be d (unat (paddr AND 0x8));
             loword = memcpy_load32 be d (unat (paddr AND 0x8) + 4)
         in if unat rshiftamt < 64 \<and> unat lshiftamt < 64
            then Inr (signed_drop_bit (unat rshiftamt)
                   (push_bit (unat lshiftamt) (push_bit 32 (ucast hiword) OR ucast loword)))
            else Inl Undefined_shift))"

definition dc_read ::
  "bool \<Rightarrow> vr4300_bus_request \<Rightarrow> 32 word \<Rightarrow> (nat \<Rightarrow> 8 word) \<Rightarrow> 64 word \<Rightarrow> error + 64 word" where
  "dc_read be request paddr d result =
     (case dc_read_sdata be request paddr d of
        Inl e \<Rightarrow> Inl e
      | Inr sdata \<Rightarrow>
          if unat (postshift request) < 64
          then Inr (result OR push_bit (unat (postshift request)) (sdata AND dqm request))
          else Inl Undefined_shift)"

definition dc_write ::
  "bool \<Rightarrow> vr4300_bus_request \<Rightarrow> 32 word \<Rightarrow> (nat \<Rightarrow> 8 word) \<Rightarrow> (nat \<Rightarrow> 8 word)" where
  "dc_write be request paddr d =
     (if 4 < request_size request then
        (let dt = data request;
             m = dqm request;
             pa = unat (paddr AND 0x8);
             dword = memcpy_load64 be d pa
         in memcpy_store64 be d pa
              ((dword AND NOT m) OR ((push_bit 32 dt OR drop_bit 32 dt) AND m)))
      else
        (let dt = (ucast (data request) :: 32 word);
             m = (ucast (dqm request) :: 32 word);
             pa = unat (paddr AND 0xC);
             word = memcpy_load32 be d pa
         in memcpy_store32 be d pa ((word AND NOT m) OR (dt AND m))))"

text \<open>The cache access of the DC stage, once the segment of the address is known.\<close>

definition dc_cache_access ::
  "('t, 'i) env \<Rightarrow> ('t, 'i) vr4300 \<Rightarrow> segment \<Rightarrow> error + int \<times> ('t, 'i) vr4300" where
  "dc_cache_access env s seg =
     (let request = exdc_request (exdc_latch (pipeline s));
          va = vaddr request
      in case tlb_translate env s seg va of
           Inl e \<Rightarrow> Inl e
         | Inr paddr \<Rightarrow>
             (case (if cached seg then vr4300_dcache_probe env (dcache s) va paddr else None) of
                None \<Rightarrow>
                  Inr (1, VR4300_DCM env (upd_exdc (\<lambda>l. l\<lparr>exdc_request :=
                            (exdc_request l)\<lparr>request_paddr := paddr\<rparr>\<rparr>) s))
              | Some h \<Rightarrow>
                  (case request_type request of
                     VR4300_BUS_REQUEST_READ \<Rightarrow>
                       (case dc_read (host_big_endian env) request paddr (line_data (dcache s h))
                               (dcwb_result (dcwb_latch (pipeline s))) of
                          Inl e \<Rightarrow> Inl e
                        | Inr r \<Rightarrow> Inr (0, upd_dcwb (\<lambda>l. l\<lparr>dcwb_result := r\<rparr>) s))
                   | VR4300_BUS_REQUEST_WRITE \<Rightarrow>
                       Inr (0, s\<lparr>dcache := (dcache s)(h := vr4300_dcache_set_dirty env
                              ((dcache s h)\<lparr>line_data :=
                                 dc_write (host_big_endian env) request paddr
                                   (line_data (dcache s h))\<rparr>))\<rparr>)
                   | _ \<Rightarrow> Inl Assert_unsupported_request)))"

definition dc_access ::
  "('t, 'i) env \<Rightarrow> ('t, 'i) vr4300 \<Rightarrow> error + int \<times> ('t, 'i) vr4300" where
  "dc_access env s =
     (let exdc = exdc_latch (pipeline s);
          seg = exdc_segment exdc;
          va = vaddr (exdc_request exdc)
      in if seg_length seg \<le> va - start seg then
           (case get_segment env va (ucast (regs s (VR4300_CP0_REGISTER_STATUS env))) of
              None \<Rightarrow> Inr (1, VR4300_DADE env s)
            | Some seg' \<Rightarrow>
                dc_cache_access env (upd_exdc (\<lambda>l. l\<lparr>exdc_segment := seg'\<rparr>) s) seg')
         else dc_cache_access env s seg)"

definition vr4300_dc_stage ::
  "('t, 'i) env \<Rightarrow> ('t, 'i) vr4300 \<Rightarrow> error + int \<times> ('t, 'i) vr4300" where
  "vr4300_dc_stage env s =
     (let exdc = exdc_latch (pipeline s);
          status = (ucast (regs s (VR4300_CP0_REGISTER_STATUS env)) :: 32 word);
          cause = (ucast (regs s (VR4300_CP0_REGISTER_CAUSE env)) :: 32 word);
          s1 = upd_dcwb (\<lambda>l. l\<lparr>dcwb_common := exdc_common exdc,
                 dcwb_result := exdc_result exdc, dcwb_dest := exdc_dest exdc\<rparr>) s
      in if signals s AND VR4300_SIGNAL_COLDRESET env \<noteq> 0 then Inr (1, VR4300_RST env s1)
         else if interrupt_pending cause status then Inr (1, VR4300_INTR env s1)
         else if request_type (exdc_request exdc) \<noteq> VR4300_BUS_REQUEST_NONE
              then dc_access env s1
         else Inr (0, s1))"

subsection \<open>Writeback stage\<close>

definition vr4300_wb_stage :: "('t, 'i) vr4300 \<Rightarrow> int \<times> ('t, 'i) vr4300" where
  "vr4300_wb_stage s =
     (let dcwb = dcwb_latch (pipeline s)
      in (0, s\<lparr>regs := ((regs s)(unat (dcwb_dest dcwb) := dcwb_result dcwb))
                          (VR4300_REGISTER_R0 := 0)\<rparr>))"

subsection \<open>Slow path\<close>

definition vr4300_cycle_slow_ic ::
  "('t, 'i) env \<Rightarrow> ('t, 'i) vr4300 \<Rightarrow> error + ('t, 'i) vr4300" where
  "vr4300_cycle_slow_ic env s =
     (case vr4300_ic_stage env s of
        (r, s') \<Rightarrow> if r \<noteq> 0 then Inr s'
                   else Inr (s'\<lparr>regs := (regs s')(PIPELINE_CYCLE_TYPE env := 0)\<rparr>))"

definition vr4300_cycle_slow_rf ::
  "('t, 'i) env \<Rightarrow> ('t, 'i) vr4300 \<Rightarrow> error + ('t, 'i) vr4300" where
  "vr4300_cycle_slow_rf env s =
     (if fault (icrf_common (icrf_latch (pipeline s))) = VR4300_FAULT_NONE then
        (case vr4300_rf_stage env s of
           Inl e \<Rightarrow> Inl e
         | Inr (r, s') \<Rightarrow> if r \<noteq> 0 then Inr s' else vr4300_cycle_slow_ic env s')
      else
        vr4300_cycle_slow_ic env
          (upd_rfex (\<lambda>l. l\<lparr>rfex_common := icrf_common (icrf_latch (pipeline s))\<rparr>) s))"

definition vr4300_cycle_slow_ex ::
  "('t, 'i) env \<Rightarrow> ('t, 'i) vr4300 \<Rightarrow> error + ('t, 'i) vr4300" where
  "vr4300_cycle_slow_ex env s =
     (if fault (rfex_common (rfex_latch (pipeline s))) = VR4300_FAULT_NONE then
        (case vr4300_ex_stage env s of
           (r, s') \<Rightarrow> if r \<noteq> 0 then Inr s' else vr4300_cycle_slow_rf env s')
      else
        vr4300_cycle_slow_rf env
          (upd_exdc (\<lambda>l. l\<lparr>exdc_common := rfex_common (rfex_latch (pipeline s))\<rparr>) s))"

definition vr4300_cycle_slow_dc ::
  "('t, 'i) env \<Rightarrow> ('t, 'i) vr4300 \<Rightarrow> error + ('t, 'i) vr4300" where
  "vr4300_cycle_slow_dc env s =
     (if fault (exdc_common (exdc_latch (pipeline s))) = VR4300_FAULT_NONE then
        (case vr4300_dc_stage env s of
           Inl e \<Rightarrow> Inl e
         | Inr (r, s') \<Rightarrow> if r \<noteq> 0 then Inr s' else vr4300_cycle_slow_ex env s')
      else
        vr4300_cycle_slow_ex env
          (upd_dcwb (\<lambda>l. l\<lparr>dcwb_common := exdc_common (exdc_latch (pipeline s)),
             dcwb_dest := 0, dcwb_result := 0\<rparr>) s))"

text \<open>
  \<open>if (pipeline->exception_history++ > 4) pipeline->fault_present = false;\<close>: the
  comparison reads the counter before the increment.
\<close>

definition slow_wb_history :: "('t, 'i) vr4300 \<Rightarrow> ('t, 'i) vr4300" where
  "slow_wb_history s =
     (let h = exception_history (pipeline s);
          p = (pipeline s)\<lparr>exception_history := h + 1\<rparr>
      in s\<lparr>pipeline := (if 4 < h then p\<lparr>fault_present := False\<rparr> else p)\<rparr>)"

definition slow_wb_stages ::
  "('t, 'i) env \<Rightarrow> ('t, 'i) vr4300 \<Rightarrow> error + ('t, 'i) vr4300" where
  "slow_wb_stages env s =
     (if fault (dcwb_common (dcwb_latch (pipeline s))) = VR4300_FAULT_NONE then
        (case vr4300_wb_stage s of
           (r, s') \<Rightarrow> if r \<noteq> 0 then Inr s' else vr4300_cycle_slow_dc env s')
      else vr4300_cycle_slow_dc env s)"

definition vr4300_cycle_slow_wb ::
  "('t, 'i) env \<Rightarrow> ('t, 'i) vr4300 \<Rightarrow> error + ('t, 'i) vr4300" where
  "vr4300_cycle_slow_wb env s = slow_wb_stages env (slow_wb_history s)"

definition vr4300_cycle_busywait ::
  "('t, 'i) env \<Rightarrow> ('t, 'i) vr4300 \<Rightarrow> error + ('t, 'i) vr4300" where
  "vr4300_cycle_busywait env s =
     (let status = (ucast (regs s (VR4300_CP0_REGISTER_STATUS env)) :: 32 word);
          cause = (ucast (regs s (VR4300_CP0_REGISTER_CAUSE env)) :: 32 word)
      in if interrupt_pending cause status then Inr (VR4300_INTR env s) else Inr s)"

definition pipeline_function_lut ::
  "('t, 'i) env \<Rightarrow> (('t, 'i) vr4300 \<Rightarrow> error + ('t, 'i) vr4300) list" where
  "pipeline_function_lut env =
     [vr4300_cycle_slow_wb env,
      vr4300_cycle_slow_dc env,
      vr4300_cycle_slow_ex env,
      vr4300_cycle_slow_rf env,
      vr4300_cycle_slow_ic env,
      vr4300_cycle_busywait env,
      (\<lambda>s. Inr (VR4300_DCB env s))]"

subsection \<open>The pipeline driver\<close>

definition cycle_counters :: "('t, 'i) env \<Rightarrow> ('t, 'i) vr4300 \<Rightarrow> ('t, 'i) vr4300" where
  "cycle_counters env s =
     (let c = cycles s + 1;
          count = VR4300_CP0_REGISTER_COUNT env;
          regs1 = (regs s)(count := regs s count + (c AND 0x1));
          regs2 = (if (ucast (regs1 count) :: 32 word)
                       = ucast (regs1 (VR4300_CP0_REGISTER_COMPARE env))
                   then regs1(VR4300_CP0_REGISTER_CAUSE env :=
                          regs1 (VR4300_CP0_REGISTER_CAUSE env) OR 0x8000)
                   else regs1)
      in s\<lparr>cycles := c, regs := regs2\<rparr>)"

definition cycle_fast ::
  "('t, 'i) env \<Rightarrow> ('t, 'i) vr4300 \<Rightarrow> error + ('t, 'i) vr4300" where
  "cycle_fast env s =
     (case vr4300_wb_stage s of
        (r1, s1) \<Rightarrow>
          if r1 \<noteq> 0 then Inr s1 else
          (case vr4300_dc_stage env s1 of
             Inl e \<Rightarrow> Inl e
           | Inr (r2, s2) \<Rightarrow>
               if r2 \<noteq> 0 then Inr s2 else
               (case vr4300_ex_stage env s2 of
                  (r3, s3) \<Rightarrow>
                    if r3 \<noteq> 0 then Inr s3 else
                    (case vr4300_rf_stage env s3 of
                       Inl e \<Rightarrow> Inl e
                     | Inr (r4, s4) \<Rightarrow>
                         if r4 \<noteq> 0 then Inr s4 else
                         (case vr4300_ic_stage env s4 of (r5, s5) \<Rightarrow> Inr s5)))))"

definition cycle_dispatch ::
  "('t, 'i) env \<Rightarrow> ('t, 'i) vr4300 \<Rightarrow> error + ('t, 'i) vr4300" where
  "cycle_dispatch env s =
     (let ct = regs s (PIPELINE_CYCLE_TYPE env)
      in if (if fault_present (pipeline s) then 1 else 0) + ct \<noteq> 0 then
           (if unat ct < length (pipeline_function_lut env)
            then (pipeline_function_lut env ! unat ct) s
            else Inl Undefined_lut_index)
         else cycle_fast env s)"

definition vr4300_cycle ::
  "('t, 'i) env \<Rightarrow> ('t, 'i) vr4300 \<Rightarrow> error + ('t, 'i) vr4300" where
  "vr4300_cycle env s =
     (let s1 = cycle_counters env s
      in if 0 < cycles_to_stall (pipeline s1)
         then Inr (s1\<lparr>pipeline := (pipeline s1)\<lparr>cycles_to_stall :=
                      cycles_to_stall (pipeline s1) - 1\<rparr>\<rparr>)
         else cycle_dispatch env s1)"

definition vr4300_pipeline_init :: "('t, 'i) env \<Rightarrow> vr4300_pipeline \<Rightarrow> vr4300_pipeline" where
  "vr4300_pipeline_init env p =
     (let p1 = p\<lparr>icrf_latch := (icrf_latch p)\<lparr>icrf_segment := get_default_segment env\<rparr>\<rparr>
      in p1\<lparr>exdc_latch := (exdc_latch p1)\<lparr>exdc_segment := get_default_segment env\<rparr>\<rparr>)"

subsection \<open>Running stages in order\<close>

text \<open>
  The specification's description of one tick without faults: call the stages in the
  given order and stop at the first one that reports an abort. This definition follows
  the words of the specification; \<open>cycle_fast\<close> above follows the code.
\<close>

fun run_stages ::
  "(('t, 'i) vr4300 \<Rightarrow> error + int \<times> ('t, 'i) vr4300) list \<Rightarrow> ('t, 'i) vr4300
     \<Rightarrow> error + ('t, 'i) vr4300" where
  "run_stages [] s = Inr s"
| "run_stages (f # fs) s =
     (case f s of
        Inl e \<Rightarrow> Inl e
      | Inr (r, s') \<Rightarrow> if r \<noteq> 0 then Inr s' else run_stages fs s')"

definition stages_in_reverse_program_order ::
  "('t, 'i) env \<Rightarrow> (('t, 'i) vr4300 \<Rightarrow> error + int \<times> ('t, 'i) vr4300) list" where
  "stages_in_reverse_program_order env =
     [\<lambda>s. Inr (vr4300_wb_stage s),
      vr4300_dc_stage env,
      \<lambda>s. Inr (vr4300_ex_stage env s),
      vr4300_rf_stage env,
      \<lambda>s. Inr (vr4300_ic_stage env s)]"

subsection \<open>Consecutive slow-path ticks\<close>




subsection \<open>Collaborators that respect register zero\<close>

definition keeps_r0 :: "(('t, 'i) vr4300 \<Rightarrow> ('t, 'i) vr4300) \<Rightarrow> bool" where
  "keeps_r0 f = (\<forall>s. regs s VR4300_REGISTER_R0 = 0 \<longrightarrow> regs (f s) VR4300_REGISTER_R0 = 0)"

definition collaborators_keep_r0 :: "('t, 'i) env \<Rightarrow> bool" where
  "collaborators_keep_r0 env =
     (keeps_r0 (VR4300_IADE env) \<and> keeps_r0 (VR4300_ICB env) \<and> keeps_r0 (VR4300_LDI env) \<and>
      keeps_r0 (VR4300_RST env) \<and> keeps_r0 (VR4300_INTR env) \<and> keeps_r0 (VR4300_DADE env) \<and>
      keeps_r0 (VR4300_DCM env) \<and> keeps_r0 (VR4300_DCB env) \<and>
      (\<forall>i iw a b. keeps_r0 (\<lambda>s. snd (vr4300_function_table env i s iw a b))))"

subsection \<open>Collaborators that respect a C-latch\<close>

text \<open>
  \<open>sel\<close> picks the C-latch of one inter-stage latch out of the pipeline; a collaborator
  keeps it when the call leaves that C-latch as it was.
\<close>

definition keeps_latch ::
  "(vr4300_pipeline \<Rightarrow> vr4300_latch) \<Rightarrow> (('t, 'i) vr4300 \<Rightarrow> ('t, 'i) vr4300) \<Rightarrow> bool" where
  "keeps_latch sel f = (\<forall>s. sel (pipeline (f s)) = sel (pipeline s))"

definition dcwb_c :: "vr4300_pipeline \<Rightarrow> vr4300_latch" where
  "dcwb_c p = dcwb_common (dcwb_latch p)"

definition exdc_c :: "vr4300_pipeline \<Rightarrow> vr4300_latch" where
  "exdc_c p = exdc_common (exdc_latch p)"

definition rfex_c :: "vr4300_pipeline \<Rightarrow> vr4300_latch" where
  "rfex_c p = rfex_common (rfex_latch p)"

definition icrf_c :: "vr4300_pipeline \<Rightarrow> vr4300_latch" where
  "icrf_c p = icrf_common (icrf_latch p)"

subsection \<open>Reaching a line of the data cache\<close>

text \<open>
  The conditions under which the DC stage gets to a cache line with the request of the
  EX/DC latch: no reset signal and no interrupt to deliver; a segment for the address,
  which is the one in the latch if it covers the address and the one the segment table
  returns otherwise; that segment is cached, the address translates to \<open>paddr\<close>, and the
  probe of the data cache hits line \<open>h\<close>.
\<close>

definition dc_reaches :: "('t, 'i) env \<Rightarrow> ('t, 'i) vr4300 \<Rightarrow> 32 word \<Rightarrow> nat \<Rightarrow> bool" where
  "dc_reaches env s paddr h =
     (let exdc = exdc_latch (pipeline s);
          va = vaddr (exdc_request exdc);
          status = (ucast (regs s (VR4300_CP0_REGISTER_STATUS env)) :: 32 word);
          cause = (ucast (regs s (VR4300_CP0_REGISTER_CAUSE env)) :: 32 word)
      in signals s AND VR4300_SIGNAL_COLDRESET env = 0 \<and>
         \<not> interrupt_pending cause status \<and>
         (case (if seg_length (exdc_segment exdc) \<le> va - start (exdc_segment exdc)
                then get_segment env va status else Some (exdc_segment exdc)) of
            None \<Rightarrow> False
          | Some seg \<Rightarrow>
              cached seg \<and> tlb_translate env s seg va = Inr paddr \<and>
              vr4300_dcache_probe env (dcache s) va paddr = Some h))"

text \<open>
  Where the bytes of an access of \<open>sz\<close> bytes at \<open>paddr\<close> sit in the data and the mask
  of a store request, counted in bits from the low end. A request of up to four bytes
  carries one 32-bit bus word, in which the byte at the lowest address is the most
  significant one; an eight-byte request carries the whole value.
\<close>

definition lane_shift :: "nat \<Rightarrow> 32 word \<Rightarrow> nat" where
  "lane_shift sz paddr = (if sz = 8 then 0 else 8 * (4 - sz - unat (paddr AND 3)))"

subsection \<open>The EX stage in the words of the specification\<close>

text \<open>
  The specification describes the operand read of the EX stage as forwarding: an operand
  is zero for register zero, the result held in the DC/WB latch when that latch names the
  register as its destination, and the value in the register file otherwise. This
  definition follows those words; \<open>ex_forward\<close> above follows the code, which plants
  the result in the register file, reads, and restores.
\<close>

definition forwarded :: "('t, 'i) vr4300 \<Rightarrow> 32 word \<Rightarrow> 64 word" where
  "forwarded s r =
     (if unat r = VR4300_REGISTER_R0 then 0
      else if r = dcwb_dest (dcwb_latch (pipeline s)) then dcwb_result (dcwb_latch (pipeline s))
      else regs s (unat r))"

text \<open>
  An instruction that is not held back is issued: the C-latch is copied forward, the
  EX/DC latch is initialised with destination register zero and no bus request, and the
  function of the opcode is called with the instruction word and the two forwarded
  operands. The register file is handed over as it was, except that register zero is
  zeroed when the DC/WB destination is another register. Again the definition follows the
  description of the specification, to be compared with \<open>vr4300_ex_stage\<close>.
\<close>

definition ex_issue :: "('t, 'i) env \<Rightarrow> ('t, 'i) vr4300 \<Rightarrow> int \<times> ('t, 'i) vr4300" where
  "ex_issue env s =
     vr4300_function_table env (opcode_id (rfex_opcode (rfex_latch (pipeline s))))
       ((upd_exdc (\<lambda>l. l\<lparr>exdc_common := rfex_common (rfex_latch (pipeline s)),
                         exdc_dest := of_nat VR4300_REGISTER_R0,
                         exdc_request := (exdc_request l)\<lparr>request_type :=
                            VR4300_BUS_REQUEST_NONE\<rparr>\<rparr>) s)
          \<lparr>regs := (if dcwb_dest (dcwb_latch (pipeline s)) = 0 then regs s
                    else (regs s)(VR4300_REGISTER_R0 := 0))\<rparr>)
       (rfex_iw (rfex_latch (pipeline s)))
       (forwarded s (ex_rs env s)) (forwarded s (ex_rt env s))"

text \<open>
  The interlock decision of the EX stage, with the condition on the bus request written
  out: the EX/DC latch still holds a read request, and the destination in the DC/WB latch
  is the rs register of an instruction flagged as reading rs, or its rt register when it
  is flagged as reading rt.
\<close>

definition load_use_hazard :: "('t, 'i) env \<Rightarrow> ('t, 'i) vr4300 \<Rightarrow> bool" where
  "load_use_hazard env s =
     (request_type (exdc_request (exdc_latch (pipeline s))) = VR4300_BUS_REQUEST_READ \<and>
      (dcwb_dest (dcwb_latch (pipeline s)) = ex_rs env s \<and>
         flags (rfex_opcode (rfex_latch (pipeline s))) AND OPCODE_INFO_NEEDRS env \<noteq> 0 \<or>
       dcwb_dest (dcwb_latch (pipeline s)) = ex_rt env s \<and>
         flags (rfex_opcode (rfex_latch (pipeline s))) AND OPCODE_INFO_NEEDRT env \<noteq> 0))"


subsection \<open>A concrete instance of the collaborators\<close>

text \<open>
  A small machine on which the definitions can be evaluated: one unmapped, cached
  segment that covers the address space, caches that always hit on line 0, a decoder
  that returns one opcode without flags, an opcode table whose entries do nothing, and
  fault raisers that write their fault tag into the latch of the stage that raised it and
  arm the slow path (set the fault-present flag, clear the exception history and select
  the slow-path entry point).
\<close>

definition test_segment :: segment where
  "test_segment =
     \<lparr>start = 0, seg_length = 0xFFFFFFFFFFFFFFFF, offset = 0, mapped = False, cached = True\<rparr>"

definition tag_dcwb :: "vr4300_fault_id \<Rightarrow> (unit, unit) vr4300 \<Rightarrow> (unit, unit) vr4300" where
  "tag_dcwb k = upd_dcwb (\<lambda>l. l\<lparr>dcwb_common := (dcwb_common l)\<lparr>fault := k\<rparr>\<rparr>)"

definition tag_exdc :: "vr4300_fault_id \<Rightarrow> (unit, unit) vr4300 \<Rightarrow> (unit, unit) vr4300" where
  "tag_exdc k = upd_exdc (\<lambda>l. l\<lparr>exdc_common := (exdc_common l)\<lparr>fault := k\<rparr>\<rparr>)"

definition tag_rfex :: "vr4300_fault_id \<Rightarrow> (unit, unit) vr4300 \<Rightarrow> (unit, unit) vr4300" where
  "tag_rfex k = upd_rfex (\<lambda>l. l\<lparr>rfex_common := (rfex_common l)\<lparr>fault := k\<rparr>\<rparr>)"

definition tag_icrf :: "vr4300_fault_id \<Rightarrow> (unit, unit) vr4300 \<Rightarrow> (unit, unit) vr4300" where
  "tag_icrf k = upd_icrf (\<lambda>l. l\<lparr>icrf_common := (icrf_common l)\<lparr>fault := k\<rparr>\<rparr>)"

definition test_raise :: "64 word \<Rightarrow> (unit, unit) vr4300 \<Rightarrow> (unit, unit) vr4300" where
  "test_raise ct s =
     s\<lparr>regs := (regs s)(100 := ct),
       pipeline := (pipeline s)\<lparr>fault_present := True, exception_history := 0\<rparr>\<rparr>"

definition test_env :: "(unit, unit) env" where
  "test_env =
     \<lparr>VR4300_REGISTER_CP1_0 = 64,
      VR4300_CP0_REGISTER_STATUS = 44,
      VR4300_CP0_REGISTER_CAUSE = 45,
      VR4300_CP0_REGISTER_COUNT = 41,
      VR4300_CP0_REGISTER_COMPARE = 43,
      VR4300_CP0_REGISTER_ENTRYHI = 42,
      PIPELINE_CYCLE_TYPE = 100,
      OPCODE_INFO_BRANCH = 0x80000000,
      OPCODE_INFO_NEEDRS = 0x8,
      OPCODE_INFO_NEEDRT = 0x10,
      VR4300_SIGNAL_COLDRESET = 0x1,
      host_big_endian = False,
      vr4300_decode_instruction = (\<lambda>iw. \<lparr>opcode_id = 0, flags = 0\<rparr>),
      get_segment = (\<lambda>va status. Some test_segment),
      get_default_segment = test_segment,
      tlb_probe = (\<lambda>t va asid. - 1),
      vr4300_icache_probe = (\<lambda>c va pa. Some (\<lambda>k. 0)),
      vr4300_dcache_probe = (\<lambda>c va pa. Some 0),
      vr4300_dcache_set_dirty = (\<lambda>l. l\<lparr>line_metadata := 1\<rparr>),
      vr4300_function_table = (\<lambda>i s iw a b. (0, s)),
      VR4300_IADE = (\<lambda>s. test_raise 4 (tag_icrf VR4300_FAULT_IADE s)),
      VR4300_ICB = (\<lambda>s. test_raise 3 (tag_rfex VR4300_FAULT_ICB s)),
      VR4300_LDI = (\<lambda>s. test_raise 2 (tag_exdc VR4300_FAULT_LDI s)),
      VR4300_RST = (\<lambda>s. test_raise 1 (tag_dcwb VR4300_FAULT_RST s)),
      VR4300_INTR = (\<lambda>s. test_raise 1 (tag_dcwb VR4300_FAULT_INTR s)),
      VR4300_DADE = (\<lambda>s. test_raise 1 (tag_dcwb VR4300_FAULT_DADE s)),
      VR4300_DCM = (\<lambda>s. test_raise 1 (tag_dcwb VR4300_FAULT_DCM s)),
      VR4300_DCB = (\<lambda>s. test_raise 6 (tag_dcwb VR4300_FAULT_DCB s))\<rparr>"

definition test_latch :: vr4300_latch where
  "test_latch = \<lparr>pc = 0, fault = VR4300_FAULT_NONE, cause_data = 0\<rparr>"

definition test_request :: vr4300_bus_request where
  "test_request =
     \<lparr>vaddr = 0, data = 0, dqm = 0, request_type = VR4300_BUS_REQUEST_NONE,
      request_paddr = 0, request_size = 0, postshift = 0, two_words = False\<rparr>"

definition test_pipeline :: vr4300_pipeline where
  "test_pipeline =
     \<lparr>dcwb_latch = \<lparr>dcwb_common = test_latch, dcwb_result = 0, dcwb_dest = 0\<rparr>,
      exdc_latch = \<lparr>exdc_common = test_latch, exdc_segment = test_segment, exdc_result = 0,
                     exdc_dest = 0, exdc_request = test_request\<rparr>,
      rfex_latch = \<lparr>rfex_common = test_latch, rfex_opcode = \<lparr>opcode_id = 0, flags = 0\<rparr>,
                     rfex_iw = 0, rfex_iw_mask = 0, rfex_paddr = 0\<rparr>,
      icrf_latch = \<lparr>icrf_common = test_latch, icrf_segment = test_segment, icrf_pc = 0\<rparr>,
      exception_history = 0,
      cycles_to_stall = 0,
      fault_present = False\<rparr>"

definition test_state :: "(unit, unit) vr4300" where
  "test_state =
     \<lparr>regs = (\<lambda>r. 0), cycles = 0, signals = 0, pipeline = test_pipeline,
      cp0 = \<lparr>tlb = (), page_mask = (\<lambda>k. 0), pfn = (\<lambda>k j. 0)\<rparr>,
      icache = (),
      dcache = (\<lambda>h. \<lparr>line_data = (\<lambda>k. 0), line_metadata = 0\<rparr>)\<rparr>"

text \<open>States of the concrete machine used below.\<close>

definition forwarding_state :: "(unit, unit) vr4300" where
  "forwarding_state =
     test_state\<lparr>pipeline := test_pipeline
       \<lparr>dcwb_latch := \<lparr>dcwb_common = test_latch, dcwb_result = 0xAB, dcwb_dest = 1\<rparr>,
        rfex_latch := \<lparr>rfex_common = test_latch, rfex_opcode = \<lparr>opcode_id = 0, flags = 0x8\<rparr>,
                       rfex_iw = 0x00200000, rfex_iw_mask = 0, rfex_paddr = 0\<rparr>\<rparr>\<rparr>"

definition load_use_state :: "(unit, unit) vr4300" where
  "load_use_state =
     upd_exdc (\<lambda>l. l\<lparr>exdc_request :=
       (exdc_request l)\<lparr>request_type := VR4300_BUS_REQUEST_READ\<rparr>\<rparr>) forwarding_state"

definition used_pipeline :: vr4300_pipeline where
  "used_pipeline =
     test_pipeline\<lparr>rfex_latch := (rfex_latch test_pipeline)\<lparr>rfex_iw := 0x3C011234\<rparr>,
                   dcwb_latch := (dcwb_latch test_pipeline)\<lparr>dcwb_dest := 7\<rparr>\<rparr>"

definition fetch_fault_state :: "(unit, unit) vr4300" where
  "fetch_fault_state =
     upd_icrf (\<lambda>l. l\<lparr>icrf_common := (icrf_common l)\<lparr>fault := VR4300_FAULT_IADE\<rparr>\<rparr>)
       (test_state\<lparr>pipeline := test_pipeline\<lparr>fault_present := True\<rparr>\<rparr>)"

definition data_fault_state :: "(unit, unit) vr4300" where
  "data_fault_state =
     upd_exdc (\<lambda>l. l\<lparr>exdc_common := (exdc_common l)\<lparr>fault := VR4300_FAULT_DADE\<rparr>,
                      exdc_result := 0x55, exdc_dest := 9\<rparr>)
       (test_state\<lparr>regs := (\<lambda>r. if r = 9 then 0x77 else 0)\<rparr>)"

definition interrupt_state :: "(unit, unit) vr4300" where
  "interrupt_state = test_state\<lparr>regs := (\<lambda>r. if r = 44 then 0x401 else if r = 45 then 0x400 else 0)\<rparr>"

definition test_store :: "nat \<Rightarrow> 64 word \<Rightarrow> 64 word \<Rightarrow> vr4300_bus_request" where
  "test_store sz dt m =
     test_request\<lparr>request_type := VR4300_BUS_REQUEST_WRITE, request_size := of_nat sz,
       data := dt, dqm := m\<rparr>"

definition test_load :: "nat \<Rightarrow> 64 word \<Rightarrow> bool \<Rightarrow> vr4300_bus_request" where
  "test_load sz m tw =
     test_request\<lparr>request_type := VR4300_BUS_REQUEST_READ, request_size := of_nat sz,
       dqm := m, two_words := tw\<rparr>"

definition armed_state :: "(unit, unit) vr4300" where
  "armed_state = test_state\<lparr>pipeline := test_pipeline\<lparr>fault_present := True\<rparr>\<rparr>"

definition compare_state :: "(unit, unit) vr4300" where
  "compare_state = test_state\<lparr>regs := (\<lambda>r. if r = 41 then 5 else if r = 43 then 6 else 0)\<rparr>"

definition masked_interrupt_state :: "(unit, unit) vr4300" where
  "masked_interrupt_state =
     test_state\<lparr>regs := (\<lambda>r. if r = 44 then 0x403 else if r = 45 then 0x400 else 0)\<rparr>"


definition reset_signal_state :: "(unit, unit) vr4300" where
  "reset_signal_state = interrupt_state\<lparr>signals := 1\<rparr>"

definition execute_fault_state :: "(unit, unit) vr4300" where
  "execute_fault_state = tag_rfex VR4300_FAULT_LDI armed_state"




text \<open>
  States for a store followed by a load: the EX/DC latch of the concrete machine holds a
  store request on a cache whose lines are filled with \<open>0xEE\<close>; later the latch holds
  a load request with a cleared result. The last machine is the concrete one on a
  big-endian host.
\<close>

definition store_state :: "nat \<Rightarrow> 64 word \<Rightarrow> 64 word \<Rightarrow> 64 word \<Rightarrow> (unit, unit) vr4300" where
  "store_state sz a dt m =
     upd_exdc (\<lambda>l. l\<lparr>exdc_request := (test_store sz dt m)\<lparr>vaddr := a\<rparr>\<rparr>)
       (test_state\<lparr>dcache := (\<lambda>h. \<lparr>line_data = (\<lambda>k. 0xEE), line_metadata = 0\<rparr>)\<rparr>)"

definition load_state ::
  "nat \<Rightarrow> 64 word \<Rightarrow> 64 word \<Rightarrow> bool \<Rightarrow> (unit, unit) vr4300 \<Rightarrow> (unit, unit) vr4300" where
  "load_state sz a m tw t =
     upd_exdc (\<lambda>l. l\<lparr>exdc_request := (test_load sz m tw)\<lparr>vaddr := a\<rparr>, exdc_result := 0\<rparr>) t"

definition big_endian_env :: "(unit, unit) env" where
  "big_endian_env = test_env\<lparr>host_big_endian := True\<rparr>"

text \<open>
  States with a fault tag waiting in the IC/RF latch while the tick cannot reach the RF
  entry: an interrupt is pending for the DC stage, stall cycles are outstanding, or the
  EX stage meets a load delay interlock.
\<close>

definition interrupted_fetch_fault_state :: "(unit, unit) vr4300" where
  "interrupted_fetch_fault_state =
     fetch_fault_state\<lparr>regs := (\<lambda>r. if r = 44 then 0x401 else if r = 45 then 0x400 else 0)\<rparr>"

definition stalled_fetch_fault_state :: "(unit, unit) vr4300" where
  "stalled_fetch_fault_state =
     fetch_fault_state\<lparr>pipeline := (pipeline fetch_fault_state)\<lparr>cycles_to_stall := 3\<rparr>\<rparr>"

definition hazard_fetch_fault_state :: "(unit, unit) vr4300" where
  "hazard_fetch_fault_state = tag_icrf VR4300_FAULT_IADE load_use_state"
section \<open>Properties\<close>

subsection \<open>Auxiliary facts about the stages\<close>

lemma upd_simps:
  "pipeline (upd_dcwb f s) = (pipeline s)\<lparr>dcwb_latch := f (dcwb_latch (pipeline s))\<rparr>"
  "pipeline (upd_exdc g s) = (pipeline s)\<lparr>exdc_latch := g (exdc_latch (pipeline s))\<rparr>"
  "pipeline (upd_rfex h s) = (pipeline s)\<lparr>rfex_latch := h (rfex_latch (pipeline s))\<rparr>"
  "pipeline (upd_icrf k s) = (pipeline s)\<lparr>icrf_latch := k (icrf_latch (pipeline s))\<rparr>"
  "regs (upd_dcwb f s) = regs s" "regs (upd_exdc g s) = regs s"
  "regs (upd_rfex h s) = regs s" "regs (upd_icrf k s) = regs s"
  by (simp_all add: upd_dcwb_def upd_exdc_def upd_rfex_def upd_icrf_def)

lemma stage_then_cases:
  assumes "(case f of Inl e \<Rightarrow> Inl e
            | Inr (r, s1) \<Rightarrow> if r \<noteq> (0::int) then Inr s1 else g s1) = Inr s'"
  obtains r where "f = Inr (r, s')" "r \<noteq> 0"
        | s1 where "f = Inr (0, s1)" "g s1 = Inr s'"
  using assms by (auto split: sum.splits prod.splits if_splits)

lemma stage_then_cases':
  assumes "(case f of (r, s1) \<Rightarrow> if r \<noteq> (0::int) then Inr s1 else g s1) = Inr s'"
  obtains r where "f = (r, s')" "r \<noteq> 0"
        | s1 where "f = (0, s1)" "g s1 = Inr s'"
  using assms by (auto split: prod.splits if_splits)

lemma keeps_latchD: "keeps_latch sel f \<Longrightarrow> sel (pipeline (f s)) = sel (pipeline s)"
  by (simp add: keeps_latch_def)

lemma ic_stage_cases:
  obtains t where "vr4300_ic_stage env s = (1, VR4300_IADE env t)" "regs t = regs s"
      "dcwb_latch (pipeline t) = dcwb_latch (pipeline s)"
      "exdc_latch (pipeline t) = exdc_latch (pipeline s)"
      "rfex_common (rfex_latch (pipeline t)) = rfex_common (rfex_latch (pipeline s))"
    | t where "vr4300_ic_stage env s = (0, t)" "regs t = regs s"
      "dcwb_latch (pipeline t) = dcwb_latch (pipeline s)"
      "exdc_latch (pipeline t) = exdc_latch (pipeline s)"
      "rfex_common (rfex_latch (pipeline t)) = rfex_common (rfex_latch (pipeline s))"
proof -
  let ?icrf = "icrf_latch (pipeline s)"
  let ?iw = "rfex_iw (rfex_latch (pipeline s)) AND rfex_iw_mask (rfex_latch (pipeline s))"
  let ?s2 = "upd_icrf (\<lambda>l. l\<lparr>icrf_common := \<lparr>pc = icrf_pc ?icrf, fault = VR4300_FAULT_NONE,
                 cause_data = (if flags (vr4300_decode_instruction env ?iw)
                                    AND OPCODE_INFO_BRANCH env \<noteq> 0
                               then 0x80000000 else 0)\<rparr>\<rparr>)
              (upd_rfex (\<lambda>l. l\<lparr>rfex_iw := ?iw,
                 rfex_opcode := vr4300_decode_instruction env ?iw, rfex_iw_mask := - 1\<rparr>) s)"
  show ?thesis
  proof (cases "seg_length (icrf_segment ?icrf) \<le> icrf_pc ?icrf - start (icrf_segment ?icrf)")
    case True
    show ?thesis
    proof (cases "get_segment env (icrf_pc ?icrf)
                    (ucast (regs s (VR4300_CP0_REGISTER_STATUS env)))")
      case None
      with True have "vr4300_ic_stage env s = (1, VR4300_IADE env ?s2)"
        by (simp add: vr4300_ic_stage_def Let_def)
      then show ?thesis by (rule that(1)) (simp_all add: upd_simps)
    next
      case (Some seg')
      with True have "vr4300_ic_stage env s =
          (0, upd_icrf (\<lambda>l. l\<lparr>icrf_segment := seg', icrf_pc := icrf_pc ?icrf + 4\<rparr>) ?s2)"
        by (simp add: vr4300_ic_stage_def Let_def)
      then show ?thesis by (rule that(2)) (simp_all add: upd_simps)
    qed
  next
    case False
    then have "vr4300_ic_stage env s =
        (0, upd_icrf (\<lambda>l. l\<lparr>icrf_pc := icrf_pc ?icrf + 4\<rparr>) ?s2)"
      by (simp add: vr4300_ic_stage_def Let_def)
    then show ?thesis by (rule that(2)) (simp_all add: upd_simps)
  qed
qed

lemma rf_stage_cases:
  assumes "vr4300_rf_stage env s = Inr (r, s')"
  obtains t where "r = 1" "s' = VR4300_ICB env t" "regs t = regs s"
      "dcwb_latch (pipeline t) = dcwb_latch (pipeline s)"
      "exdc_latch (pipeline t) = exdc_latch (pipeline s)"
    | "r = 0" "regs s' = regs s"
      "dcwb_latch (pipeline s') = dcwb_latch (pipeline s)"
      "exdc_latch (pipeline s') = exdc_latch (pipeline s)"
proof -
  let ?icrf = "icrf_latch (pipeline s)"
  let ?s1 = "upd_rfex (\<lambda>l. l\<lparr>rfex_common := icrf_common ?icrf\<rparr>) s"
  from assms obtain paddr where
    tr: "tlb_translate env ?s1 (icrf_segment ?icrf) (pc (icrf_common ?icrf)) = Inr paddr"
    by (auto simp add: vr4300_rf_stage_def Let_def split: sum.splits)
  show ?thesis
  proof (cases "if cached (icrf_segment ?icrf)
                then vr4300_icache_probe env (icache ?s1) (pc (icrf_common ?icrf)) paddr
                else None")
    case None
    with assms tr have "r = 1"
      "s' = VR4300_ICB env (upd_rfex (\<lambda>l. l\<lparr>rfex_paddr := paddr\<rparr>) ?s1)"
      by (simp_all add: vr4300_rf_stage_def Let_def)
    then show ?thesis by (rule that(1)) (simp_all add: upd_simps)
  next
    case (Some line)
    with assms tr have "r = 0"
      "s' = upd_rfex (\<lambda>l. l\<lparr>rfex_iw := memcpy_load32 (host_big_endian env) line
                             (unat (paddr AND 0x1C))\<rparr>) ?s1"
      by (simp_all add: vr4300_rf_stage_def Let_def)
    then show ?thesis by (intro that(2)) (simp_all add: upd_simps)
  qed
qed

lemma ex_stage_cases:
  assumes "vr4300_ex_stage env s = (r, s')"
  obtains t where "s' = VR4300_LDI env t" "regs t = regs s"
      "dcwb_latch (pipeline t) = dcwb_latch (pipeline s)"
    | t i iw a b where "s' = snd (vr4300_function_table env i t iw a b)"
      "regs s VR4300_REGISTER_R0 = 0 \<longrightarrow> regs t VR4300_REGISTER_R0 = 0"
      "dcwb_latch (pipeline t) = dcwb_latch (pipeline s)"
proof (cases "ex_ldi env s")
  case True
  with assms have "s' = VR4300_LDI env
      (upd_exdc (\<lambda>l. l\<lparr>exdc_common := rfex_common (rfex_latch (pipeline s))\<rparr>) s)"
    by (simp add: vr4300_ex_stage_def Let_def)
  then show ?thesis by (rule that(1)) (simp_all add: upd_simps)
next
  case False
  let ?s1 = "upd_exdc (\<lambda>l. l\<lparr>exdc_common := rfex_common (rfex_latch (pipeline s))\<rparr>) s"
  obtain a b s2 where fw: "ex_forward ?s1 (ex_rs env s) (ex_rt env s) = (a, b, s2)"
    by (metis prod_cases3)
  then have s2: "s2 = ?s1\<lparr>regs := (((regs ?s1)(unat (dcwb_dest (dcwb_latch (pipeline ?s1))) :=
                      dcwb_result (dcwb_latch (pipeline ?s1))))(VR4300_REGISTER_R0 := 0))
                    (unat (dcwb_dest (dcwb_latch (pipeline ?s1))) :=
                       regs ?s1 (unat (dcwb_dest (dcwb_latch (pipeline ?s1)))))\<rparr>"
    by (simp add: ex_forward_def Let_def)
  let ?t = "upd_exdc (\<lambda>l. l\<lparr>exdc_dest := of_nat VR4300_REGISTER_R0,
                exdc_request := (exdc_request l)\<lparr>request_type := VR4300_BUS_REQUEST_NONE\<rparr>\<rparr>) s2"
  from False fw assms have
    "s' = snd (vr4300_function_table env (opcode_id (rfex_opcode (rfex_latch (pipeline s))))
             ?t (rfex_iw (rfex_latch (pipeline s))) a b)"
    by (simp add: vr4300_ex_stage_def Let_def)
  then show ?thesis
    by (rule that(2)) (simp_all add: upd_simps s2)
qed

lemmas model_defs =
  vr4300_cycle_def cycle_counters_def cycle_dispatch_def cycle_fast_def
  pipeline_function_lut_def vr4300_cycle_slow_wb_def slow_wb_history_def slow_wb_stages_def
  vr4300_cycle_slow_dc_def vr4300_cycle_slow_ex_def vr4300_cycle_slow_rf_def
  vr4300_cycle_slow_ic_def vr4300_cycle_busywait_def
  vr4300_wb_stage_def vr4300_dc_stage_def dc_access_def dc_cache_access_def
  vr4300_ex_stage_def ex_forward_def ex_ldi_def ex_rs_def ex_rt_def ex_fr_def ex_flags_def
  rs_select_lut_def rt_select_lut_def
  vr4300_rf_stage_def vr4300_ic_stage_def tlb_translate_def interrupt_pending_def
  upd_dcwb_def upd_exdc_def upd_rfex_def upd_icrf_def VR4300_REGISTER_R0_def
  memcpy_load32_def le_word32_def

lemmas test_defs =
  test_env_def test_state_def test_pipeline_def test_latch_def test_request_def
  test_segment_def test_raise_def tag_dcwb_def tag_exdc_def tag_rfex_def tag_icrf_def

lemma cycle_fast_run_stages:
  "cycle_fast env s = run_stages (stages_in_reverse_program_order env) s"
  by (simp add: cycle_fast_def stages_in_reverse_program_order_def
        split: prod.splits sum.splits)

subsection \<open>Register zero\<close>

lemma keeps_r0D: "keeps_r0 f \<Longrightarrow> regs s 0 = 0 \<Longrightarrow> regs (f s) 0 = 0"
  by (simp add: keeps_r0_def VR4300_REGISTER_R0_def)

lemma ic_stage_r0:
  assumes "collaborators_keep_r0 env" "regs s 0 = 0"
  shows "regs (snd (vr4300_ic_stage env s)) 0 = 0"
proof -
  from assms(1) have k: "keeps_r0 (VR4300_IADE env)"
    by (simp add: collaborators_keep_r0_def)
  show ?thesis
  proof (cases rule: ic_stage_cases [of env s])
    case (1 t)
    then show ?thesis using k assms(2) by (simp add: keeps_r0D)
  next
    case (2 t)
    then show ?thesis using assms(2) by simp
  qed
qed

lemma slow_ic_r0:
  assumes "collaborators_keep_r0 env" "regs s 0 = 0" "vr4300_cycle_slow_ic env s = Inr s'"
  shows "regs s' 0 = 0"
  using assms ic_stage_r0 [OF assms(1,2)]
  by (auto simp add: vr4300_cycle_slow_ic_def split: prod.splits if_splits)

lemma rf_stage_r0:
  assumes "collaborators_keep_r0 env" "regs s 0 = 0" "vr4300_rf_stage env s = Inr (r, s')"
  shows "regs s' 0 = 0"
proof -
  from assms(1) have k: "keeps_r0 (VR4300_ICB env)"
    by (simp add: collaborators_keep_r0_def)
  from assms(3) show ?thesis
  proof (cases rule: rf_stage_cases)
    case (1 t)
    then show ?thesis using k assms(2) by (simp add: keeps_r0D)
  next
    case 2
    then show ?thesis using assms(2) by simp
  qed
qed

lemma slow_rf_r0:
  assumes "collaborators_keep_r0 env" "regs s 0 = 0" "vr4300_cycle_slow_rf env s = Inr s'"
  shows "regs s' 0 = 0"
proof (cases "fault (icrf_common (icrf_latch (pipeline s))) = VR4300_FAULT_NONE")
  case True
  with assms(3) have
    "(case vr4300_rf_stage env s of Inl e \<Rightarrow> Inl e
      | Inr (r, s1) \<Rightarrow> if r \<noteq> 0 then Inr s1 else vr4300_cycle_slow_ic env s1) = Inr s'"
    by (simp add: vr4300_cycle_slow_rf_def)
  then show ?thesis
  proof (cases rule: stage_then_cases)
    case (1 r)
    then show ?thesis using rf_stage_r0 [OF assms(1,2)] by simp
  next
    case (2 s1)
    then show ?thesis using rf_stage_r0 [OF assms(1,2)] slow_ic_r0 [OF assms(1)] by blast
  qed
next
  case False
  with assms(3) have
    "vr4300_cycle_slow_ic env
       (upd_rfex (\<lambda>l. l\<lparr>rfex_common := icrf_common (icrf_latch (pipeline s))\<rparr>) s) = Inr s'"
    by (simp add: vr4300_cycle_slow_rf_def)
  from slow_ic_r0 [OF assms(1) _ this] show ?thesis
    by (simp add: upd_simps assms(2))
qed

lemma ex_forward_r0:
  assumes "regs s 0 = 0" "ex_forward s rs rt = (a, b, s')"
  shows "regs s' 0 = 0"
  using assms by (auto simp add: ex_forward_def Let_def VR4300_REGISTER_R0_def)

lemma ex_stage_r0:
  assumes "collaborators_keep_r0 env" "regs s 0 = 0" "vr4300_ex_stage env s = (r, s')"
  shows "regs s' 0 = 0"
proof (cases "ex_ldi env s")
  case True
  with assms(3) have "s' = VR4300_LDI env
      (upd_exdc (\<lambda>l. l\<lparr>exdc_common := rfex_common (rfex_latch (pipeline s))\<rparr>) s)"
    by (simp add: vr4300_ex_stage_def Let_def)
  moreover from assms(1) have "keeps_r0 (VR4300_LDI env)"
    by (simp add: collaborators_keep_r0_def)
  ultimately show ?thesis
    using assms(2) by (simp add: keeps_r0D upd_simps)
next
  case False
  obtain a b s2 where fw:
    "ex_forward (upd_exdc (\<lambda>l. l\<lparr>exdc_common := rfex_common (rfex_latch (pipeline s))\<rparr>) s)
       (ex_rs env s) (ex_rt env s) = (a, b, s2)"
    by (metis prod_cases3)
  have r2: "regs s2 0 = 0"
    using ex_forward_r0 [OF _ fw] assms(2) by (simp add: upd_simps)
  from assms(1) have ft: "keeps_r0 (\<lambda>s. snd (vr4300_function_table env i s iw x y))" for i iw x y
    by (simp add: collaborators_keep_r0_def)
  from False fw assms(3) have
    "s' = snd (vr4300_function_table env (opcode_id (rfex_opcode (rfex_latch (pipeline s))))
             (upd_exdc (\<lambda>l. l\<lparr>exdc_dest := of_nat VR4300_REGISTER_R0,
                exdc_request := (exdc_request l)\<lparr>request_type := VR4300_BUS_REQUEST_NONE\<rparr>\<rparr>) s2)
             (rfex_iw (rfex_latch (pipeline s))) a b)"
    by (simp add: vr4300_ex_stage_def Let_def)
  then show ?thesis
    using keeps_r0D [OF ft] r2 by (simp add: upd_simps)
qed

lemma slow_ex_r0:
  assumes "collaborators_keep_r0 env" "regs s 0 = 0" "vr4300_cycle_slow_ex env s = Inr s'"
  shows "regs s' 0 = 0"
proof (cases "fault (rfex_common (rfex_latch (pipeline s))) = VR4300_FAULT_NONE")
  case True
  with assms(3) have
    "(case vr4300_ex_stage env s of
        (r, s1) \<Rightarrow> if r \<noteq> 0 then Inr s1 else vr4300_cycle_slow_rf env s1) = Inr s'"
    by (simp add: vr4300_cycle_slow_ex_def)
  then show ?thesis
  proof (cases rule: stage_then_cases')
    case (1 r)
    then show ?thesis using ex_stage_r0 [OF assms(1,2)] by simp
  next
    case (2 s1)
    then show ?thesis using ex_stage_r0 [OF assms(1,2)] slow_rf_r0 [OF assms(1)] by blast
  qed
next
  case False
  with assms(3) have
    "vr4300_cycle_slow_rf env
       (upd_exdc (\<lambda>l. l\<lparr>exdc_common := rfex_common (rfex_latch (pipeline s))\<rparr>) s) = Inr s'"
    by (simp add: vr4300_cycle_slow_ex_def)
  from slow_rf_r0 [OF assms(1) _ this] show ?thesis
    by (simp add: upd_simps assms(2))
qed

lemma dc_cache_access_r0:
  assumes "collaborators_keep_r0 env" "regs s 0 = 0" "dc_cache_access env s seg = Inr (r, s')"
  shows "regs s' 0 = 0"
proof -
  let ?request = "exdc_request (exdc_latch (pipeline s))"
  from assms(1) have dcm: "keeps_r0 (VR4300_DCM env)"
    by (simp add: collaborators_keep_r0_def)
  from assms(3) obtain paddr where tr: "tlb_translate env s seg (vaddr ?request) = Inr paddr"
    by (auto simp add: dc_cache_access_def Let_def split: sum.splits)
  show ?thesis
  proof (cases "if cached seg then vr4300_dcache_probe env (dcache s) (vaddr ?request) paddr
                else None")
    case None
    with assms(3) tr have "s' = VR4300_DCM env (upd_exdc (\<lambda>l. l\<lparr>exdc_request :=
                            (exdc_request l)\<lparr>request_paddr := paddr\<rparr>\<rparr>) s)"
      by (simp add: dc_cache_access_def Let_def)
    then show ?thesis
      using dcm assms(2) by (simp add: keeps_r0D upd_simps)
  next
    case (Some h)
    show ?thesis
    proof (cases "request_type ?request")
      case VR4300_BUS_REQUEST_READ
      with assms(3) tr Some obtain v where "s' = upd_dcwb (\<lambda>l. l\<lparr>dcwb_result := v\<rparr>) s"
        by (auto simp add: dc_cache_access_def Let_def split: sum.splits)
      then show ?thesis using assms(2) by (simp add: upd_simps)
    next
      case VR4300_BUS_REQUEST_WRITE
      with assms(3) tr Some have "regs s' = regs s"
        by (auto simp add: dc_cache_access_def Let_def)
      then show ?thesis using assms(2) by simp
    next
      case VR4300_BUS_REQUEST_NONE
      with assms(3) tr Some show ?thesis
        by (simp add: dc_cache_access_def Let_def)
    next
      case VR4300_BUS_REQUEST_OTHER
      with assms(3) tr Some show ?thesis
        by (simp add: dc_cache_access_def Let_def)
    qed
  qed
qed

lemma dc_access_r0:
  assumes "collaborators_keep_r0 env" "regs s 0 = 0" "dc_access env s = Inr (r, s')"
  shows "regs s' 0 = 0"
proof -
  let ?exdc = "exdc_latch (pipeline s)"
  from assms(1) have dade: "keeps_r0 (VR4300_DADE env)"
    by (simp add: collaborators_keep_r0_def)
  show ?thesis
  proof (cases "seg_length (exdc_segment ?exdc) \<le> vaddr (exdc_request ?exdc) - start (exdc_segment ?exdc)")
    case True
    show ?thesis
    proof (cases "get_segment env (vaddr (exdc_request ?exdc))
                    (ucast (regs s (VR4300_CP0_REGISTER_STATUS env)))")
      case None
      with True assms(3) have "s' = VR4300_DADE env s"
        by (simp add: dc_access_def Let_def )
      then show ?thesis using dade assms(2) by (simp add: keeps_r0D)
    next
      case (Some seg')
      with True assms(3) have
        "dc_cache_access env (upd_exdc (\<lambda>l. l\<lparr>exdc_segment := seg'\<rparr>) s) seg' = Inr (r, s')"
        by (simp add: dc_access_def Let_def )
      from dc_cache_access_r0 [OF assms(1) _ this] show ?thesis
        by (simp add: upd_simps assms(2))
    qed
  next
    case False
    with assms(3) have "dc_cache_access env s (exdc_segment ?exdc) = Inr (r, s')"
      by (simp add: dc_access_def Let_def )
    from dc_cache_access_r0 [OF assms(1) assms(2) this] show ?thesis .
  qed
qed

lemma dc_stage_r0:
  assumes "collaborators_keep_r0 env" "regs s 0 = 0" "vr4300_dc_stage env s = Inr (r, s')"
  shows "regs s' 0 = 0"
proof -
  let ?s1 = "upd_dcwb (\<lambda>l. l\<lparr>dcwb_common := exdc_common (exdc_latch (pipeline s)),
                 dcwb_result := exdc_result (exdc_latch (pipeline s)),
                 dcwb_dest := exdc_dest (exdc_latch (pipeline s))\<rparr>) s"
  have r1: "regs ?s1 0 = 0" using assms(2) by (simp add: upd_simps)
  from assms(1) have k: "keeps_r0 (VR4300_RST env)" "keeps_r0 (VR4300_INTR env)"
    by (simp_all add: collaborators_keep_r0_def)
  show ?thesis
  proof (cases "signals s AND VR4300_SIGNAL_COLDRESET env \<noteq> 0")
    case True
    with assms(3) have "s' = VR4300_RST env ?s1"
      by (simp add: vr4300_dc_stage_def Let_def)
    then show ?thesis using k r1 by (simp add: keeps_r0D)
  next
    case reset: False
    show ?thesis
    proof (cases "interrupt_pending (ucast (regs s (VR4300_CP0_REGISTER_CAUSE env)))
                    (ucast (regs s (VR4300_CP0_REGISTER_STATUS env)))")
      case True
      with reset assms(3) have "s' = VR4300_INTR env ?s1"
        by (simp add: vr4300_dc_stage_def Let_def)
      then show ?thesis using k r1 by (simp add: keeps_r0D)
    next
      case intr: False
      show ?thesis
      proof (cases "request_type (exdc_request (exdc_latch (pipeline s))) \<noteq> VR4300_BUS_REQUEST_NONE")
        case True
        with reset intr assms(3) have "dc_access env ?s1 = Inr (r, s')"
          by (simp add: vr4300_dc_stage_def Let_def)
        from dc_access_r0 [OF assms(1) r1 this] show ?thesis .
      next
        case False
        with reset intr assms(3) have "s' = ?s1"
          by (simp add: vr4300_dc_stage_def Let_def)
        then show ?thesis using r1 by simp
      qed
    qed
  qed
qed

lemma wb_stage_r0: "regs (snd (vr4300_wb_stage s)) 0 = 0"
  by (simp add: vr4300_wb_stage_def Let_def VR4300_REGISTER_R0_def)

lemma slow_dc_r0:
  assumes "collaborators_keep_r0 env" "regs s 0 = 0" "vr4300_cycle_slow_dc env s = Inr s'"
  shows "regs s' 0 = 0"
proof (cases "fault (exdc_common (exdc_latch (pipeline s))) = VR4300_FAULT_NONE")
  case True
  with assms(3) have
    "(case vr4300_dc_stage env s of Inl e \<Rightarrow> Inl e
      | Inr (r, s1) \<Rightarrow> if r \<noteq> 0 then Inr s1 else vr4300_cycle_slow_ex env s1) = Inr s'"
    by (simp add: vr4300_cycle_slow_dc_def)
  then show ?thesis
  proof (cases rule: stage_then_cases)
    case (1 r)
    then show ?thesis using dc_stage_r0 [OF assms(1,2)] by simp
  next
    case (2 s1)
    then show ?thesis using dc_stage_r0 [OF assms(1,2)] slow_ex_r0 [OF assms(1)] by blast
  qed
next
  case False
  with assms(3) have
    "vr4300_cycle_slow_ex env
       (upd_dcwb (\<lambda>l. l\<lparr>dcwb_common := exdc_common (exdc_latch (pipeline s)),
             dcwb_dest := 0, dcwb_result := 0\<rparr>) s) = Inr s'"
    by (simp add: vr4300_cycle_slow_dc_def)
  from slow_ex_r0 [OF assms(1) _ this] show ?thesis
    by (simp add: upd_simps assms(2))
qed

lemma slow_wb_r0:
  assumes "collaborators_keep_r0 env" "regs s 0 = 0" "vr4300_cycle_slow_wb env s = Inr s'"
  shows "regs s' 0 = 0"
proof -
  let ?s0 = "slow_wb_history s"
  have r0: "regs ?s0 0 = 0" using assms(2) by (simp add: slow_wb_history_def Let_def)
  show ?thesis
  proof (cases "fault (dcwb_common (dcwb_latch (pipeline ?s0))) = VR4300_FAULT_NONE")
    case True
    with assms(3) have "vr4300_cycle_slow_dc env (snd (vr4300_wb_stage ?s0)) = Inr s'"
      by (simp add: vr4300_cycle_slow_wb_def slow_wb_stages_def vr4300_wb_stage_def Let_def)
    from slow_dc_r0 [OF assms(1) wb_stage_r0 this] show ?thesis .
  next
    case False
    with assms(3) have "vr4300_cycle_slow_dc env ?s0 = Inr s'"
      by (simp add: vr4300_cycle_slow_wb_def slow_wb_stages_def)
    from slow_dc_r0 [OF assms(1) r0 this] show ?thesis .
  qed
qed

lemma run_stages_preserves:
  assumes "\<And>f t r t'. f \<in> set fs \<Longrightarrow> P t \<Longrightarrow> f t = Inr (r, t') \<Longrightarrow> P t'"
      and "P s" and "run_stages fs s = Inr s'"
  shows "P s'"
  using assms
proof (induction fs arbitrary: s)
  case Nil
  then show ?case by simp
next
  case (Cons f fs)
  from Cons.prems(3) obtain r s1 where f: "f s = Inr (r, s1)"
    and rest: "(r \<noteq> 0 \<and> s' = s1) \<or> (r = 0 \<and> run_stages fs s1 = Inr s')"
    by (auto split: sum.splits prod.splits if_splits)
  have p1: "P s1" using Cons.prems(1) [of f s r s1] Cons.prems(2) f by simp
  from rest show ?case
  proof
    assume "r \<noteq> 0 \<and> s' = s1"
    with p1 show ?thesis by simp
  next
    assume "r = 0 \<and> run_stages fs s1 = Inr s'"
    then have h: "run_stages fs s1 = Inr s'" by simp
    show ?thesis
    proof (rule Cons.IH [OF _ p1 h])
      fix g t r t'
      assume "g \<in> set fs" "P t" "g t = Inr (r, t')"
      then show "P t'" using Cons.prems(1) [of g t r t'] by simp
    qed
  qed
qed

lemma cycle_fast_r0:
  assumes "collaborators_keep_r0 env" "regs s 0 = 0" "cycle_fast env s = Inr s'"
  shows "regs s' 0 = 0"
proof (rule run_stages_preserves [where P = "\<lambda>t. regs t 0 = 0"
          and fs = "stages_in_reverse_program_order env" and s = s])
  show "regs s 0 = 0" by (fact assms(2))
  show "run_stages (stages_in_reverse_program_order env) s = Inr s'"
    using assms(3) by (simp add: cycle_fast_run_stages)
  fix f t r t'
  assume f: "f \<in> set (stages_in_reverse_program_order env)"
    and t: "regs t 0 = 0" and ft: "f t = Inr (r, t')"
  from f consider "f = (\<lambda>s. Inr (vr4300_wb_stage s))" | "f = vr4300_dc_stage env"
    | "f = (\<lambda>s. Inr (vr4300_ex_stage env s))" | "f = vr4300_rf_stage env"
    | "f = (\<lambda>s. Inr (vr4300_ic_stage env s))"
    by (auto simp add: stages_in_reverse_program_order_def)
  then show "regs t' 0 = 0"
  proof cases
    case 1
    with ft have "t' = snd (vr4300_wb_stage t)" by auto
    then show ?thesis by (simp add: wb_stage_r0)
  next
    case 2
    with ft dc_stage_r0 [OF assms(1) t] show ?thesis by simp
  next
    case 3
    with ft ex_stage_r0 [OF assms(1) t] show ?thesis by simp
  next
    case 4
    with ft rf_stage_r0 [OF assms(1) t] show ?thesis by simp
  next
    case 5
    with ft have "t' = snd (vr4300_ic_stage env t)" by auto
    then show ?thesis using ic_stage_r0 [OF assms(1) t] by simp
  qed
qed


lemma cycle_counters_r0:
  assumes "VR4300_CP0_REGISTER_COUNT env \<noteq> 0" "VR4300_CP0_REGISTER_CAUSE env \<noteq> 0"
      and "regs s 0 = 0"
  shows "regs (cycle_counters env s) 0 = 0"
  using assms by (simp add: cycle_counters_def Let_def)

lemma cycle_dispatch_r0:
  assumes "collaborators_keep_r0 env" "regs s 0 = 0" "cycle_dispatch env s = Inr s'"
  shows "regs s' 0 = 0"
proof (cases "(if fault_present (pipeline s) then 1 else 0) + regs s (PIPELINE_CYCLE_TYPE env) \<noteq> 0")
  case False
  with assms(3) have "cycle_fast env s = Inr s'"
    by (simp add: cycle_dispatch_def Let_def)
  from cycle_fast_r0 [OF assms(1,2) this] show ?thesis .
next
  case True
  let ?n = "unat (regs s (PIPELINE_CYCLE_TYPE env))"
  from True assms(3) have n: "?n < 7" and run: "(pipeline_function_lut env ! ?n) s = Inr s'"
    by (auto simp add: cycle_dispatch_def Let_def pipeline_function_lut_def split: if_splits)
  from assms(1) have dcb: "keeps_r0 (VR4300_DCB env)" and intr: "keeps_r0 (VR4300_INTR env)"
    by (simp_all add: collaborators_keep_r0_def)
  from n consider "?n = 0" | "?n = 1" | "?n = 2" | "?n = 3" | "?n = 4" | "?n = 5" | "?n = 6"
    by linarith
  then show ?thesis
  proof cases
    case 1
    with run slow_wb_r0 [OF assms(1,2)] show ?thesis by (simp add: pipeline_function_lut_def)
  next
    case 2
    with run slow_dc_r0 [OF assms(1,2)] show ?thesis by (simp add: pipeline_function_lut_def)
  next
    case 3
    with run slow_ex_r0 [OF assms(1,2)] show ?thesis by (simp add: pipeline_function_lut_def)
  next
    case 4
    with run slow_rf_r0 [OF assms(1,2)] show ?thesis by (simp add: pipeline_function_lut_def)
  next
    case 5
    with run slow_ic_r0 [OF assms(1,2)] show ?thesis by (simp add: pipeline_function_lut_def)
  next
    case 6
    with run have "s' = VR4300_INTR env s \<or> s' = s"
      by (auto simp add: pipeline_function_lut_def vr4300_cycle_busywait_def Let_def
            split: if_splits)
    then show ?thesis using intr assms(2) by (auto simp add: keeps_r0D)
  next
    case 7
    with run have "s' = VR4300_DCB env s"
      by (simp add: pipeline_function_lut_def)
    then show ?thesis using dcb assms(2) by (simp add: keeps_r0D)
  qed
qed

text \<open>
  C1. After every tick of \<open>vr4300_cycle\<close> the architectural zero register, index 0 of
  the register file, reads as zero. Three parts: the writeback stage leaves register zero
  at zero whatever it wrote; the operand read of the EX stage returns zero for register
  zero whatever the forwarded result and its destination are; and a tick that starts with
  register zero at zero ends with it at zero, on the stall path, the fast path and every
  slow-path entry, provided the collaborators called on the way (fault raisers, opcode
  functions) do not write register zero themselves and the Count and Cause registers are
  not slot 0.
\<close>

theorem register_zero_reads_zero:
  "regs (snd (vr4300_wb_stage s)) VR4300_REGISTER_R0 = 0 \<and>
   fst (ex_forward s (of_nat VR4300_REGISTER_R0) rt) = 0 \<and>
   fst (snd (ex_forward s rs (of_nat VR4300_REGISTER_R0))) = 0 \<and>
   (collaborators_keep_r0 env \<and>
    VR4300_CP0_REGISTER_COUNT env \<noteq> VR4300_REGISTER_R0 \<and>
    VR4300_CP0_REGISTER_CAUSE env \<noteq> VR4300_REGISTER_R0 \<and>
    regs s VR4300_REGISTER_R0 = 0 \<and> vr4300_cycle env s = Inr s'
      \<longrightarrow> regs s' VR4300_REGISTER_R0 = 0)"
proof (intro conjI impI)
  show "regs (snd (vr4300_wb_stage s)) VR4300_REGISTER_R0 = 0"
    by (simp add: vr4300_wb_stage_def Let_def)
  show "fst (ex_forward s (of_nat VR4300_REGISTER_R0) rt) = 0"
    by (simp add: ex_forward_def Let_def VR4300_REGISTER_R0_def)
  show "fst (snd (ex_forward s rs (of_nat VR4300_REGISTER_R0))) = 0"
    by (simp add: ex_forward_def Let_def VR4300_REGISTER_R0_def)
next
  assume a: "collaborators_keep_r0 env \<and>
    VR4300_CP0_REGISTER_COUNT env \<noteq> VR4300_REGISTER_R0 \<and>
    VR4300_CP0_REGISTER_CAUSE env \<noteq> VR4300_REGISTER_R0 \<and>
    regs s VR4300_REGISTER_R0 = 0 \<and> vr4300_cycle env s = Inr s'"
  let ?s1 = "cycle_counters env s"
  from a have r1: "regs ?s1 0 = 0"
    by (simp add: cycle_counters_r0 VR4300_REGISTER_R0_def)
  show "regs s' VR4300_REGISTER_R0 = 0"
  proof (cases "0 < cycles_to_stall (pipeline ?s1)")
    case True
    with a have "regs s' = regs ?s1"
      by (auto simp add: vr4300_cycle_def Let_def)
    with r1 show ?thesis by (simp add: VR4300_REGISTER_R0_def)
  next
    case False
    with a have "cycle_dispatch env ?s1 = Inr s'"
      by (simp add: vr4300_cycle_def Let_def)
    from cycle_dispatch_r0 [OF _ r1 this] a show ?thesis
      by (simp add: VR4300_REGISTER_R0_def)
  qed
qed

lemma test_env_keeps_r0: "collaborators_keep_r0 test_env"
  by (simp add: collaborators_keep_r0_def keeps_r0_def test_env_def test_raise_def
        tag_dcwb_def tag_exdc_def tag_rfex_def tag_icrf_def upd_simps VR4300_REGISTER_R0_def)

theorem register_zero_reads_zero_witness:
  "\<exists>s'. vr4300_cycle test_env test_state = Inr s' \<and> regs s' VR4300_REGISTER_R0 = 0"
proof -
  have "\<exists>s'. vr4300_cycle test_env test_state = Inr s'"
    by (simp add: model_defs test_defs Let_def)
  then obtain s' where c: "vr4300_cycle test_env test_state = Inr s'" ..
  have i: "VR4300_CP0_REGISTER_COUNT test_env \<noteq> VR4300_REGISTER_R0"
          "VR4300_CP0_REGISTER_CAUSE test_env \<noteq> VR4300_REGISTER_R0"
          "regs test_state VR4300_REGISTER_R0 = 0"
    by (simp_all add: test_env_def test_state_def VR4300_REGISTER_R0_def)
  from register_zero_reads_zero [of test_state 0 0 test_env s'] c i test_env_keeps_r0
  show ?thesis by simp
qed

subsection \<open>The driver: fast path or slow-path table\<close>

text \<open>
  C2. A tick with no outstanding stall cycles takes one of two ways, decided after the
  counters have advanced. If the fault-present flag is clear and the pipeline-cycle-type
  slot is zero, the five stages run in reverse program order (WB, DC, EX, RF, IC) and
  the tick stops at the first stage that reports an abort. If either is set, the tick is
  the entry of the slow-path table that the cycle type indexes; the table has seven
  entries, and the cycle type is taken to be one of its indexes.
\<close>

theorem cycle_dispatches_fast_or_slow:
  assumes "cycles_to_stall (pipeline s) = 0"
  shows "(\<not> fault_present (pipeline (cycle_counters env s)) \<and>
          regs (cycle_counters env s) (PIPELINE_CYCLE_TYPE env) = 0 \<longrightarrow>
            vr4300_cycle env s =
              run_stages (stages_in_reverse_program_order env) (cycle_counters env s)) \<and>
         ((fault_present (pipeline (cycle_counters env s)) \<or>
           regs (cycle_counters env s) (PIPELINE_CYCLE_TYPE env) \<noteq> 0) \<and>
          unat (regs (cycle_counters env s) (PIPELINE_CYCLE_TYPE env)) < 7 \<longrightarrow>
            vr4300_cycle env s =
              ([vr4300_cycle_slow_wb env, vr4300_cycle_slow_dc env, vr4300_cycle_slow_ex env,
                vr4300_cycle_slow_rf env, vr4300_cycle_slow_ic env, vr4300_cycle_busywait env,
                (\<lambda>s. Inr (VR4300_DCB env s))]
               ! unat (regs (cycle_counters env s) (PIPELINE_CYCLE_TYPE env)))
              (cycle_counters env s))"
proof -
  have stall: "cycles_to_stall (pipeline (cycle_counters env s)) = 0"
    using assms by (simp add: cycle_counters_def Let_def)
  have wrap: "1 + w \<noteq> 0" if "unat w < 7" for w :: "64 word"
  proof
    assume "1 + w = 0"
    then have "w = - 1" by (simp add: add_eq_0_iff)
    then have "unat w = 2 ^ 64 - 1"
      by (simp add: unsigned_minus_1_eq_mask mask_eq_exp_minus_1)
    with that show False by simp
  qed
  show ?thesis
    using stall wrap
    by (auto simp add: vr4300_cycle_def cycle_dispatch_def Let_def cycle_fast_run_stages
          pipeline_function_lut_def)
qed

theorem cycle_dispatches_fast_or_slow_witness:
  "cycles_to_stall (pipeline test_state) = 0 \<and>
   vr4300_cycle test_env test_state =
     run_stages (stages_in_reverse_program_order test_env) (cycle_counters test_env test_state) \<and>
   vr4300_cycle test_env armed_state =
     vr4300_cycle_slow_wb test_env (cycle_counters test_env armed_state)"
proof -
  have a: "cycles_to_stall (pipeline test_state) = 0"
          "\<not> fault_present (pipeline (cycle_counters test_env test_state))"
          "regs (cycle_counters test_env test_state) (PIPELINE_CYCLE_TYPE test_env) = 0"
    by (simp_all add: cycle_counters_def test_defs Let_def)
  have b: "cycles_to_stall (pipeline armed_state) = 0"
          "fault_present (pipeline (cycle_counters test_env armed_state))"
          "regs (cycle_counters test_env armed_state) (PIPELINE_CYCLE_TYPE test_env) = 0"
    by (simp_all add: cycle_counters_def armed_state_def test_defs Let_def)
  from cycle_dispatches_fast_or_slow [of test_state test_env, OF a(1)]
       cycle_dispatches_fast_or_slow [of armed_state test_env, OF b(1)] a b
  show ?thesis by simp
qed

subsection \<open>Exception precedence in the DC stage\<close>

lemma tlb_translate_INTR_indep:
  "tlb_translate (env\<lparr>VR4300_INTR := f\<rparr>) s seg va = tlb_translate env s seg va"
  by (simp add: tlb_translate_def)

lemma dc_cache_access_INTR_indep:
  "dc_cache_access (env\<lparr>VR4300_INTR := f\<rparr>) s seg = dc_cache_access env s seg"
  by (simp add: dc_cache_access_def tlb_translate_INTR_indep
        cong: if_cong option.case_cong sum.case_cong vr4300_bus_request_type.case_cong)

lemma dc_access_INTR_indep:
  "dc_access (env\<lparr>VR4300_INTR := f\<rparr>) s = dc_access env s"
  by (simp add: dc_access_def dc_cache_access_INTR_indep cong: if_cong option.case_cong)

text \<open>
  C3. The DC stage checks for exceptions before any memory work, in this order. A cold
  reset signal raises the reset fault and the stage aborts. Otherwise the interrupt fault
  is raised and the stage aborts exactly when \<open>Cause & Status & 0xFF00\<close> is nonzero,
  the IE bit \<open>Status & 1\<close> is set and the EXL and ERL bits \<open>Status & 6\<close> are both
  clear; in every other case, in particular with EXL or ERL set, the stage does not call
  the interrupt raiser at all: its outcome is the same whatever that raiser would do.
\<close>

theorem dc_stage_exception_precedence:
  "(signals s AND VR4300_SIGNAL_COLDRESET env \<noteq> 0 \<longrightarrow>
      vr4300_dc_stage env s =
        Inr (1, VR4300_RST env (upd_dcwb (\<lambda>l. l\<lparr>dcwb_common := exdc_common (exdc_latch (pipeline s)),
               dcwb_result := exdc_result (exdc_latch (pipeline s)),
               dcwb_dest := exdc_dest (exdc_latch (pipeline s))\<rparr>) s))) \<and>
   (signals s AND VR4300_SIGNAL_COLDRESET env = 0 \<longrightarrow>
      (let status = (ucast (regs s (VR4300_CP0_REGISTER_STATUS env)) :: 32 word);
           cause = (ucast (regs s (VR4300_CP0_REGISTER_CAUSE env)) :: 32 word)
       in if cause AND status AND 0xFF00 \<noteq> 0 \<and> status AND 1 \<noteq> 0 \<and> status AND 6 = 0
          then vr4300_dc_stage env s =
                 Inr (1, VR4300_INTR env (upd_dcwb (\<lambda>l. l\<lparr>dcwb_common := exdc_common (exdc_latch (pipeline s)),
                        dcwb_result := exdc_result (exdc_latch (pipeline s)),
                        dcwb_dest := exdc_dest (exdc_latch (pipeline s))\<rparr>) s))
          else (\<forall>f. vr4300_dc_stage (env\<lparr>VR4300_INTR := f\<rparr>) s = vr4300_dc_stage env s)))"
  by (simp add: vr4300_dc_stage_def interrupt_pending_def Let_def dc_access_INTR_indep)

theorem dc_stage_exception_precedence_witness:
  "(\<exists>t. vr4300_dc_stage test_env reset_signal_state = Inr (1, t) \<and>
        fault (dcwb_c (pipeline t)) = VR4300_FAULT_RST) \<and>
   (\<exists>t. vr4300_dc_stage test_env interrupt_state = Inr (1, t) \<and>
        fault (dcwb_c (pipeline t)) = VR4300_FAULT_INTR) \<and>
   (\<exists>t. vr4300_dc_stage test_env masked_interrupt_state = Inr (0, t) \<and>
        fault (dcwb_c (pipeline t)) = VR4300_FAULT_NONE)"
proof -
  have r: "signals reset_signal_state AND VR4300_SIGNAL_COLDRESET test_env \<noteq> 0"
    by (simp add: reset_signal_state_def interrupt_state_def test_defs)
  have n: "signals interrupt_state AND VR4300_SIGNAL_COLDRESET test_env = 0"
          "signals masked_interrupt_state AND VR4300_SIGNAL_COLDRESET test_env = 0"
    by (simp_all add: interrupt_state_def masked_interrupt_state_def test_defs)
  from dc_stage_exception_precedence [of reset_signal_state test_env] r
  have "vr4300_dc_stage test_env reset_signal_state =
      Inr (1, VR4300_RST test_env
        (upd_dcwb (\<lambda>l. l\<lparr>dcwb_common := exdc_common (exdc_latch (pipeline reset_signal_state)),
               dcwb_result := exdc_result (exdc_latch (pipeline reset_signal_state)),
               dcwb_dest := exdc_dest (exdc_latch (pipeline reset_signal_state))\<rparr>)
           reset_signal_state))"
    by simp
  then have one: "\<exists>t. vr4300_dc_stage test_env reset_signal_state = Inr (1, t) \<and>
        fault (dcwb_c (pipeline t)) = VR4300_FAULT_RST"
    by (simp add: dcwb_c_def test_env_def test_raise_def tag_dcwb_def upd_simps)
  from dc_stage_exception_precedence [of interrupt_state test_env] n(1)
  have "vr4300_dc_stage test_env interrupt_state =
      Inr (1, VR4300_INTR test_env
        (upd_dcwb (\<lambda>l. l\<lparr>dcwb_common := exdc_common (exdc_latch (pipeline interrupt_state)),
               dcwb_result := exdc_result (exdc_latch (pipeline interrupt_state)),
               dcwb_dest := exdc_dest (exdc_latch (pipeline interrupt_state))\<rparr>)
           interrupt_state))"
    by (simp add: interrupt_state_def test_env_def test_state_def Let_def)
  then have two: "\<exists>t. vr4300_dc_stage test_env interrupt_state = Inr (1, t) \<and>
        fault (dcwb_c (pipeline t)) = VR4300_FAULT_INTR"
    by (simp add: dcwb_c_def test_env_def test_raise_def tag_dcwb_def upd_simps)
  have three: "\<exists>t. vr4300_dc_stage test_env masked_interrupt_state = Inr (0, t) \<and>
        fault (dcwb_c (pipeline t)) = VR4300_FAULT_NONE"
    by (simp add: dcwb_c_def masked_interrupt_state_def model_defs test_defs Let_def)
  from one two three show ?thesis by simp
qed

subsection \<open>Counters\<close>

text \<open>
  C7. Every call of \<open>vr4300_cycle\<close> adds one to the cycle counter, and does so first:
  the stall check and the stages see the counters already advanced, and on the stall path
  nothing else changes but the stall count. The same step adds the low bit of the new
  cycle count to Count, so Count advances on every second cycle; and when the low 32 bits
  of Count and Compare are then equal (as they are when the registers are equal) it sets
  bit 15 of Cause, otherwise it leaves Cause alone. Count, Compare and Cause are taken to
  be three different registers.
\<close>

theorem cycle_counts_before_anything_else:
  assumes "VR4300_CP0_REGISTER_CAUSE env \<noteq> VR4300_CP0_REGISTER_COUNT env"
      and "VR4300_CP0_REGISTER_COMPARE env \<noteq> VR4300_CP0_REGISTER_COUNT env"
      and "VR4300_CP0_REGISTER_CAUSE env \<noteq> VR4300_CP0_REGISTER_COMPARE env"
  shows "cycles (cycle_counters env s) = cycles s + 1 \<and>
         vr4300_cycle env s =
           (if 0 < cycles_to_stall (pipeline s)
            then Inr ((cycle_counters env s)\<lparr>pipeline := (pipeline s)\<lparr>cycles_to_stall :=
                        cycles_to_stall (pipeline s) - 1\<rparr>\<rparr>)
            else cycle_dispatch env (cycle_counters env s)) \<and>
         regs (cycle_counters env s) (VR4300_CP0_REGISTER_COUNT env) =
           regs s (VR4300_CP0_REGISTER_COUNT env) + (if even (cycles s) then 1 else 0) \<and>
         regs (cycle_counters env s) (VR4300_CP0_REGISTER_COMPARE env) =
           regs s (VR4300_CP0_REGISTER_COMPARE env) \<and>
         (if (ucast (regs (cycle_counters env s) (VR4300_CP0_REGISTER_COUNT env)) :: 32 word) =
             ucast (regs (cycle_counters env s) (VR4300_CP0_REGISTER_COMPARE env))
          then regs (cycle_counters env s) (VR4300_CP0_REGISTER_CAUSE env) =
                 regs s (VR4300_CP0_REGISTER_CAUSE env) OR 0x8000
          else regs (cycle_counters env s) (VR4300_CP0_REGISTER_CAUSE env) =
                 regs s (VR4300_CP0_REGISTER_CAUSE env))"
proof -
  have low: "(cycles s + 1) AND 1 = (if even (cycles s) then 1 else 0)"
    by (simp add: and_one_eq mod_2_eq_odd)
  have pl: "pipeline (cycle_counters env s) = pipeline s"
    by (simp add: cycle_counters_def Let_def)
  show ?thesis
    using assms low
    by (simp add: vr4300_cycle_def pl) (simp add: cycle_counters_def Let_def)
qed

theorem cycle_counts_before_anything_else_witness:
  "cycles (cycle_counters test_env compare_state) = 1 \<and>
   regs (cycle_counters test_env compare_state) 41 = 6 \<and>
   regs (cycle_counters test_env compare_state) 45 = 0x8000 \<and>
   regs (cycle_counters test_env (cycle_counters test_env compare_state)) 41 = 6"
proof -
  have d: "VR4300_CP0_REGISTER_CAUSE test_env \<noteq> VR4300_CP0_REGISTER_COUNT test_env"
          "VR4300_CP0_REGISTER_COMPARE test_env \<noteq> VR4300_CP0_REGISTER_COUNT test_env"
          "VR4300_CP0_REGISTER_CAUSE test_env \<noteq> VR4300_CP0_REGISTER_COMPARE test_env"
    by (simp_all add: test_env_def)
  have i: "VR4300_CP0_REGISTER_COUNT test_env = 41" "VR4300_CP0_REGISTER_COMPARE test_env = 43"
          "VR4300_CP0_REGISTER_CAUSE test_env = 45"
    by (simp_all add: test_env_def)
  have v: "cycles compare_state = 0" "regs compare_state 41 = 5" "regs compare_state 43 = 6"
          "regs compare_state 45 = 0"
    by (simp_all add: compare_state_def test_state_def)
  note one = cycle_counts_before_anything_else [of test_env compare_state, OF d]
  note two = cycle_counts_before_anything_else
               [of test_env "cycle_counters test_env compare_state", OF d]
  from one have c1: "cycles (cycle_counters test_env compare_state) = 1"
    and r1: "regs (cycle_counters test_env compare_state) 41 = 6"
    and m1: "regs (cycle_counters test_env compare_state) 43 = 6"
    by (simp_all add: i v)
  from one r1 m1 have k1: "regs (cycle_counters test_env compare_state) 45 = 0x8000"
    by (simp add: i v)
  from two c1 r1 have
    "regs (cycle_counters test_env (cycle_counters test_env compare_state)) 41 = 6"
    by (simp add: i)
  with c1 r1 k1 show ?thesis by simp
qed

subsection \<open>Initialisation\<close>

text \<open>
  C9, as the code has it. \<open>vr4300_pipeline_init\<close> stores the default segment
  descriptor in the IC/RF latch and in the EX/DC latch and changes nothing else: the
  C-latches, the program counter, the RF/EX and DC/WB latches, the bus request, the stall
  count, the exception history and the fault-present flag are as the caller left them.
\<close>

theorem pipeline_init_seeds_segments_only:
  "icrf_segment (icrf_latch (vr4300_pipeline_init env p)) = get_default_segment env \<and>
   exdc_segment (exdc_latch (vr4300_pipeline_init env p)) = get_default_segment env \<and>
   icrf_common (icrf_latch (vr4300_pipeline_init env p)) = icrf_common (icrf_latch p) \<and>
   icrf_pc (icrf_latch (vr4300_pipeline_init env p)) = icrf_pc (icrf_latch p) \<and>
   rfex_latch (vr4300_pipeline_init env p) = rfex_latch p \<and>
   exdc_common (exdc_latch (vr4300_pipeline_init env p)) = exdc_common (exdc_latch p) \<and>
   exdc_result (exdc_latch (vr4300_pipeline_init env p)) = exdc_result (exdc_latch p) \<and>
   exdc_dest (exdc_latch (vr4300_pipeline_init env p)) = exdc_dest (exdc_latch p) \<and>
   exdc_request (exdc_latch (vr4300_pipeline_init env p)) = exdc_request (exdc_latch p) \<and>
   dcwb_latch (vr4300_pipeline_init env p) = dcwb_latch p \<and>
   exception_history (vr4300_pipeline_init env p) = exception_history p \<and>
   cycles_to_stall (vr4300_pipeline_init env p) = cycles_to_stall p \<and>
   fault_present (vr4300_pipeline_init env p) = fault_present p"
  by (simp add: vr4300_pipeline_init_def Let_def)

text \<open>
  C9 as stated, that the call resets all four latches, fails: a pipeline whose RF/EX
  latch holds an instruction word and whose DC/WB latch names register 7 holds both after
  the call.
\<close>

theorem pipeline_init_keeps_latch_contents:
  "rfex_iw (rfex_latch (vr4300_pipeline_init test_env used_pipeline)) = 0x3C011234 \<and>
   dcwb_dest (dcwb_latch (vr4300_pipeline_init test_env used_pipeline)) = 7"
  by (simp add: vr4300_pipeline_init_def used_pipeline_def test_pipeline_def Let_def)

subsection \<open>A skipped DC stage\<close>



subsection \<open>Leaving the slow path\<close>









subsection \<open>Load delay interlock\<close>

lemma ex_flags_not_read:
  assumes "request_type (exdc_request (exdc_latch (pipeline s))) \<noteq> VR4300_BUS_REQUEST_READ"
  shows "ex_flags env s AND OPCODE_INFO_NEEDRS env = 0"
    and "ex_flags env s AND OPCODE_INFO_NEEDRT env = 0"
  using assms
  by (auto simp add: ex_flags_def Let_def bit_eq_iff bit_and_iff bit_not_iff bit_or_iff)

lemma ex_ldi_hazard: "ex_ldi env s \<longleftrightarrow> load_use_hazard env s"
proof (cases "request_type (exdc_request (exdc_latch (pipeline s))) = VR4300_BUS_REQUEST_READ")
  case True
  then have "ex_flags env s = flags (rfex_opcode (rfex_latch (pipeline s)))"
    by (simp add: ex_flags_def)
  with True show ?thesis
    by (simp add: ex_ldi_def load_use_hazard_def Let_def)
next
  case False
  then show ?thesis
    by (simp add: ex_ldi_def load_use_hazard_def Let_def ex_flags_not_read)
qed

lemma ex_forward_forwarded:
  "ex_forward s rs rt =
     (forwarded s rs, forwarded s rt,
      s\<lparr>regs := (if dcwb_dest (dcwb_latch (pipeline s)) = 0 then regs s
                 else (regs s)(VR4300_REGISTER_R0 := 0))\<rparr>)"
proof -
  let ?d = "dcwb_dest (dcwb_latch (pipeline s))"
  have u: "unat r = unat ?d \<longleftrightarrow> r = ?d" for r
    by (simp add: word_unat_eq_iff)
  have z: "unat ?d = 0 \<longleftrightarrow> ?d = 0"
    by (simp add: unat_eq_zero)
  have ops: "((regs s)(unat ?d := dcwb_result (dcwb_latch (pipeline s)), 0 := 0)) (unat r)
               = forwarded s r" for r
    by (simp add: forwarded_def VR4300_REGISTER_R0_def u)
  have rest: "((regs s)(unat ?d := dcwb_result (dcwb_latch (pipeline s)), 0 := 0))
                (unat ?d := regs s (unat ?d))
              = (if ?d = 0 then regs s else (regs s)(0 := 0))"
    by (auto simp add: fun_eq_iff z)
  show ?thesis
    by (simp only: ex_forward_def Let_def VR4300_REGISTER_R0_def ops rest)
qed

lemma ex_stage_issue:
  "vr4300_ex_stage env s =
     (if load_use_hazard env s
      then (1, VR4300_LDI env
                 (upd_exdc (\<lambda>l. l\<lparr>exdc_common := rfex_common (rfex_latch (pipeline s))\<rparr>) s))
      else ex_issue env s)"
proof -
  let ?s1 = "upd_exdc (\<lambda>l. l\<lparr>exdc_common := rfex_common (rfex_latch (pipeline s))\<rparr>) s"
  have f: "forwarded ?s1 r = forwarded s r" for r
    by (simp add: forwarded_def upd_simps)
  have d: "dcwb_dest (dcwb_latch (pipeline ?s1)) = dcwb_dest (dcwb_latch (pipeline s))"
    by (simp add: upd_simps)
  have swap: "(s\<lparr>regs := R\<rparr>)\<lparr>pipeline := P\<rparr> = (s\<lparr>pipeline := P\<rparr>)\<lparr>regs := R\<rparr>" for R P
    by (cases s) simp
  show ?thesis
    by (simp add: vr4300_ex_stage_def ex_ldi_hazard ex_forward_forwarded f d ex_issue_def Let_def)
       (simp add: upd_exdc_def VR4300_REGISTER_R0_def swap)
qed







subsection \<open>Stores and loads through the data cache\<close>

lemma bit_foldr_bytes:
  "bit (foldr (\<lambda>b w. ucast b OR push_bit 8 w) bs (0 :: 'a :: len word)) n \<longleftrightarrow>
     n < LENGTH('a) \<and> n div 8 < length bs \<and> bit (bs ! (n div 8) :: 8 word) (n mod 8)"
proof (induction bs arbitrary: n)
  case Nil
  then show ?case by simp
next
  case (Cons b bs)
  let ?w = "foldr (\<lambda>b w. ucast b OR push_bit 8 w) bs (0 :: 'a word)"
  have step: "bit (ucast b OR push_bit 8 ?w) n \<longleftrightarrow>
      (n < LENGTH('a) \<and> bit b n) \<or> (8 \<le> n \<and> n < LENGTH('a) \<and> bit ?w (n - 8))"
    by (simp add: bit_or_iff bit_ucast_iff bit_push_bit_iff)
  show ?case
  proof (cases "n < 8")
    case True
    then have "n div 8 = 0" "n mod 8 = n" by simp_all
    with True step show ?thesis by simp
  next
    case False
    define m where "m = n - 8"
    with False have n: "n = m + 8" by simp
    have dm: "(m + 8) div 8 = Suc (m div 8)" "(m + 8) mod 8 = m mod 8"
      by simp_all
    have nb: "\<not> bit b (m + 8)"
      using bit_imp_le_length [of b "m + 8"] by auto
    have ih: "bit ?w m \<longleftrightarrow>
        m < LENGTH('a) \<and> m div 8 < length bs \<and> bit (bs ! (m div 8)) (m mod 8)"
      by (rule Cons.IH)
    have "bit (ucast b OR push_bit 8 ?w) (m + 8) \<longleftrightarrow> m + 8 < LENGTH('a) \<and> bit ?w m"
      using step nb unfolding n by simp
    also have "\<dots> \<longleftrightarrow> m + 8 < LENGTH('a) \<and> Suc (m div 8) < length (b # bs) \<and>
        bit ((b # bs) ! Suc (m div 8)) (m mod 8)"
      unfolding ih by auto
    finally show ?thesis
      unfolding n dm by simp
  qed
qed

lemma bit_le_word32:
  "bit (le_word32 bs) n \<longleftrightarrow> n < 32 \<and> n div 8 < length bs \<and> bit (bs ! (n div 8)) (n mod 8)"
  by (simp add: le_word32_def bit_foldr_bytes)

lemma bit_le_word64:
  "bit (le_word64 bs) n \<longleftrightarrow> n < 64 \<and> n div 8 < length bs \<and> bit (bs ! (n div 8)) (n mod 8)"
  by (simp add: le_word64_def bit_foldr_bytes)

lemma le_bytes32_nth:
  "length (le_bytes32 w) = 4" "k < 4 \<Longrightarrow> le_bytes32 w ! k = ucast (drop_bit (8 * k) w)"
  by (simp_all add: le_bytes32_def)

lemma le_bytes64_nth:
  "length (le_bytes64 w) = 8" "k < 8 \<Longrightarrow> le_bytes64 w ! k = ucast (drop_bit (8 * k) w)"
  by (simp_all add: le_bytes64_def)

lemma bit_byte_of:
  "bit (ucast (drop_bit k w) :: 8 word) j \<longleftrightarrow> j < 8 \<and> bit w (k + j)"
  by (auto simp add: bit_simps)

lemma le_word32_bytes32: "le_word32 (le_bytes32 w) = w"
proof (rule bit_word_eqI)
  fix n assume "n < LENGTH(32)"
  then have "n < 32" "n div 8 < 4" "n mod 8 < 8" by simp_all
  then show "bit (le_word32 (le_bytes32 w)) n \<longleftrightarrow> bit w n"
    by (simp add: bit_le_word32 le_bytes32_nth bit_byte_of)
qed

lemma le_word64_bytes64: "le_word64 (le_bytes64 w) = w"
proof (rule bit_word_eqI)
  fix n assume "n < LENGTH(64)"
  then have "n < 64" "n div 8 < 8" "n mod 8 < 8" by simp_all
  then show "bit (le_word64 (le_bytes64 w)) n \<longleftrightarrow> bit w n"
    by (simp add: bit_le_word64 le_bytes64_nth bit_byte_of)
qed

lemma le_word32_low_bytes64: "le_word32 (take 4 (le_bytes64 w)) = ucast w"
proof (rule bit_word_eqI)
  fix n assume "n < LENGTH(32)"
  then have n: "n < 32" "n div 8 < 4" "n mod 8 < 8" by simp_all
  have "bit (ucast w :: 32 word) n \<longleftrightarrow> bit w n"
    using n(1) by (simp add: bit_ucast_iff)
  with n show "bit (le_word32 (take 4 (le_bytes64 w))) n \<longleftrightarrow> bit (ucast w :: 32 word) n"
    by (simp add: bit_le_word32 le_bytes64_nth bit_byte_of)
qed

lemma le_word32_high_bytes64: "le_word32 (drop 4 (le_bytes64 w)) = ucast (drop_bit 32 w)"
proof (rule bit_word_eqI)
  fix n assume "n < LENGTH(32)"
  then have n: "n < 32" "n div 8 < 4" "n mod 8 < 8" by simp_all
  have e: "8 * (4 + n div 8) + n mod 8 = 32 + n" by presburger
  have "bit (ucast (drop_bit 32 w) :: 32 word) n \<longleftrightarrow> bit w (32 + n)"
    using n(1) by (simp add: bit_ucast_iff bit_drop_bit_eq)
  with n e show "bit (le_word32 (drop 4 (le_bytes64 w))) n \<longleftrightarrow>
      bit (ucast (drop_bit 32 w) :: 32 word) n"
    by (simp add: bit_le_word32 le_bytes64_nth bit_byte_of add.commute)
qed

lemma put_bytes_window:
  "map (\<lambda>k. put_bytes d off bs (off + k)) [0 ..< length bs] = bs"
  by (auto simp add: put_bytes_def intro!: nth_equalityI)

lemma put_bytes_take:
  "n \<le> length bs \<Longrightarrow> map (\<lambda>k. put_bytes d off bs (off + k)) [0 ..< n] = take n bs"
  by (auto simp add: put_bytes_def intro!: nth_equalityI)

lemma put_bytes_drop:
  "m + n = length bs \<Longrightarrow> map (\<lambda>k. put_bytes d off bs (off + m + k)) [0 ..< n] = drop m bs"
  by (auto simp add: put_bytes_def intro!: nth_equalityI)

lemma memcpy_load_store32: "memcpy_load32 be (memcpy_store32 be d off w) off = w"
proof -
  have "map (\<lambda>k. put_bytes d off bs (off + k)) [0 ..< 4] = bs" if "length bs = 4" for bs
    using put_bytes_window [of d off bs] that by simp
  then show ?thesis
    by (simp add: memcpy_load32_def memcpy_store32_def Let_def le_bytes32_nth le_word32_bytes32)
qed

lemma memcpy_load32_store64_low:
  "memcpy_load32 False (memcpy_store64 False d off w) off = ucast w"
  using put_bytes_take [of 4 "le_bytes64 w" d off]
  by (simp add: memcpy_load32_def memcpy_store64_def Let_def le_bytes64_nth le_word32_low_bytes64)

lemma memcpy_load32_store64_high:
  "memcpy_load32 False (memcpy_store64 False d off w) (off + 4) = ucast (drop_bit 32 w)"
  using put_bytes_drop [of 4 4 "le_bytes64 w" d off]
  by (simp add: memcpy_load32_def memcpy_store64_def Let_def le_bytes64_nth le_word32_high_bytes64)


lemma lane_extract:
  fixes w :: "32 word" and B :: "64 word"
  assumes lsh: "l + n + sh = 32" and n: "0 < n"
      and lane: "\<And>i. i < n \<Longrightarrow> bit w (i + sh) \<longleftrightarrow> bit B i"
  shows "(scast (signed_drop_bit (l + sh) (push_bit l w)) :: 64 word) = signed_take_bit (n - 1) B"
proof (rule bit_word_eqI)
  fix i assume "i < LENGTH(64)"
  then have i64: "i < 64" by simp
  let ?y = "signed_drop_bit (l + sh) (push_bit l w)"
  have low: "bit ?y j \<longleftrightarrow> bit B j" if "j < n" for j
  proof -
    from that lsh have b: "j < 32" "l + sh + j < 32" "\<not> 32 - (l + sh) \<le> j" by simp_all
    have "bit ?y j \<longleftrightarrow> bit (push_bit l w) (l + sh + j)"
      using b by (simp add: bit_signed_drop_bit_iff)
    also have "\<dots> \<longleftrightarrow> bit w (j + sh)"
      using b by (simp add: bit_push_bit_iff add.commute)
    finally show ?thesis using lane [OF that] by simp
  qed
  have high: "bit ?y j \<longleftrightarrow> bit B (n - 1)" if "n \<le> j" "j < 32" for j
  proof -
    from that lsh n have b: "32 - (l + sh) \<le> j" "l \<le> 31" "31 - l = (n - 1) + sh" "n - 1 < n"
      by simp_all
    have "bit ?y j \<longleftrightarrow> bit (push_bit l w) 31"
      using b(1) that(2) by (simp add: bit_signed_drop_bit_iff)
    also have "\<dots> \<longleftrightarrow> bit w ((n - 1) + sh)"
      using b(2,3) by (simp add: bit_push_bit_iff)
    finally show ?thesis using lane [OF b(4)] by simp
  qed
  have top: "bit ?y 31 \<longleftrightarrow> bit B (n - 1)"
  proof (cases "n \<le> 31")
    case True
    then show ?thesis by (rule high) simp
  next
    case False
    with lsh have "n = 32" by simp
    then show ?thesis using low [of 31] by simp
  qed
  have y: "bit ?y j \<longleftrightarrow> bit B (min (n - 1) j)" if "j < 32" for j
  proof (cases "j < n")
    case True
    then have "min (n - 1) j = j" by simp
    with True low show ?thesis by simp
  next
    case False
    then have "min (n - 1) j = n - 1" by simp
    with False that high show ?thesis by simp
  qed
  show "bit (scast ?y :: 64 word) i \<longleftrightarrow> bit (signed_take_bit (n - 1) B) i"
  proof (cases "i < 32")
    case True
    then have "bit (scast ?y :: 64 word) i \<longleftrightarrow> bit ?y i"
      using i64 by (simp add: bit_word_scast_iff)
    with True y i64 show ?thesis
      by (simp add: bit_signed_take_bit_iff)
  next
    case False
    with lsh have m: "min (n - 1) i = n - 1" by simp
    have "\<not> bit ?y i"
      using bit_imp_le_length [of ?y i] False by auto
    with False have "bit (scast ?y :: 64 word) i \<longleftrightarrow> bit ?y 31"
      using i64 by (simp add: bit_word_scast_iff)
    with top m i64 show ?thesis
      by (simp add: bit_signed_take_bit_iff)
  qed
qed

lemma and3_cases:
  fixes x :: "32 word"
  shows "x AND 3 = 0 \<or> x AND 3 = 1 \<or> x AND 3 = 2 \<or> x AND 3 = 3"
proof -
  have "x AND 3 \<le> 3" by (rule word_and_le1)
  then have "unat (x AND 3) \<le> 3" by (simp add: word_le_nat_alt)
  then have "unat (x AND 3) = 0 \<or> unat (x AND 3) = 1 \<or> unat (x AND 3) = 2 \<or> unat (x AND 3) = 3"
    by linarith
  then show ?thesis
    by (auto simp add: unat_eq_zero dest!: arg_cong [where f = "word_of_nat :: nat \<Rightarrow> 32 word"])
qed


lemma lshiftamt_unat:
  fixes x :: "32 word"
  shows "unat (push_bit 3 (x AND 3)) = 8 * unat (x AND 3)"
proof -
  define y where "y = x AND 3"
  have "y = 0 \<or> y = 1 \<or> y = 2 \<or> y = 3"
    unfolding y_def by (rule and3_cases)
  then have "unat (push_bit 3 y) = 8 * unat y" by auto
  then show ?thesis unfolding y_def .
qed

lemma aligned_lane_fits:
  fixes paddr :: "32 word"
  assumes "sz = 1 \<or> sz = 2 \<or> sz = 4" "paddr AND (of_nat sz - 1) = 0"
  shows "unat (paddr AND 3) + sz \<le> 4"
proof -
  have low: "(paddr AND 3) AND 1 = paddr AND 1"
    by (simp add: and.assoc)
  from assms(1) show ?thesis
  proof (elim disjE)
    assume "sz = 1"
    then show ?thesis using and3_cases [of paddr] by auto
  next
    assume s: "sz = 2"
    with assms(2) have "paddr AND 1 = 0" by simp
    with low have "(paddr AND 3) AND 1 = 0" by simp
    then have "paddr AND 3 = 0 \<or> paddr AND 3 = 2"
      using and3_cases [of paddr] by auto
    with s show ?thesis by auto
  next
    assume s: "sz = 4"
    with assms(2) have "paddr AND 3 = 0" by simp
    with s show ?thesis by simp
  qed
qed

lemma swap_join:
  fixes dt :: "64 word"
  shows "push_bit 32 (ucast (ucast (push_bit 32 dt OR drop_bit 32 dt) :: 32 word)) OR
           ucast (ucast (drop_bit 32 (push_bit 32 dt OR drop_bit 32 dt)) :: 32 word) = dt"
proof (rule bit_word_eqI)
  fix n assume "n < LENGTH(64)"
  then have n: "n < 64" by simp
  show "bit (push_bit 32 (ucast (ucast (push_bit 32 dt OR drop_bit 32 dt) :: 32 word)) OR
           ucast (ucast (drop_bit 32 (push_bit 32 dt OR drop_bit 32 dt)) :: 32 word) :: 64 word) n
        \<longleftrightarrow> bit dt n"
  proof (cases "n < 32")
    case True
    then show ?thesis
      by (simp add: bit_ucast_iff bit_or_iff bit_push_bit_iff bit_drop_bit_eq)
  next
    case False
    define m where "m = n - 32"
    with False n have m: "n = 32 + m" "m < 32" by simp_all
    show ?thesis
      unfolding m(1) using m(2)
      by (simp add: bit_ucast_iff bit_or_iff bit_push_bit_iff bit_drop_bit_eq)
  qed
qed

lemma dc_small_sdata:
  assumes sz: "sz = 1 \<or> sz = 2 \<or> sz = 4"
      and al: "paddr AND (of_nat sz - 1) = 0"
      and st: "request_size st = of_nat sz"
              "take_bit (8 * sz) (drop_bit sh (data st)) = B"
              "take_bit (8 * sz) (drop_bit sh (dqm st)) = mask (8 * sz)"
      and ld: "\<not> two_words ld" "request_size ld = of_nat sz"
      and sh: "sh = 8 * (4 - sz - unat (paddr AND 3))"
  shows "dc_read_sdata be ld paddr (dc_write be st paddr d) = Inr (signed_take_bit (8 * sz - 1) B)"
proof -
  let ?a = "unat (paddr AND 3)"
  let ?pa = "unat (paddr AND 0xC)"
  let ?m = "ucast (dqm st) :: 32 word"
  let ?dt = "ucast (data st) :: 32 word"
  let ?w = "(memcpy_load32 be d ?pa AND NOT ?m) OR (?dt AND ?m)"
  have fits: "?a + sz \<le> 4" by (rule aligned_lane_fits [OF sz al])
  then have lsh: "8 * ?a + 8 * sz + sh = 32" by (simp add: sh)
  have pos: "0 < 8 * sz" using sz by auto
  have small: "\<not> 4 < (of_nat sz :: 32 word)" using sz by auto
  have r: "unat (push_bit 3 (4 - of_nat sz) :: 32 word) = 8 * ?a + sh"
    using sz fits by (auto simp add: sh)
  have l: "unat (push_bit 3 (paddr AND 3)) = 8 * ?a" by (rule lshiftamt_unat)
  have w: "dc_write be st paddr d = memcpy_store32 be d ?pa ?w"
    using small by (simp add: dc_write_def st(1) Let_def)
  have lane: "bit ?w (i + sh) \<longleftrightarrow> bit B i" if "i < 8 * sz" for i
  proof -
    from that lsh have b: "i + sh < 32" "i < 64" by simp_all
    have "bit (take_bit (8 * sz) (drop_bit sh (dqm st))) i \<longleftrightarrow> bit (mask (8 * sz) :: 64 word) i"
      by (simp only: st(3))
    with that b have m: "bit (dqm st) (sh + i)"
      by (simp add: bit_take_bit_iff bit_drop_bit_eq bit_mask_iff)
    have "bit (take_bit (8 * sz) (drop_bit sh (data st))) i \<longleftrightarrow> bit B i"
      by (simp only: st(2))
    with that have dt: "bit (data st) (sh + i) \<longleftrightarrow> bit B i"
      by (simp add: bit_take_bit_iff bit_drop_bit_eq)
    from b m dt show ?thesis
      by (simp add: bit_or_iff bit_and_iff bit_not_iff bit_ucast_iff add.commute)
  qed
  have "dc_read_sdata be ld paddr (dc_write be st paddr d) =
          Inr (scast (signed_drop_bit (8 * ?a + sh) (push_bit (8 * ?a) ?w)))"
    using lsh r l sz by (auto simp add: dc_read_sdata_def ld Let_def w memcpy_load_store32)
  then show ?thesis
    using lane_extract [of "8 * ?a" "8 * sz" sh ?w B, OF lsh pos lane]
    by simp
qed

lemma dc_two_word_sdata:
  assumes "paddr AND 7 = 0"
      and st: "request_size st = 8" "dqm st = - 1"
      and ld: "two_words ld" "request_size ld = 8"
  shows "dc_read_sdata False ld paddr (dc_write False st paddr d) = Inr (data st)"
proof -
  let ?pa = "unat (paddr AND 0x8)"
  let ?swap = "push_bit 32 (data st) OR drop_bit 32 (data st)"
  have w: "dc_write False st paddr d = memcpy_store64 False d ?pa ?swap"
    by (simp add: dc_write_def st Let_def)
  have "dc_read_sdata False ld paddr (memcpy_store64 False d ?pa ?swap) =
          Inr (push_bit 32 (ucast (ucast ?swap :: 32 word)) OR
               ucast (ucast (drop_bit 32 ?swap) :: 32 word))"
    using assms(1)
    by (simp add: dc_read_sdata_def ld Let_def memcpy_load32_store64_low
          memcpy_load32_store64_high)
  then show ?thesis
    by (simp only: w swap_join)
qed

lemma signed_take_bit_whole:
  fixes B :: "64 word"
  shows "signed_take_bit 63 B = B"
proof (rule bit_word_eqI)
  fix i assume "i < LENGTH(64)"
  then have "min 63 i = i" by simp
  then show "bit (signed_take_bit 63 B) i \<longleftrightarrow> bit B i"
    using \<open>i < LENGTH(64)\<close> by (simp add: bit_signed_take_bit_iff)
qed

lemma dc_roundtrip:
  assumes size: "sz = 1 \<or> sz = 2 \<or> sz = 4 \<or> sz = 8 \<and> \<not> be"
      and al: "paddr AND (of_nat sz - 1) = 0"
      and st: "request_size st = of_nat sz"
              "take_bit (8 * sz) (drop_bit (lane_shift sz paddr) (data st)) = B"
              "take_bit (8 * sz) (drop_bit (lane_shift sz paddr) (dqm st)) = mask (8 * sz)"
      and ld: "two_words ld \<longleftrightarrow> sz = 8" "request_size ld = of_nat sz"
              "unat (postshift ld) < 64"
  shows "dc_read be ld paddr (dc_write be st paddr d) res =
           Inr (res OR push_bit (unat (postshift ld)) (signed_take_bit (8 * sz - 1) B AND dqm ld))"
proof -
  have "dc_read_sdata be ld paddr (dc_write be st paddr d) = Inr (signed_take_bit (8 * sz - 1) B)"
  proof (cases "sz = 8")
    case True
    with size have le: "\<not> be" by simp
    have whole: "take_bit 64 x = x" for x :: "64 word"
      using take_bit_length_eq [of x] by simp
    have full: "mask 64 = (- 1 :: 64 word)"
      using mask_full [where 'a = 64] by simp
    from True st have B: "data st = B" and m: "dqm st = - 1"
      by (simp_all add: lane_shift_def whole full)
    from True al have a: "paddr AND 7 = 0" by simp
    from True st(1) ld have r: "request_size st = 8" "two_words ld" "request_size ld = 8"
      by simp_all
    from dc_two_word_sdata [OF a r(1) m r(2,3), of d] le B True show ?thesis
      by (simp add: signed_take_bit_whole)
  next
    case False
    with size have sz: "sz = 1 \<or> sz = 2 \<or> sz = 4" by simp
    from False ld have n: "\<not> two_words ld" by simp
    from False have sh: "lane_shift sz paddr = 8 * (4 - sz - unat (paddr AND 3))"
      by (simp add: lane_shift_def)
    from dc_small_sdata [OF sz al st n ld(2) sh] show ?thesis .
  qed
  with ld(3) show ?thesis
    by (simp add: dc_read_def)
qed

lemma tlb_translate_latches:
  "tlb_translate env (upd_dcwb f s) seg va = tlb_translate env s seg va"
  "tlb_translate env (upd_exdc g s) seg va = tlb_translate env s seg va"
  by (simp_all add: tlb_translate_def upd_dcwb_def upd_exdc_def Let_def cong: if_cong)

lemma upd_dcache:
  "dcache (upd_dcwb f s) = dcache s" "dcache (upd_exdc g s) = dcache s"
  by (simp_all add: upd_dcwb_def upd_exdc_def)

lemma dc_reachesD:
  assumes "dc_reaches env s paddr h"
  obtains seg where
    "signals s AND VR4300_SIGNAL_COLDRESET env = 0"
    "\<not> interrupt_pending (ucast (regs s (VR4300_CP0_REGISTER_CAUSE env)))
         (ucast (regs s (VR4300_CP0_REGISTER_STATUS env)))"
    "(if seg_length (exdc_segment (exdc_latch (pipeline s)))
           \<le> vaddr (exdc_request (exdc_latch (pipeline s)))
               - start (exdc_segment (exdc_latch (pipeline s)))
      then get_segment env (vaddr (exdc_request (exdc_latch (pipeline s))))
             (ucast (regs s (VR4300_CP0_REGISTER_STATUS env)))
      else Some (exdc_segment (exdc_latch (pipeline s)))) = Some seg"
    "cached seg"
    "tlb_translate env s seg (vaddr (exdc_request (exdc_latch (pipeline s)))) = Inr paddr"
    "vr4300_dcache_probe env (dcache s) (vaddr (exdc_request (exdc_latch (pipeline s)))) paddr
       = Some h"
  using assms by (auto simp add: dc_reaches_def Let_def split: option.splits)

lemma dc_stage_reaches:
  assumes r: "dc_reaches env s paddr h"
      and n: "request_type (exdc_request (exdc_latch (pipeline s))) \<noteq> VR4300_BUS_REQUEST_NONE"
  obtains s2 seg where
    "vr4300_dc_stage env s = dc_cache_access env s2 seg"
    "exdc_request (exdc_latch (pipeline s2)) = exdc_request (exdc_latch (pipeline s))"
    "dcwb_result (dcwb_latch (pipeline s2)) = exdc_result (exdc_latch (pipeline s))"
    "dcache s2 = dcache s"
    "cached seg"
    "tlb_translate env s2 seg (vaddr (exdc_request (exdc_latch (pipeline s)))) = Inr paddr"
    "vr4300_dcache_probe env (dcache s) (vaddr (exdc_request (exdc_latch (pipeline s)))) paddr
       = Some h"
proof -
  let ?exdc = "exdc_latch (pipeline s)"
  let ?va = "vaddr (exdc_request ?exdc)"
  let ?s1 = "upd_dcwb (\<lambda>l. l\<lparr>dcwb_common := exdc_common ?exdc,
                 dcwb_result := exdc_result ?exdc, dcwb_dest := exdc_dest ?exdc\<rparr>) s"
  from r obtain seg where f:
    "signals s AND VR4300_SIGNAL_COLDRESET env = 0"
    "\<not> interrupt_pending (ucast (regs s (VR4300_CP0_REGISTER_CAUSE env)))
         (ucast (regs s (VR4300_CP0_REGISTER_STATUS env)))"
    "(if seg_length (exdc_segment ?exdc) \<le> ?va - start (exdc_segment ?exdc)
      then get_segment env ?va (ucast (regs s (VR4300_CP0_REGISTER_STATUS env)))
      else Some (exdc_segment ?exdc)) = Some seg"
    "cached seg"
    "tlb_translate env s seg ?va = Inr paddr"
    "vr4300_dcache_probe env (dcache s) ?va paddr = Some h"
    by (rule dc_reachesD)
  have st: "vr4300_dc_stage env s = dc_access env ?s1"
    using f(1,2) n by (simp add: vr4300_dc_stage_def Let_def)
  have s1: "exdc_latch (pipeline ?s1) = ?exdc" "regs ?s1 = regs s" "dcache ?s1 = dcache s"
    by (simp_all add: upd_dcwb_def)
  show ?thesis
  proof (cases "seg_length (exdc_segment ?exdc) \<le> ?va - start (exdc_segment ?exdc)")
    case True
    let ?s2 = "upd_exdc (\<lambda>l. l\<lparr>exdc_segment := seg\<rparr>) ?s1"
    from True f(3) have "dc_access env ?s1 = dc_cache_access env ?s2 seg"
      by (simp add: dc_access_def Let_def s1)
    with st have "vr4300_dc_stage env s = dc_cache_access env ?s2 seg" by simp
    then show ?thesis
      by (rule that) (simp_all add: upd_simps upd_dcache tlb_translate_latches f)
  next
    case False
    with f(3) have seg: "seg = exdc_segment ?exdc" by simp
    from False have "dc_access env ?s1 = dc_cache_access env ?s1 (exdc_segment ?exdc)"
      by (simp add: dc_access_def Let_def s1)
    with st seg have "vr4300_dc_stage env s = dc_cache_access env ?s1 seg" by simp
    then show ?thesis
      by (rule that) (simp_all add: upd_simps upd_dcache tlb_translate_latches f)
  qed
qed

lemma dc_stage_store:
  assumes r: "dc_reaches env s paddr h"
      and w: "request_type (exdc_request (exdc_latch (pipeline s))) = VR4300_BUS_REQUEST_WRITE"
  shows "\<exists>t. vr4300_dc_stage env s = Inr (0, t) \<and>
           dcache t = (dcache s)(h := vr4300_dcache_set_dirty env
             ((dcache s h)\<lparr>line_data := dc_write (host_big_endian env)
                (exdc_request (exdc_latch (pipeline s))) paddr (line_data (dcache s h))\<rparr>))"
proof -
  from w have n: "request_type (exdc_request (exdc_latch (pipeline s))) \<noteq> VR4300_BUS_REQUEST_NONE"
    by simp
  from r n show ?thesis
  proof (rule dc_stage_reaches)
    fix s2 seg
    assume a: "vr4300_dc_stage env s = dc_cache_access env s2 seg"
      "exdc_request (exdc_latch (pipeline s2)) = exdc_request (exdc_latch (pipeline s))"
      "dcwb_result (dcwb_latch (pipeline s2)) = exdc_result (exdc_latch (pipeline s))"
      "dcache s2 = dcache s"
      "cached seg"
      "tlb_translate env s2 seg (vaddr (exdc_request (exdc_latch (pipeline s)))) = Inr paddr"
      "vr4300_dcache_probe env (dcache s) (vaddr (exdc_request (exdc_latch (pipeline s)))) paddr
         = Some h"
    then show ?thesis
      by (simp add: dc_cache_access_def Let_def w)
  qed
qed

lemma dc_stage_load:
  assumes r: "dc_reaches env s paddr h"
      and l: "request_type (exdc_request (exdc_latch (pipeline s))) = VR4300_BUS_REQUEST_READ"
      and v: "dc_read (host_big_endian env) (exdc_request (exdc_latch (pipeline s))) paddr
                (line_data (dcache s h)) (exdc_result (exdc_latch (pipeline s))) = Inr x"
  shows "\<exists>t. vr4300_dc_stage env s = Inr (0, t) \<and> dcwb_result (dcwb_latch (pipeline t)) = x"
proof -
  from l have n: "request_type (exdc_request (exdc_latch (pipeline s))) \<noteq> VR4300_BUS_REQUEST_NONE"
    by simp
  from r n show ?thesis
  proof (rule dc_stage_reaches)
    fix s2 seg
    assume a: "vr4300_dc_stage env s = dc_cache_access env s2 seg"
      "exdc_request (exdc_latch (pipeline s2)) = exdc_request (exdc_latch (pipeline s))"
      "dcwb_result (dcwb_latch (pipeline s2)) = exdc_result (exdc_latch (pipeline s))"
      "dcache s2 = dcache s"
      "cached seg"
      "tlb_translate env s2 seg (vaddr (exdc_request (exdc_latch (pipeline s)))) = Inr paddr"
      "vr4300_dcache_probe env (dcache s) (vaddr (exdc_request (exdc_latch (pipeline s)))) paddr
         = Some h"
    then show ?thesis
      by (simp add: dc_cache_access_def Let_def l v upd_dcwb_def)
  qed
qed

lemma lane_masked:
  fixes B :: "64 word"
  assumes "take_bit n B = B" "0 < n"
  shows "signed_take_bit (n - 1) B AND mask n = B"
proof (rule bit_word_eqI)
  fix i assume "i < LENGTH(64)"
  then have i: "i < 64" by simp
  from assms(1) have B: "bit B i \<longleftrightarrow> i < n \<and> bit B i"
    by (metis bit_take_bit_iff)
  show "bit (signed_take_bit (n - 1) B AND mask n) i \<longleftrightarrow> bit B i"
  proof (cases "i < n")
    case True
    then have "min (n - 1) i = i" by simp
    with True i show ?thesis
      by (simp add: bit_and_iff bit_signed_take_bit_iff bit_mask_iff)
  next
    case False
    with B have "\<not> bit B i" by simp
    with False show ?thesis
      by (simp add: bit_and_iff bit_mask_iff)
  qed
qed

text \<open>
  C5, as the code has it. A store that the DC stage takes to a line of the data cache
  completes, and a load of the same size that the stage later takes to a line holding
  what the store left there gets the stored bytes back. The sizes are 1, 2, 4 and 8, the
  physical address is aligned to the size, the store request carries the byte pattern
  \<open>B\<close> and a full mask in the byte lane of the address, marking a line dirty leaves its
  bytes alone, and a load is a two-word request exactly when the size is 8. The loaded
  value is \<open>B\<close>, sign-extended from its top bit, masked with the mask of the load
  request, shifted by its post-shift and joined to the result the latch held; for a
  plain zero-extending load it is \<open>B\<close>. For the sizes 1, 2 and 4 this holds whatever the
  byte order of the host; for size 8, where the store swaps the 32-bit halves of the
  value before copying it into the line and the load reads the high word from the lower
  address, it holds on a little-endian host.
\<close>

theorem dcache_store_load_roundtrip:
  assumes size: "sz = 1 \<or> sz = 2 \<or> sz = 4 \<or> sz = 8 \<and> \<not> host_big_endian env"
      and aligned: "paddr AND (of_nat sz - 1) = 0"
      and dirty: "\<forall>l. line_data (vr4300_dcache_set_dirty env l) = line_data l"
      and store: "dc_reaches env s paddr h"
        "request_type (exdc_request (exdc_latch (pipeline s))) = VR4300_BUS_REQUEST_WRITE"
        "request_size (exdc_request (exdc_latch (pipeline s))) = of_nat sz"
        "take_bit (8 * sz) (drop_bit (lane_shift sz paddr)
           (data (exdc_request (exdc_latch (pipeline s))))) = B"
        "take_bit (8 * sz) (drop_bit (lane_shift sz paddr)
           (dqm (exdc_request (exdc_latch (pipeline s))))) = mask (8 * sz)"
  shows "\<exists>t. vr4300_dc_stage env s = Inr (0, t) \<and>
           (\<forall>u h'. dc_reaches env u paddr h' \<and>
                   line_data (dcache u h') = line_data (dcache t h) \<and>
                   request_type (exdc_request (exdc_latch (pipeline u))) = VR4300_BUS_REQUEST_READ \<and>
                   request_size (exdc_request (exdc_latch (pipeline u))) = of_nat sz \<and>
                   (two_words (exdc_request (exdc_latch (pipeline u))) \<longleftrightarrow> sz = 8) \<and>
                   unat (postshift (exdc_request (exdc_latch (pipeline u)))) < 64 \<longrightarrow>
              (\<exists>v. vr4300_dc_stage env u = Inr (0, v) \<and>
                   dcwb_result (dcwb_latch (pipeline v)) =
                     exdc_result (exdc_latch (pipeline u)) OR
                     push_bit (unat (postshift (exdc_request (exdc_latch (pipeline u)))))
                       (signed_take_bit (8 * sz - 1) B AND
                        dqm (exdc_request (exdc_latch (pipeline u)))) \<and>
                   (exdc_result (exdc_latch (pipeline u)) = 0 \<and>
                    postshift (exdc_request (exdc_latch (pipeline u))) = 0 \<and>
                    dqm (exdc_request (exdc_latch (pipeline u))) = mask (8 * sz) \<longrightarrow>
                      dcwb_result (dcwb_latch (pipeline v)) = B)))"
proof -
  let ?st = "exdc_request (exdc_latch (pipeline s))"
  let ?be = "host_big_endian env"
  from dc_stage_store [OF store(1,2)] obtain t where
    t: "vr4300_dc_stage env s = Inr (0, t)"
    and line: "dcache t = (dcache s)(h := vr4300_dcache_set_dirty env
             ((dcache s h)\<lparr>line_data := dc_write ?be ?st paddr (line_data (dcache s h))\<rparr>))"
    by blast
  from line dirty have stored:
    "line_data (dcache t h) = dc_write ?be ?st paddr (line_data (dcache s h))"
    by simp
  from size have pos: "0 < 8 * sz" by auto
  from store(4) have B: "take_bit (8 * sz) B = B" by auto
  have load: "\<exists>v. vr4300_dc_stage env u = Inr (0, v) \<and>
                   dcwb_result (dcwb_latch (pipeline v)) =
                     exdc_result (exdc_latch (pipeline u)) OR
                     push_bit (unat (postshift (exdc_request (exdc_latch (pipeline u)))))
                       (signed_take_bit (8 * sz - 1) B AND
                        dqm (exdc_request (exdc_latch (pipeline u)))) \<and>
                   (exdc_result (exdc_latch (pipeline u)) = 0 \<and>
                    postshift (exdc_request (exdc_latch (pipeline u))) = 0 \<and>
                    dqm (exdc_request (exdc_latch (pipeline u))) = mask (8 * sz) \<longrightarrow>
                      dcwb_result (dcwb_latch (pipeline v)) = B)"
    if u: "dc_reaches env u paddr h'"
          "line_data (dcache u h') = line_data (dcache t h)"
          "request_type (exdc_request (exdc_latch (pipeline u))) = VR4300_BUS_REQUEST_READ"
          "request_size (exdc_request (exdc_latch (pipeline u))) = of_nat sz"
          "two_words (exdc_request (exdc_latch (pipeline u))) \<longleftrightarrow> sz = 8"
          "unat (postshift (exdc_request (exdc_latch (pipeline u)))) < 64"
    for u h'
  proof -
    let ?ld = "exdc_request (exdc_latch (pipeline u))"
    let ?x = "exdc_result (exdc_latch (pipeline u)) OR
                push_bit (unat (postshift ?ld)) (signed_take_bit (8 * sz - 1) B AND dqm ?ld)"
    have "dc_read ?be ?ld paddr (dc_write ?be ?st paddr (line_data (dcache s h)))
            (exdc_result (exdc_latch (pipeline u))) = Inr ?x"
      by (rule dc_roundtrip [OF size aligned store(3,4,5) u(5,4,6)])
    then have "dc_read ?be ?ld paddr (line_data (dcache u h'))
            (exdc_result (exdc_latch (pipeline u))) = Inr ?x"
      by (simp add: u(2) stored)
    from dc_stage_load [OF u(1,3) this] obtain v where
      v: "vr4300_dc_stage env u = Inr (0, v)" "dcwb_result (dcwb_latch (pipeline v)) = ?x"
      by blast
    have "dcwb_result (dcwb_latch (pipeline v)) = B"
      if "exdc_result (exdc_latch (pipeline u)) = 0 \<and> postshift ?ld = 0 \<and>
          dqm ?ld = mask (8 * sz)"
      using that v(2) lane_masked [OF B pos] by simp
    with v show ?thesis by blast
  qed
  from t load show ?thesis by blast
qed

lemmas roundtrip_defs =
  store_state_def load_state_def test_store_def test_load_def

lemma test_stage_store:
  "\<exists>X. vr4300_dc_stage (test_env\<lparr>host_big_endian := b\<rparr>) (store_state sz a dt m) = Inr (0, X) \<and>
       dc_reaches (test_env\<lparr>host_big_endian := b\<rparr>) (load_state sz' a m' tw X) (ucast a) 0 \<and>
       line_data (dcache (load_state sz' a m' tw X) 0) = line_data (dcache X 0)"
  by (simp add: roundtrip_defs model_defs test_defs dc_reaches_def Let_def)

lemma test_store_reaches:
  "dc_reaches (test_env\<lparr>host_big_endian := b\<rparr>) (store_state sz a dt m) (ucast a) 0"
  by (simp add: roundtrip_defs model_defs test_defs dc_reaches_def Let_def)

lemma test_env_little_endian: "test_env\<lparr>host_big_endian := False\<rparr> = test_env"
  by (simp add: test_env_def)

theorem dcache_store_load_roundtrip_witness:
  "(\<exists>t v. vr4300_dc_stage test_env (store_state 2 0x10 0xBEEF0000 0xFFFF0000) = Inr (0, t) \<and>
          vr4300_dc_stage test_env (load_state 2 0x10 0xFFFF False t) = Inr (0, v) \<and>
          dcwb_result (dcwb_latch (pipeline v)) = 0xBEEF) \<and>
   (\<exists>t v. vr4300_dc_stage test_env (store_state 8 0x18 0x1122334455667788 (- 1)) = Inr (0, t) \<and>
          vr4300_dc_stage test_env (load_state 8 0x18 (- 1) True t) = Inr (0, v) \<and>
          dcwb_result (dcwb_latch (pipeline v)) = 0x1122334455667788)"
proof -
  have dirty: "\<forall>l. line_data (vr4300_dcache_set_dirty test_env l) = line_data l"
    by (simp add: test_env_def)
  have full: "mask 64 = (- 1 :: 64 word)"
    using mask_full [where 'a = 64] by simp
  have whole: "take_bit 64 x = x" for x :: "64 word"
    using take_bit_length_eq [of x] by simp
  have small: "\<exists>t v. vr4300_dc_stage test_env (store_state 2 0x10 0xBEEF0000 0xFFFF0000) = Inr (0, t) \<and>
          vr4300_dc_stage test_env (load_state 2 0x10 0xFFFF False t) = Inr (0, v) \<and>
          dcwb_result (dcwb_latch (pipeline v)) = 0xBEEF"
  proof -
    let ?s = "store_state 2 0x10 0xBEEF0000 0xFFFF0000"
    have r: "dc_reaches test_env ?s 0x10 0"
      using test_store_reaches [of False 2 "0x10" "0xBEEF0000" "0xFFFF0000"]
      by (simp add: test_env_little_endian)
    have a: "(0x10 :: 32 word) AND (of_nat 2 - 1) = 0" by simp
    have st: "request_type (exdc_request (exdc_latch (pipeline ?s))) = VR4300_BUS_REQUEST_WRITE"
      "request_size (exdc_request (exdc_latch (pipeline ?s))) = of_nat 2"
      "take_bit (8 * 2) (drop_bit (lane_shift 2 0x10)
         (data (exdc_request (exdc_latch (pipeline ?s))))) = 0xBEEF"
      "take_bit (8 * 2) (drop_bit (lane_shift 2 0x10)
         (dqm (exdc_request (exdc_latch (pipeline ?s))))) = mask (8 * 2)"
      by (simp_all add: roundtrip_defs upd_simps test_request_def lane_shift_def
            mask_eq_exp_minus_1)
    have sz: "(2 :: nat) = 1 \<or> (2 :: nat) = 2 \<or> (2 :: nat) = 4 \<or>
              (2 :: nat) = 8 \<and> \<not> host_big_endian test_env"
      by simp
    from dcache_store_load_roundtrip [of 2 test_env "0x10" ?s 0 "0xBEEF", OF sz a dirty r st]
    obtain t where t: "vr4300_dc_stage test_env ?s = Inr (0, t)"
      and ld: "\<forall>u h'. dc_reaches test_env u 0x10 h' \<and>
                   line_data (dcache u h') = line_data (dcache t 0) \<and>
                   request_type (exdc_request (exdc_latch (pipeline u))) = VR4300_BUS_REQUEST_READ \<and>
                   request_size (exdc_request (exdc_latch (pipeline u))) = of_nat 2 \<and>
                   (two_words (exdc_request (exdc_latch (pipeline u))) \<longleftrightarrow> (2 :: nat) = 8) \<and>
                   unat (postshift (exdc_request (exdc_latch (pipeline u)))) < 64 \<longrightarrow>
              (\<exists>v. vr4300_dc_stage test_env u = Inr (0, v) \<and>
                   dcwb_result (dcwb_latch (pipeline v)) =
                     exdc_result (exdc_latch (pipeline u)) OR
                     push_bit (unat (postshift (exdc_request (exdc_latch (pipeline u)))))
                       (signed_take_bit (8 * 2 - 1) 0xBEEF AND
                        dqm (exdc_request (exdc_latch (pipeline u)))) \<and>
                   (exdc_result (exdc_latch (pipeline u)) = 0 \<and>
                    postshift (exdc_request (exdc_latch (pipeline u))) = 0 \<and>
                    dqm (exdc_request (exdc_latch (pipeline u))) = mask (8 * 2) \<longrightarrow>
                      dcwb_result (dcwb_latch (pipeline v)) = 0xBEEF))"
      by blast
    let ?u = "load_state 2 0x10 0xFFFF False t"
    from test_stage_store [of False 2 "0x10" "0xBEEF0000" "0xFFFF0000" 2 "0xFFFF" False] t
    have u: "dc_reaches test_env ?u 0x10 0" "line_data (dcache ?u 0) = line_data (dcache t 0)"
      by (simp_all add: test_env_little_endian)
    have q: "request_type (exdc_request (exdc_latch (pipeline ?u))) = VR4300_BUS_REQUEST_READ"
      "request_size (exdc_request (exdc_latch (pipeline ?u))) = of_nat 2"
      "two_words (exdc_request (exdc_latch (pipeline ?u))) \<longleftrightarrow> (2 :: nat) = 8"
      "postshift (exdc_request (exdc_latch (pipeline ?u))) = 0"
      "exdc_result (exdc_latch (pipeline ?u)) = 0"
      "dqm (exdc_request (exdc_latch (pipeline ?u))) = mask (8 * 2)"
      by (simp_all add: roundtrip_defs upd_simps test_request_def mask_eq_exp_minus_1)
    from ld u q obtain v where "vr4300_dc_stage test_env ?u = Inr (0, v)"
      "dcwb_result (dcwb_latch (pipeline v)) = 0xBEEF"
      by (metis unat_0 zero_less_numeral numeral_eq_iff)
    with t show ?thesis by blast
  qed
  have double: "\<exists>t v. vr4300_dc_stage test_env (store_state 8 0x18 0x1122334455667788 (- 1)) = Inr (0, t) \<and>
          vr4300_dc_stage test_env (load_state 8 0x18 (- 1) True t) = Inr (0, v) \<and>
          dcwb_result (dcwb_latch (pipeline v)) = 0x1122334455667788"
  proof -
    let ?s = "store_state 8 0x18 0x1122334455667788 (- 1)"
    have le: "\<not> host_big_endian test_env" by (simp add: test_env_def)
    have r: "dc_reaches test_env ?s 0x18 0"
      using test_store_reaches [of False 8 "0x18" "0x1122334455667788" "- 1"]
      by (simp add: test_env_little_endian)
    have a: "(0x18 :: 32 word) AND (of_nat 8 - 1) = 0" by simp
    have st: "request_type (exdc_request (exdc_latch (pipeline ?s))) = VR4300_BUS_REQUEST_WRITE"
      "request_size (exdc_request (exdc_latch (pipeline ?s))) = of_nat 8"
      "take_bit (8 * 8) (drop_bit (lane_shift 8 0x18)
         (data (exdc_request (exdc_latch (pipeline ?s))))) = 0x1122334455667788"
      "take_bit (8 * 8) (drop_bit (lane_shift 8 0x18)
         (dqm (exdc_request (exdc_latch (pipeline ?s))))) = mask (8 * 8)"
      by (simp_all add: roundtrip_defs upd_simps test_request_def lane_shift_def whole full)
    have sz: "(8 :: nat) = 1 \<or> (8 :: nat) = 2 \<or> (8 :: nat) = 4 \<or>
              (8 :: nat) = 8 \<and> \<not> host_big_endian test_env"
      using le by simp
    from dcache_store_load_roundtrip
           [of 8 test_env "0x18" ?s 0 "0x1122334455667788", OF sz a dirty r st]
    obtain t where t: "vr4300_dc_stage test_env ?s = Inr (0, t)"
      and ld: "\<forall>u h'. dc_reaches test_env u 0x18 h' \<and>
                   line_data (dcache u h') = line_data (dcache t 0) \<and>
                   request_type (exdc_request (exdc_latch (pipeline u))) = VR4300_BUS_REQUEST_READ \<and>
                   request_size (exdc_request (exdc_latch (pipeline u))) = of_nat 8 \<and>
                   (two_words (exdc_request (exdc_latch (pipeline u))) \<longleftrightarrow> (8 :: nat) = 8) \<and>
                   unat (postshift (exdc_request (exdc_latch (pipeline u)))) < 64 \<longrightarrow>
              (\<exists>v. vr4300_dc_stage test_env u = Inr (0, v) \<and>
                   dcwb_result (dcwb_latch (pipeline v)) =
                     exdc_result (exdc_latch (pipeline u)) OR
                     push_bit (unat (postshift (exdc_request (exdc_latch (pipeline u)))))
                       (signed_take_bit (8 * 8 - 1) 0x1122334455667788 AND
                        dqm (exdc_request (exdc_latch (pipeline u)))) \<and>
                   (exdc_result (exdc_latch (pipeline u)) = 0 \<and>
                    postshift (exdc_request (exdc_latch (pipeline u))) = 0 \<and>
                    dqm (exdc_request (exdc_latch (pipeline u))) = mask (8 * 8) \<longrightarrow>
                      dcwb_result (dcwb_latch (pipeline v)) = 0x1122334455667788))"
      by blast
    let ?u = "load_state 8 0x18 (- 1) True t"
    from test_stage_store [of False 8 "0x18" "0x1122334455667788" "- 1" 8 "- 1" True] t
    have u: "dc_reaches test_env ?u 0x18 0" "line_data (dcache ?u 0) = line_data (dcache t 0)"
      by (simp_all add: test_env_little_endian)
    have q: "request_type (exdc_request (exdc_latch (pipeline ?u))) = VR4300_BUS_REQUEST_READ"
      "request_size (exdc_request (exdc_latch (pipeline ?u))) = of_nat 8"
      "two_words (exdc_request (exdc_latch (pipeline ?u))) \<longleftrightarrow> (8 :: nat) = 8"
      "postshift (exdc_request (exdc_latch (pipeline ?u))) = 0"
      "exdc_result (exdc_latch (pipeline ?u)) = 0"
      "dqm (exdc_request (exdc_latch (pipeline ?u))) = mask (8 * 8)"
      by (simp_all add: roundtrip_defs upd_simps test_request_def full)
    from ld u q obtain v where "vr4300_dc_stage test_env ?u = Inr (0, v)"
      "dcwb_result (dcwb_latch (pipeline v)) = 0x1122334455667788"
      by (metis unat_0 zero_less_numeral)
    with t show ?thesis by blast
  qed
  from small double show ?thesis by simp
qed

lemma memcpy_load32_store64_be_low:
  "memcpy_load32 True (memcpy_store64 True d off w) off = ucast (drop_bit 32 w)"
proof -
  have "map (\<lambda>k. put_bytes d off (rev (le_bytes64 w)) (off + k)) [0 ..< 4]
          = take 4 (rev (le_bytes64 w))"
    using put_bytes_take [of 4 "rev (le_bytes64 w)" d off] by (simp add: le_bytes64_nth)
  moreover have "rev (take 4 (rev (le_bytes64 w))) = drop 4 (le_bytes64 w)"
    by (simp add: rev_take le_bytes64_nth)
  ultimately show ?thesis
    by (simp add: memcpy_load32_def memcpy_store64_def Let_def le_word32_high_bytes64)
qed

lemma memcpy_load32_store64_be_high:
  "memcpy_load32 True (memcpy_store64 True d off w) (off + 4) = ucast w"
proof -
  have "map (\<lambda>k. put_bytes d off (rev (le_bytes64 w)) (off + 4 + k)) [0 ..< 4]
          = drop 4 (rev (le_bytes64 w))"
    using put_bytes_drop [of 4 4 "rev (le_bytes64 w)" d off] by (simp add: le_bytes64_nth)
  moreover have "rev (drop 4 (rev (le_bytes64 w))) = take 4 (le_bytes64 w)"
    by (simp add: rev_drop le_bytes64_nth)
  ultimately show ?thesis
    by (simp add: memcpy_load32_def memcpy_store64_def Let_def le_word32_low_bytes64)
qed

lemma join_halves:
  fixes x :: "64 word"
  shows "push_bit 32 (ucast (ucast (drop_bit 32 x) :: 32 word)) OR ucast (ucast x :: 32 word) = x"
proof (rule bit_word_eqI)
  fix n assume "n < LENGTH(64)"
  then have n: "n < 64" by simp
  show "bit (push_bit 32 (ucast (ucast (drop_bit 32 x) :: 32 word)) OR
             ucast (ucast x :: 32 word) :: 64 word) n \<longleftrightarrow> bit x n"
  proof (cases "n < 32")
    case True
    then show ?thesis
      by (simp add: bit_ucast_iff bit_or_iff bit_push_bit_iff bit_drop_bit_eq)
  next
    case False
    define m where "m = n - 32"
    with False n have m: "n = 32 + m" "m < 32" by simp_all
    show ?thesis
      unfolding m(1) using m(2)
      by (simp add: bit_ucast_iff bit_or_iff bit_push_bit_iff bit_drop_bit_eq)
  qed
qed

lemma dc_two_word_sdata_be:
  assumes "paddr AND 7 = 0"
      and st: "request_size st = 8" "dqm st = - 1"
      and ld: "two_words ld" "request_size ld = 8"
  shows "dc_read_sdata True ld paddr (dc_write True st paddr d) =
           Inr (push_bit 32 (data st) OR drop_bit 32 (data st))"
proof -
  let ?pa = "unat (paddr AND 0x8)"
  let ?swap = "push_bit 32 (data st) OR drop_bit 32 (data st)"
  have w: "dc_write True st paddr d = memcpy_store64 True d ?pa ?swap"
    by (simp add: dc_write_def st Let_def)
  have "dc_read_sdata True ld paddr (memcpy_store64 True d ?pa ?swap) =
          Inr (push_bit 32 (ucast (ucast (drop_bit 32 ?swap) :: 32 word)) OR
               ucast (ucast ?swap :: 32 word))"
    using assms(1)
    by (simp add: dc_read_sdata_def ld Let_def memcpy_load32_store64_be_low
          memcpy_load32_store64_be_high)
  then show ?thesis
    by (simp only: w join_halves)
qed

text \<open>
  C5 as stated, for every size and with no condition on the host, fails for size 8 on a
  big-endian host. The concrete machine on such a host stores the eight bytes
  \<open>0x1122334455667788\<close> at the aligned address \<open>0x18\<close>; the store completes, the
  load of eight bytes at the same address completes, and it yields the value with its
  32-bit halves exchanged.
\<close>

theorem big_endian_two_word_load_swaps_halves:
  "vr4300_dc_stage big_endian_env (store_state 8 0x18 0x1122334455667788 (- 1)) =
     Inr (0, snd (projr (vr4300_dc_stage big_endian_env
                           (store_state 8 0x18 0x1122334455667788 (- 1))))) \<and>
   fst (projr (vr4300_dc_stage big_endian_env
     (load_state 8 0x18 (- 1) True
        (snd (projr (vr4300_dc_stage big_endian_env
                       (store_state 8 0x18 0x1122334455667788 (- 1)))))))) = 0 \<and>
   dcwb_result (dcwb_latch (pipeline (snd (projr (vr4300_dc_stage big_endian_env
     (load_state 8 0x18 (- 1) True
        (snd (projr (vr4300_dc_stage big_endian_env
                       (store_state 8 0x18 0x1122334455667788 (- 1))))))))))) =
     0x5566778811223344"
proof -
  let ?s = "store_state 8 0x18 0x1122334455667788 (- 1)"
  let ?st = "exdc_request (exdc_latch (pipeline ?s))"
  have r: "dc_reaches big_endian_env ?s 0x18 0"
    using test_store_reaches [of True 8 "0x18" "0x1122334455667788" "- 1"]
    by (simp add: big_endian_env_def)
  have st: "request_type ?st = VR4300_BUS_REQUEST_WRITE" "request_size ?st = 8"
    "dqm ?st = - 1" "data ?st = 0x1122334455667788"
    by (simp_all add: roundtrip_defs upd_simps test_request_def)
  from dc_stage_store [OF r st(1)] obtain t where
    t: "vr4300_dc_stage big_endian_env ?s = Inr (0, t)"
    and line: "line_data (dcache t 0) = dc_write True ?st 0x18 (line_data (dcache ?s 0))"
    by (auto simp add: big_endian_env_def test_env_def)
  let ?u = "load_state 8 0x18 (- 1) True t"
  let ?ld = "exdc_request (exdc_latch (pipeline ?u))"
  from test_stage_store [of True 8 "0x18" "0x1122334455667788" "- 1" 8 "- 1" True] t
  have u: "dc_reaches big_endian_env ?u 0x18 0" "line_data (dcache ?u 0) = line_data (dcache t 0)"
    by (simp_all add: big_endian_env_def)
  have ld: "request_type ?ld = VR4300_BUS_REQUEST_READ" "two_words ?ld" "request_size ?ld = 8"
    "postshift ?ld = 0" "dqm ?ld = - 1" "exdc_result (exdc_latch (pipeline ?u)) = 0"
    by (simp_all add: roundtrip_defs upd_simps test_request_def)
  have a: "(0x18 :: 32 word) AND 7 = 0" by simp
  have "dc_read_sdata True ?ld 0x18 (line_data (dcache ?u 0)) = Inr 0x5566778811223344"
    using dc_two_word_sdata_be [OF a st(2,3) ld(2,3), of "line_data (dcache ?s 0)"]
    by (simp add: u(2) line st(4))
  then have "dc_read (host_big_endian big_endian_env) ?ld 0x18 (line_data (dcache ?u 0))
               (exdc_result (exdc_latch (pipeline ?u))) = Inr 0x5566778811223344"
    by (simp add: dc_read_def ld(4,5,6) big_endian_env_def test_env_def)
  from dc_stage_load [OF u(1) ld(1) this] obtain v where
    "vr4300_dc_stage big_endian_env ?u = Inr (0, v)"
    "dcwb_result (dcwb_latch (pipeline v)) = 0x5566778811223344"
    by blast
  with t show ?thesis by simp
qed

subsection \<open>Faults moving down the slow path\<close>

lemma slow_ic_keeps:
  assumes k: "keeps_latch sel (VR4300_IADE env)"
      and dep: "\<And>p q. dcwb_latch p = dcwb_latch q \<Longrightarrow> exdc_latch p = exdc_latch q \<Longrightarrow>
                  rfex_common (rfex_latch p) = rfex_common (rfex_latch q) \<Longrightarrow> sel p = sel q"
      and run: "vr4300_cycle_slow_ic env s = Inr s'"
  shows "sel (pipeline s') = sel (pipeline s)"
proof (cases rule: ic_stage_cases [of env s])
  case (1 t)
  with run have "s' = VR4300_IADE env t"
    by (simp add: vr4300_cycle_slow_ic_def)
  then have "sel (pipeline s') = sel (pipeline t)"
    using k by (simp add: keeps_latchD)
  also have "\<dots> = sel (pipeline s)"
    using 1 by (intro dep) simp_all
  finally show ?thesis .
next
  case (2 t)
  with run have "pipeline s' = pipeline t"
    by (auto simp add: vr4300_cycle_slow_ic_def)
  moreover have "sel (pipeline t) = sel (pipeline s)"
    using 2 by (intro dep) simp_all
  ultimately show ?thesis by simp
qed

lemma slow_rf_keeps:
  assumes k1: "keeps_latch sel (VR4300_ICB env)"
      and k2: "keeps_latch sel (VR4300_IADE env)"
      and dep: "\<And>p q. dcwb_latch p = dcwb_latch q \<Longrightarrow> exdc_latch p = exdc_latch q \<Longrightarrow>
                  sel p = sel q"
      and run: "vr4300_cycle_slow_rf env s = Inr s'"
  shows "sel (pipeline s') = sel (pipeline s)"
proof (cases "fault (icrf_common (icrf_latch (pipeline s))) = VR4300_FAULT_NONE")
  case True
  with run have
    "(case vr4300_rf_stage env s of Inl e \<Rightarrow> Inl e
      | Inr (r, s1) \<Rightarrow> if r \<noteq> 0 then Inr s1 else vr4300_cycle_slow_ic env s1) = Inr s'"
    by (simp add: vr4300_cycle_slow_rf_def)
  then show ?thesis
  proof (cases rule: stage_then_cases)
    case (1 r)
    from 1(1) show ?thesis
    proof (cases rule: rf_stage_cases)
      case (1 t)
      then have "sel (pipeline s') = sel (pipeline t)"
        using k1 by (simp add: keeps_latchD)
      also have "\<dots> = sel (pipeline s)"
        using 1 by (intro dep) simp_all
      finally show ?thesis .
    next
      case 2
      then show ?thesis by (intro dep) simp_all
    qed
  next
    case (2 s1)
    from 2(1) have "sel (pipeline s1) = sel (pipeline s)"
    proof (cases rule: rf_stage_cases)
      case (1 t)
      then show ?thesis by simp
    next
      case 2
      then show ?thesis by (intro dep) simp_all
    qed
    moreover from slow_ic_keeps [OF k2 _ 2(2)] dep
    have "sel (pipeline s') = sel (pipeline s1)" by blast
    ultimately show ?thesis by simp
  qed
next
  case False
  let ?s1 = "upd_rfex (\<lambda>l. l\<lparr>rfex_common := icrf_common (icrf_latch (pipeline s))\<rparr>) s"
  from False run have "vr4300_cycle_slow_ic env ?s1 = Inr s'"
    by (simp add: vr4300_cycle_slow_rf_def)
  from slow_ic_keeps [OF k2 _ this] dep
  have "sel (pipeline s') = sel (pipeline ?s1)" by blast
  also have "\<dots> = sel (pipeline s)"
    by (intro dep) (simp_all add: upd_simps)
  finally show ?thesis .
qed

lemma slow_ex_keeps:
  assumes k0: "keeps_latch sel (VR4300_LDI env)"
      and kf: "\<And>i iw a b. keeps_latch sel (\<lambda>t. snd (vr4300_function_table env i t iw a b))"
      and k1: "keeps_latch sel (VR4300_ICB env)"
      and k2: "keeps_latch sel (VR4300_IADE env)"
      and dep: "\<And>p q. dcwb_latch p = dcwb_latch q \<Longrightarrow> sel p = sel q"
      and run: "vr4300_cycle_slow_ex env s = Inr s'"
  shows "sel (pipeline s') = sel (pipeline s)"
proof -
  have ex: "sel (pipeline t') = sel (pipeline t)" if "vr4300_ex_stage env t = (r, t')" for r t t'
    using that
  proof (cases rule: ex_stage_cases)
    case (1 u)
    then have "sel (pipeline t') = sel (pipeline u)"
      using k0 by (simp add: keeps_latchD)
    also have "\<dots> = sel (pipeline t)"
      using 1 by (intro dep) simp
    finally show ?thesis .
  next
    case (2 u i iw a b)
    then have "sel (pipeline t') = sel (pipeline u)"
      using keeps_latchD [OF kf [of i iw a b], where s = u] by simp
    also have "\<dots> = sel (pipeline t)"
      using 2 by (intro dep) simp
    finally show ?thesis .
  qed
  have rf: "sel (pipeline t') = sel (pipeline t)" if "vr4300_cycle_slow_rf env t = Inr t'" for t t'
    using slow_rf_keeps [OF k1 k2 _ that] dep by blast
  show ?thesis
  proof (cases "fault (rfex_common (rfex_latch (pipeline s))) = VR4300_FAULT_NONE")
    case True
    with run have
      "(case vr4300_ex_stage env s of
          (r, s1) \<Rightarrow> if r \<noteq> 0 then Inr s1 else vr4300_cycle_slow_rf env s1) = Inr s'"
      by (simp add: vr4300_cycle_slow_ex_def)
    then show ?thesis
    proof (cases rule: stage_then_cases')
      case (1 r)
      then show ?thesis using ex [OF 1(1)] by simp
    next
      case (2 s1)
      then show ?thesis using ex [OF 2(1)] rf [OF 2(2)] by simp
    qed
  next
    case False
    let ?s1 = "upd_exdc (\<lambda>l. l\<lparr>exdc_common := rfex_common (rfex_latch (pipeline s))\<rparr>) s"
    from False run have "vr4300_cycle_slow_rf env ?s1 = Inr s'"
      by (simp add: vr4300_cycle_slow_ex_def)
    then have "sel (pipeline s') = sel (pipeline ?s1)" by (rule rf)
    also have "\<dots> = sel (pipeline s)"
      by (intro dep) (simp add: upd_simps)
    finally show ?thesis .
  qed
qed

lemma dc_cache_access_upstream:
  assumes run: "dc_cache_access env s seg = Inr (r, t)"
      and k: "keeps_latch sel (VR4300_DCM env)"
      and dep: "\<And>p q. rfex_latch p = rfex_latch q \<Longrightarrow> icrf_latch p = icrf_latch q \<Longrightarrow>
                  sel p = sel q"
  shows "sel (pipeline t) = sel (pipeline s)"
proof -
  let ?request = "exdc_request (exdc_latch (pipeline s))"
  from run obtain paddr where tr: "tlb_translate env s seg (vaddr ?request) = Inr paddr"
    by (auto simp add: dc_cache_access_def Let_def split: sum.splits)
  show ?thesis
  proof (cases "if cached seg then vr4300_dcache_probe env (dcache s) (vaddr ?request) paddr
                else None")
    case None
    let ?s1 = "upd_exdc (\<lambda>l. l\<lparr>exdc_request := (exdc_request l)\<lparr>request_paddr := paddr\<rparr>\<rparr>) s"
    from None run tr have "t = VR4300_DCM env ?s1"
      by (simp add: dc_cache_access_def Let_def)
    then have "sel (pipeline t) = sel (pipeline ?s1)"
      using k by (simp add: keeps_latchD)
    also have "\<dots> = sel (pipeline s)"
      by (intro dep) (simp_all add: upd_simps)
    finally show ?thesis .
  next
    case (Some h)
    show ?thesis
    proof (cases "request_type ?request")
      case VR4300_BUS_REQUEST_READ
      with run tr Some obtain v where "t = upd_dcwb (\<lambda>l. l\<lparr>dcwb_result := v\<rparr>) s"
        by (auto simp add: dc_cache_access_def Let_def split: sum.splits)
      then show ?thesis by (intro dep) (simp_all add: upd_simps)
    next
      case VR4300_BUS_REQUEST_WRITE
      with run tr Some have "pipeline t = pipeline s"
        by (auto simp add: dc_cache_access_def Let_def)
      then show ?thesis by simp
    next
      case VR4300_BUS_REQUEST_NONE
      with run tr Some show ?thesis
        by (simp add: dc_cache_access_def Let_def)
    next
      case VR4300_BUS_REQUEST_OTHER
      with run tr Some show ?thesis
        by (simp add: dc_cache_access_def Let_def)
    qed
  qed
qed

lemma dc_access_upstream:
  assumes run: "dc_access env s = Inr (r, t)"
      and k: "keeps_latch sel (VR4300_DADE env)" "keeps_latch sel (VR4300_DCM env)"
      and dep: "\<And>p q. rfex_latch p = rfex_latch q \<Longrightarrow> icrf_latch p = icrf_latch q \<Longrightarrow>
                  sel p = sel q"
  shows "sel (pipeline t) = sel (pipeline s)"
proof -
  let ?exdc = "exdc_latch (pipeline s)"
  show ?thesis
  proof (cases "seg_length (exdc_segment ?exdc)
                  \<le> vaddr (exdc_request ?exdc) - start (exdc_segment ?exdc)")
    case True
    show ?thesis
    proof (cases "get_segment env (vaddr (exdc_request ?exdc))
                    (ucast (regs s (VR4300_CP0_REGISTER_STATUS env)))")
      case None
      with True run have "t = VR4300_DADE env s"
        by (simp add: dc_access_def Let_def)
      then show ?thesis using k(1) by (simp add: keeps_latchD)
    next
      case (Some seg')
      let ?s1 = "upd_exdc (\<lambda>l. l\<lparr>exdc_segment := seg'\<rparr>) s"
      from Some True run have "dc_cache_access env ?s1 seg' = Inr (r, t)"
        by (simp add: dc_access_def Let_def)
      from dc_cache_access_upstream [OF this k(2)] dep
      have "sel (pipeline t) = sel (pipeline ?s1)" by blast
      also have "\<dots> = sel (pipeline s)"
        by (intro dep) (simp_all add: upd_simps)
      finally show ?thesis .
    qed
  next
    case False
    with run have "dc_cache_access env s (exdc_segment ?exdc) = Inr (r, t)"
      by (simp add: dc_access_def Let_def)
    from dc_cache_access_upstream [OF this k(2)] dep show ?thesis by blast
  qed
qed

lemma dc_stage_upstream:
  assumes run: "vr4300_dc_stage env s = Inr (r, t)"
      and k: "keeps_latch sel (VR4300_RST env)" "keeps_latch sel (VR4300_INTR env)"
             "keeps_latch sel (VR4300_DADE env)" "keeps_latch sel (VR4300_DCM env)"
      and dep: "\<And>p q. rfex_latch p = rfex_latch q \<Longrightarrow> icrf_latch p = icrf_latch q \<Longrightarrow>
                  sel p = sel q"
  shows "sel (pipeline t) = sel (pipeline s)"
proof -
  let ?s1 = "upd_dcwb (\<lambda>l. l\<lparr>dcwb_common := exdc_common (exdc_latch (pipeline s)),
                 dcwb_result := exdc_result (exdc_latch (pipeline s)),
                 dcwb_dest := exdc_dest (exdc_latch (pipeline s))\<rparr>) s"
  have s1: "sel (pipeline ?s1) = sel (pipeline s)"
    by (intro dep) (simp_all add: upd_simps)
  show ?thesis
  proof (cases "signals s AND VR4300_SIGNAL_COLDRESET env \<noteq> 0")
    case True
    with run have "t = VR4300_RST env ?s1"
      by (simp add: vr4300_dc_stage_def Let_def)
    then show ?thesis using k(1) s1 by (simp add: keeps_latchD)
  next
    case reset: False
    show ?thesis
    proof (cases "interrupt_pending (ucast (regs s (VR4300_CP0_REGISTER_CAUSE env)))
                    (ucast (regs s (VR4300_CP0_REGISTER_STATUS env)))")
      case True
      with reset run have "t = VR4300_INTR env ?s1"
        by (simp add: vr4300_dc_stage_def Let_def)
      then show ?thesis using k(2) s1 by (simp add: keeps_latchD)
    next
      case intr: False
      show ?thesis
      proof (cases "request_type (exdc_request (exdc_latch (pipeline s)))
                      \<noteq> VR4300_BUS_REQUEST_NONE")
        case True
        with reset intr run have "dc_access env ?s1 = Inr (r, t)"
          by (simp add: vr4300_dc_stage_def Let_def)
        from dc_access_upstream [OF this k(3,4)] dep
        have "sel (pipeline t) = sel (pipeline ?s1)" by blast
        with s1 show ?thesis by simp
      next
        case False
        with reset intr run have "t = ?s1"
          by (simp add: vr4300_dc_stage_def Let_def)
        with s1 show ?thesis by simp
      qed
    qed
  qed
qed

lemma ex_stage_upstream:
  assumes run: "vr4300_ex_stage env s = (r, t)"
      and k: "keeps_latch sel (VR4300_LDI env)"
      and kf: "\<And>i iw a b. keeps_latch sel (\<lambda>u. snd (vr4300_function_table env i u iw a b))"
      and dep: "\<And>p q. rfex_latch p = rfex_latch q \<Longrightarrow> icrf_latch p = icrf_latch q \<Longrightarrow>
                  sel p = sel q"
  shows "sel (pipeline t) = sel (pipeline s)"
proof (cases "load_use_hazard env s")
  case True
  let ?s1 = "upd_exdc (\<lambda>l. l\<lparr>exdc_common := rfex_common (rfex_latch (pipeline s))\<rparr>) s"
  from True run have "t = VR4300_LDI env ?s1"
    by (simp add: ex_stage_issue)
  then have "sel (pipeline t) = sel (pipeline ?s1)"
    using k by (simp add: keeps_latchD)
  also have "\<dots> = sel (pipeline s)"
    by (intro dep) (simp_all add: upd_simps)
  finally show ?thesis .
next
  case False
  let ?x = "(upd_exdc (\<lambda>l. l\<lparr>exdc_common := rfex_common (rfex_latch (pipeline s)),
                         exdc_dest := of_nat VR4300_REGISTER_R0,
                         exdc_request := (exdc_request l)\<lparr>request_type :=
                            VR4300_BUS_REQUEST_NONE\<rparr>\<rparr>) s)
          \<lparr>regs := (if dcwb_dest (dcwb_latch (pipeline s)) = 0 then regs s
                    else (regs s)(VR4300_REGISTER_R0 := 0))\<rparr>"
  from False run have "t = snd (vr4300_function_table env
      (opcode_id (rfex_opcode (rfex_latch (pipeline s)))) ?x
      (rfex_iw (rfex_latch (pipeline s))) (forwarded s (ex_rs env s)) (forwarded s (ex_rt env s)))"
    by (simp add: ex_stage_issue ex_issue_def)
  then have "sel (pipeline t) = sel (pipeline ?x)"
    using keeps_latchD [OF kf, where s = ?x] by simp
  also have "\<dots> = sel (pipeline s)"
    by (intro dep) (simp_all add: upd_simps)
  finally show ?thesis .
qed

text \<open>
  C8, as the code has it. Every slow-path entry point looks at the C-latch upstream of
  its stage. With the fault tag None it runs the stage, ends the tick if the stage
  aborts and otherwise hands over to the entry point of the next stage, down to IC, whose
  entry runs the IC stage and clears the cycle type when that stage completes. With any
  other fault tag it skips the stage: the DC, EX and RF entries copy the upstream C-latch
  into the downstream latch and hand over; the WB entry, which has no downstream latch,
  leaves the register file alone. A fault therefore moves one latch, and no more than
  one, in each tick in which the entry point of its stage is reached: when that entry
  point returns, the downstream latch carries the C-latch that was upstream and the
  latches further down are as they were. In the other ticks the fault stays where it is:
  a stall tick leaves all four latches alone, and when the DC or the EX stage aborts the
  tick ends there, with the C-latches upstream of the stage unchanged. All of this is
  under the proviso that the collaborators called on the way (the fault and interlock
  raisers, the opcode function) do not overwrite the latches in question.
\<close>

theorem slow_path_carries_fault_forward:
  "(if fault (dcwb_c (pipeline s)) \<noteq> VR4300_FAULT_NONE
    then slow_wb_stages env s = vr4300_cycle_slow_dc env s
    else slow_wb_stages env s =
           (case vr4300_wb_stage s of
              (r, t) \<Rightarrow> if r \<noteq> 0 then Inr t else vr4300_cycle_slow_dc env t)) \<and>
   (if fault (exdc_c (pipeline s)) \<noteq> VR4300_FAULT_NONE
    then vr4300_cycle_slow_dc env s =
           vr4300_cycle_slow_ex env
             (upd_dcwb (\<lambda>l. l\<lparr>dcwb_common := exdc_c (pipeline s),
                              dcwb_dest := 0, dcwb_result := 0\<rparr>) s)
    else vr4300_cycle_slow_dc env s =
           (case vr4300_dc_stage env s of
              Inl e \<Rightarrow> Inl e
            | Inr (r, t) \<Rightarrow> if r \<noteq> 0 then Inr t else vr4300_cycle_slow_ex env t)) \<and>
   (if fault (rfex_c (pipeline s)) \<noteq> VR4300_FAULT_NONE
    then vr4300_cycle_slow_ex env s =
           vr4300_cycle_slow_rf env (upd_exdc (\<lambda>l. l\<lparr>exdc_common := rfex_c (pipeline s)\<rparr>) s)
    else vr4300_cycle_slow_ex env s =
           (case vr4300_ex_stage env s of
              (r, t) \<Rightarrow> if r \<noteq> 0 then Inr t else vr4300_cycle_slow_rf env t)) \<and>
   (if fault (icrf_c (pipeline s)) \<noteq> VR4300_FAULT_NONE
    then vr4300_cycle_slow_rf env s =
           vr4300_cycle_slow_ic env (upd_rfex (\<lambda>l. l\<lparr>rfex_common := icrf_c (pipeline s)\<rparr>) s)
    else vr4300_cycle_slow_rf env s =
           (case vr4300_rf_stage env s of
              Inl e \<Rightarrow> Inl e
            | Inr (r, t) \<Rightarrow> if r \<noteq> 0 then Inr t else vr4300_cycle_slow_ic env t)) \<and>
   (fault (exdc_c (pipeline s)) \<noteq> VR4300_FAULT_NONE \<and>
    keeps_latch dcwb_c (VR4300_LDI env) \<and> keeps_latch dcwb_c (VR4300_ICB env) \<and>
    keeps_latch dcwb_c (VR4300_IADE env) \<and>
    (\<forall>i iw a b. keeps_latch dcwb_c (\<lambda>t. snd (vr4300_function_table env i t iw a b))) \<and>
    vr4300_cycle_slow_dc env s = Inr s'
      \<longrightarrow> dcwb_c (pipeline s') = exdc_c (pipeline s)) \<and>
   (fault (rfex_c (pipeline s)) \<noteq> VR4300_FAULT_NONE \<and>
    keeps_latch exdc_c (VR4300_ICB env) \<and> keeps_latch exdc_c (VR4300_IADE env) \<and>
    keeps_latch dcwb_c (VR4300_ICB env) \<and> keeps_latch dcwb_c (VR4300_IADE env) \<and>
    vr4300_cycle_slow_ex env s = Inr s'
      \<longrightarrow> exdc_c (pipeline s') = rfex_c (pipeline s) \<and>
          dcwb_c (pipeline s') = dcwb_c (pipeline s)) \<and>
   (fault (icrf_c (pipeline s)) \<noteq> VR4300_FAULT_NONE \<and>
    keeps_latch rfex_c (VR4300_IADE env) \<and> keeps_latch exdc_c (VR4300_IADE env) \<and>
    keeps_latch dcwb_c (VR4300_IADE env) \<and>
    vr4300_cycle_slow_rf env s = Inr s'
      \<longrightarrow> rfex_c (pipeline s') = icrf_c (pipeline s) \<and>
          exdc_c (pipeline s') = exdc_c (pipeline s) \<and>
          dcwb_c (pipeline s') = dcwb_c (pipeline s)) \<and>
   vr4300_cycle_slow_ic env s =
     (case vr4300_ic_stage env s of
        (r, t) \<Rightarrow> if r \<noteq> 0 then Inr t
                  else Inr (t\<lparr>regs := (regs t)(PIPELINE_CYCLE_TYPE env := 0)\<rparr>)) \<and>
   (0 < cycles_to_stall (pipeline s) \<longrightarrow>
      (\<exists>t. vr4300_cycle env s = Inr t \<and>
           dcwb_latch (pipeline t) = dcwb_latch (pipeline s) \<and>
           exdc_latch (pipeline t) = exdc_latch (pipeline s) \<and>
           rfex_latch (pipeline t) = rfex_latch (pipeline s) \<and>
           icrf_latch (pipeline t) = icrf_latch (pipeline s))) \<and>
   (fault (exdc_c (pipeline s)) = VR4300_FAULT_NONE \<and>
    vr4300_dc_stage env s = Inr (r, t) \<and> r \<noteq> 0 \<and>
    keeps_latch rfex_c (VR4300_RST env) \<and> keeps_latch rfex_c (VR4300_INTR env) \<and>
    keeps_latch rfex_c (VR4300_DADE env) \<and> keeps_latch rfex_c (VR4300_DCM env) \<and>
    keeps_latch icrf_c (VR4300_RST env) \<and> keeps_latch icrf_c (VR4300_INTR env) \<and>
    keeps_latch icrf_c (VR4300_DADE env) \<and> keeps_latch icrf_c (VR4300_DCM env)
      \<longrightarrow> vr4300_cycle_slow_dc env s = Inr t \<and>
          rfex_c (pipeline t) = rfex_c (pipeline s) \<and>
          icrf_c (pipeline t) = icrf_c (pipeline s)) \<and>
   (fault (rfex_c (pipeline s)) = VR4300_FAULT_NONE \<and>
    vr4300_ex_stage env s = (r, t) \<and> r \<noteq> 0 \<and>
    keeps_latch icrf_c (VR4300_LDI env) \<and>
    (\<forall>i iw a b. keeps_latch icrf_c (\<lambda>u. snd (vr4300_function_table env i u iw a b)))
      \<longrightarrow> vr4300_cycle_slow_ex env s = Inr t \<and>
          icrf_c (pipeline t) = icrf_c (pipeline s))"
proof (intro conjI impI)
  show "if fault (dcwb_c (pipeline s)) \<noteq> VR4300_FAULT_NONE
    then slow_wb_stages env s = vr4300_cycle_slow_dc env s
    else slow_wb_stages env s =
           (case vr4300_wb_stage s of
              (r, t) \<Rightarrow> if r \<noteq> 0 then Inr t else vr4300_cycle_slow_dc env t)"
    by (simp add: slow_wb_stages_def dcwb_c_def)
  show "if fault (exdc_c (pipeline s)) \<noteq> VR4300_FAULT_NONE
    then vr4300_cycle_slow_dc env s =
           vr4300_cycle_slow_ex env
             (upd_dcwb (\<lambda>l. l\<lparr>dcwb_common := exdc_c (pipeline s),
                              dcwb_dest := 0, dcwb_result := 0\<rparr>) s)
    else vr4300_cycle_slow_dc env s =
           (case vr4300_dc_stage env s of
              Inl e \<Rightarrow> Inl e
            | Inr (r, t) \<Rightarrow> if r \<noteq> 0 then Inr t else vr4300_cycle_slow_ex env t)"
    by (simp add: vr4300_cycle_slow_dc_def exdc_c_def)
  show "if fault (rfex_c (pipeline s)) \<noteq> VR4300_FAULT_NONE
    then vr4300_cycle_slow_ex env s =
           vr4300_cycle_slow_rf env (upd_exdc (\<lambda>l. l\<lparr>exdc_common := rfex_c (pipeline s)\<rparr>) s)
    else vr4300_cycle_slow_ex env s =
           (case vr4300_ex_stage env s of
              (r, t) \<Rightarrow> if r \<noteq> 0 then Inr t else vr4300_cycle_slow_rf env t)"
    by (simp add: vr4300_cycle_slow_ex_def rfex_c_def)
  show "if fault (icrf_c (pipeline s)) \<noteq> VR4300_FAULT_NONE
    then vr4300_cycle_slow_rf env s =
           vr4300_cycle_slow_ic env (upd_rfex (\<lambda>l. l\<lparr>rfex_common := icrf_c (pipeline s)\<rparr>) s)
    else vr4300_cycle_slow_rf env s =
           (case vr4300_rf_stage env s of
              Inl e \<Rightarrow> Inl e
            | Inr (r, t) \<Rightarrow> if r \<noteq> 0 then Inr t else vr4300_cycle_slow_ic env t)"
    by (simp add: vr4300_cycle_slow_rf_def icrf_c_def)
  show "vr4300_cycle_slow_ic env s =
     (case vr4300_ic_stage env s of
        (r, t) \<Rightarrow> if r \<noteq> 0 then Inr t
                  else Inr (t\<lparr>regs := (regs t)(PIPELINE_CYCLE_TYPE env := 0)\<rparr>))"
    by (simp add: vr4300_cycle_slow_ic_def)
next
  assume "0 < cycles_to_stall (pipeline s)"
  then show "\<exists>t. vr4300_cycle env s = Inr t \<and>
           dcwb_latch (pipeline t) = dcwb_latch (pipeline s) \<and>
           exdc_latch (pipeline t) = exdc_latch (pipeline s) \<and>
           rfex_latch (pipeline t) = rfex_latch (pipeline s) \<and>
           icrf_latch (pipeline t) = icrf_latch (pipeline s)"
    by (simp add: vr4300_cycle_def cycle_counters_def Let_def)
next
  assume a: "fault (exdc_c (pipeline s)) = VR4300_FAULT_NONE \<and>
    vr4300_dc_stage env s = Inr (r, t) \<and> r \<noteq> 0 \<and>
    keeps_latch rfex_c (VR4300_RST env) \<and> keeps_latch rfex_c (VR4300_INTR env) \<and>
    keeps_latch rfex_c (VR4300_DADE env) \<and> keeps_latch rfex_c (VR4300_DCM env) \<and>
    keeps_latch icrf_c (VR4300_RST env) \<and> keeps_latch icrf_c (VR4300_INTR env) \<and>
    keeps_latch icrf_c (VR4300_DADE env) \<and> keeps_latch icrf_c (VR4300_DCM env)"
  then have f: "fault (exdc_c (pipeline s)) = VR4300_FAULT_NONE"
    and run: "vr4300_dc_stage env s = Inr (r, t)" and r: "r \<noteq> 0"
    and k1: "keeps_latch rfex_c (VR4300_RST env)" "keeps_latch rfex_c (VR4300_INTR env)"
            "keeps_latch rfex_c (VR4300_DADE env)" "keeps_latch rfex_c (VR4300_DCM env)"
    and k2: "keeps_latch icrf_c (VR4300_RST env)" "keeps_latch icrf_c (VR4300_INTR env)"
            "keeps_latch icrf_c (VR4300_DADE env)" "keeps_latch icrf_c (VR4300_DCM env)"
    by simp_all
  from f run r show "vr4300_cycle_slow_dc env s = Inr t"
    by (simp add: vr4300_cycle_slow_dc_def exdc_c_def)
  show "rfex_c (pipeline t) = rfex_c (pipeline s)"
    by (rule dc_stage_upstream [OF run k1]) (simp add: rfex_c_def)
  show "icrf_c (pipeline t) = icrf_c (pipeline s)"
    by (rule dc_stage_upstream [OF run k2]) (simp add: icrf_c_def)
next
  assume a: "fault (rfex_c (pipeline s)) = VR4300_FAULT_NONE \<and>
    vr4300_ex_stage env s = (r, t) \<and> r \<noteq> 0 \<and>
    keeps_latch icrf_c (VR4300_LDI env) \<and>
    (\<forall>i iw a b. keeps_latch icrf_c (\<lambda>u. snd (vr4300_function_table env i u iw a b)))"
  then have f: "fault (rfex_c (pipeline s)) = VR4300_FAULT_NONE"
    and run: "vr4300_ex_stage env s = (r, t)" and r: "r \<noteq> 0"
    and k: "keeps_latch icrf_c (VR4300_LDI env)"
    and kf: "keeps_latch icrf_c (\<lambda>u. snd (vr4300_function_table env i u iw x y))" for i iw x y
    by simp_all
  from f run r show "vr4300_cycle_slow_ex env s = Inr t"
    by (simp add: vr4300_cycle_slow_ex_def rfex_c_def)
  show "icrf_c (pipeline t) = icrf_c (pipeline s)"
    by (rule ex_stage_upstream [OF run k kf]) (simp add: icrf_c_def)
next
  assume a: "fault (exdc_c (pipeline s)) \<noteq> VR4300_FAULT_NONE \<and>
    keeps_latch dcwb_c (VR4300_LDI env) \<and> keeps_latch dcwb_c (VR4300_ICB env) \<and>
    keeps_latch dcwb_c (VR4300_IADE env) \<and>
    (\<forall>i iw a b. keeps_latch dcwb_c (\<lambda>t. snd (vr4300_function_table env i t iw a b))) \<and>
    vr4300_cycle_slow_dc env s = Inr s'"
  let ?s1 = "upd_dcwb (\<lambda>l. l\<lparr>dcwb_common := exdc_c (pipeline s),
                              dcwb_dest := 0, dcwb_result := 0\<rparr>) s"
  from a have f: "fault (exdc_c (pipeline s)) \<noteq> VR4300_FAULT_NONE"
    and r: "vr4300_cycle_slow_dc env s = Inr s'"
    by simp_all
  from f r have run: "vr4300_cycle_slow_ex env ?s1 = Inr s'"
    by (simp add: vr4300_cycle_slow_dc_def exdc_c_def)
  have "dcwb_c (pipeline s') = dcwb_c (pipeline ?s1)"
  proof (rule slow_ex_keeps [OF _ _ _ _ _ run])
    show "keeps_latch dcwb_c (VR4300_LDI env)" "keeps_latch dcwb_c (VR4300_ICB env)"
         "keeps_latch dcwb_c (VR4300_IADE env)"
      using a by simp_all
    show "keeps_latch dcwb_c (\<lambda>t. snd (vr4300_function_table env i t iw x y))" for i iw x y
      using a by simp
    show "dcwb_c p = dcwb_c q" if "dcwb_latch p = dcwb_latch q" for p q
      using that by (simp add: dcwb_c_def)
  qed
  then show "dcwb_c (pipeline s') = exdc_c (pipeline s)"
    by (simp add: dcwb_c_def upd_simps)
next
  assume a: "fault (rfex_c (pipeline s)) \<noteq> VR4300_FAULT_NONE \<and>
    keeps_latch exdc_c (VR4300_ICB env) \<and> keeps_latch exdc_c (VR4300_IADE env) \<and>
    keeps_latch dcwb_c (VR4300_ICB env) \<and> keeps_latch dcwb_c (VR4300_IADE env) \<and>
    vr4300_cycle_slow_ex env s = Inr s'"
  let ?s1 = "upd_exdc (\<lambda>l. l\<lparr>exdc_common := rfex_c (pipeline s)\<rparr>) s"
  from a have f: "fault (rfex_c (pipeline s)) \<noteq> VR4300_FAULT_NONE"
    and r: "vr4300_cycle_slow_ex env s = Inr s'"
    by simp_all
  from f r have run: "vr4300_cycle_slow_rf env ?s1 = Inr s'"
    by (simp add: vr4300_cycle_slow_ex_def rfex_c_def)
  have "exdc_c (pipeline s') = exdc_c (pipeline ?s1)"
  proof (rule slow_rf_keeps [OF _ _ _ run])
    show "keeps_latch exdc_c (VR4300_ICB env)" "keeps_latch exdc_c (VR4300_IADE env)"
      using a by simp_all
    show "exdc_c p = exdc_c q" if "exdc_latch p = exdc_latch q" for p q
      using that by (simp add: exdc_c_def)
  qed
  then have moved: "exdc_c (pipeline s') = rfex_c (pipeline s)"
    by (simp add: exdc_c_def upd_simps)
  have "dcwb_c (pipeline s') = dcwb_c (pipeline ?s1)"
  proof (rule slow_rf_keeps [OF _ _ _ run])
    show "keeps_latch dcwb_c (VR4300_ICB env)" "keeps_latch dcwb_c (VR4300_IADE env)"
      using a by simp_all
    show "dcwb_c p = dcwb_c q" if "dcwb_latch p = dcwb_latch q" for p q
      using that by (simp add: dcwb_c_def)
  qed
  then show "dcwb_c (pipeline s') = dcwb_c (pipeline s)"
    by (simp add: dcwb_c_def upd_simps)
  from moved show "exdc_c (pipeline s') = rfex_c (pipeline s)" .
next
  assume a: "fault (icrf_c (pipeline s)) \<noteq> VR4300_FAULT_NONE \<and>
    keeps_latch rfex_c (VR4300_IADE env) \<and> keeps_latch exdc_c (VR4300_IADE env) \<and>
    keeps_latch dcwb_c (VR4300_IADE env) \<and>
    vr4300_cycle_slow_rf env s = Inr s'"
  let ?s1 = "upd_rfex (\<lambda>l. l\<lparr>rfex_common := icrf_c (pipeline s)\<rparr>) s"
  from a have f: "fault (icrf_c (pipeline s)) \<noteq> VR4300_FAULT_NONE"
    and r: "vr4300_cycle_slow_rf env s = Inr s'"
    by simp_all
  from f r have run: "vr4300_cycle_slow_ic env ?s1 = Inr s'"
    by (simp add: vr4300_cycle_slow_rf_def icrf_c_def)
  have "rfex_c (pipeline s') = rfex_c (pipeline ?s1)"
  proof (rule slow_ic_keeps [OF _ _ run])
    show "keeps_latch rfex_c (VR4300_IADE env)"
      using a by simp
    show "rfex_c p = rfex_c q"
      if "rfex_common (rfex_latch p) = rfex_common (rfex_latch q)" for p q
      using that by (simp add: rfex_c_def)
  qed
  then have moved: "rfex_c (pipeline s') = icrf_c (pipeline s)"
    by (simp add: rfex_c_def upd_simps)
  have "exdc_c (pipeline s') = exdc_c (pipeline ?s1)"
  proof (rule slow_ic_keeps [OF _ _ run])
    show "keeps_latch exdc_c (VR4300_IADE env)"
      using a by simp
    show "exdc_c p = exdc_c q" if "exdc_latch p = exdc_latch q" for p q
      using that by (simp add: exdc_c_def)
  qed
  then have e: "exdc_c (pipeline s') = exdc_c (pipeline s)"
    by (simp add: exdc_c_def upd_simps)
  have "dcwb_c (pipeline s') = dcwb_c (pipeline ?s1)"
  proof (rule slow_ic_keeps [OF _ _ run])
    show "keeps_latch dcwb_c (VR4300_IADE env)"
      using a by simp
    show "dcwb_c p = dcwb_c q" if "dcwb_latch p = dcwb_latch q" for p q
      using that by (simp add: dcwb_c_def)
  qed
  then show "dcwb_c (pipeline s') = dcwb_c (pipeline s)"
    by (simp add: dcwb_c_def upd_simps)
  from moved show "rfex_c (pipeline s') = icrf_c (pipeline s)" .
  from e show "exdc_c (pipeline s') = exdc_c (pipeline s)" .
qed

lemma test_env_keeps_dcwb:
  "keeps_latch dcwb_c (VR4300_LDI test_env)" "keeps_latch dcwb_c (VR4300_ICB test_env)"
  "keeps_latch dcwb_c (VR4300_IADE test_env)"
  "keeps_latch dcwb_c (\<lambda>t. snd (vr4300_function_table test_env i t iw a b))"
  by (simp_all add: keeps_latch_def dcwb_c_def test_env_def test_raise_def tag_exdc_def
        tag_rfex_def tag_icrf_def upd_simps)

lemma test_env_keeps_exdc:
  "keeps_latch exdc_c (VR4300_ICB test_env)" "keeps_latch exdc_c (VR4300_IADE test_env)"
  by (simp_all add: keeps_latch_def exdc_c_def test_env_def test_raise_def tag_rfex_def
        tag_icrf_def upd_simps)

lemma test_env_keeps_rfex: "keeps_latch rfex_c (VR4300_IADE test_env)"
  by (simp add: keeps_latch_def rfex_c_def test_env_def test_raise_def tag_icrf_def upd_simps)

lemma test_env_keeps_upstream:
  "keeps_latch rfex_c (VR4300_RST test_env)" "keeps_latch rfex_c (VR4300_INTR test_env)"
  "keeps_latch rfex_c (VR4300_DADE test_env)" "keeps_latch rfex_c (VR4300_DCM test_env)"
  "keeps_latch icrf_c (VR4300_RST test_env)" "keeps_latch icrf_c (VR4300_INTR test_env)"
  "keeps_latch icrf_c (VR4300_DADE test_env)" "keeps_latch icrf_c (VR4300_DCM test_env)"
  "keeps_latch icrf_c (VR4300_LDI test_env)"
  "keeps_latch icrf_c (\<lambda>u. snd (vr4300_function_table test_env i u iw a b))"
  by (simp_all add: keeps_latch_def rfex_c_def icrf_c_def test_env_def test_raise_def
        tag_dcwb_def tag_exdc_def upd_simps)

theorem slow_path_carries_fault_forward_witness:
  "(\<exists>t. vr4300_cycle_slow_dc test_env data_fault_state = Inr t \<and>
        fault (dcwb_c (pipeline t)) = VR4300_FAULT_DADE) \<and>
   (\<exists>t. vr4300_cycle_slow_ex test_env execute_fault_state = Inr t \<and>
        fault (exdc_c (pipeline t)) = VR4300_FAULT_LDI) \<and>
   (\<exists>t. vr4300_cycle_slow_rf test_env fetch_fault_state = Inr t \<and>
        fault (rfex_c (pipeline t)) = VR4300_FAULT_IADE) \<and>
   (\<exists>s1 s2 s3.
      vr4300_cycle_slow_wb test_env fetch_fault_state = Inr s1 \<and>
      fault (rfex_c (pipeline s1)) = VR4300_FAULT_IADE \<and>
      fault (icrf_c (pipeline s1)) = VR4300_FAULT_NONE \<and>
      vr4300_cycle_slow_wb test_env s1 = Inr s2 \<and>
      fault (exdc_c (pipeline s2)) = VR4300_FAULT_IADE \<and>
      fault (rfex_c (pipeline s2)) = VR4300_FAULT_NONE \<and>
      vr4300_cycle_slow_wb test_env s2 = Inr s3 \<and>
      fault (dcwb_c (pipeline s3)) = VR4300_FAULT_IADE \<and>
      fault (exdc_c (pipeline s3)) = VR4300_FAULT_NONE) \<and>
   (\<exists>t. vr4300_cycle test_env stalled_fetch_fault_state = Inr t \<and>
        fault (icrf_c (pipeline t)) = VR4300_FAULT_IADE) \<and>
   (\<exists>t. vr4300_cycle_slow_dc test_env interrupted_fetch_fault_state = Inr t \<and>
        fault (dcwb_c (pipeline t)) = VR4300_FAULT_INTR \<and>
        fault (icrf_c (pipeline t)) = VR4300_FAULT_IADE) \<and>
   (\<exists>t. vr4300_cycle_slow_ex test_env hazard_fetch_fault_state = Inr t \<and>
        fault (exdc_c (pipeline t)) = VR4300_FAULT_LDI \<and>
        fault (icrf_c (pipeline t)) = VR4300_FAULT_IADE)"
proof -
  have f: "fault (exdc_c (pipeline data_fault_state)) \<noteq> VR4300_FAULT_NONE"
          "fault (rfex_c (pipeline execute_fault_state)) \<noteq> VR4300_FAULT_NONE"
          "fault (icrf_c (pipeline fetch_fault_state)) \<noteq> VR4300_FAULT_NONE"
    by (simp_all add: exdc_c_def rfex_c_def icrf_c_def data_fault_state_def
          execute_fault_state_def fetch_fault_state_def armed_state_def tag_rfex_def upd_simps
          test_defs)
  have v: "exdc_c (pipeline data_fault_state) = test_latch\<lparr>fault := VR4300_FAULT_DADE\<rparr>"
          "rfex_c (pipeline execute_fault_state) = test_latch\<lparr>fault := VR4300_FAULT_LDI\<rparr>"
          "icrf_c (pipeline fetch_fault_state) = test_latch\<lparr>fault := VR4300_FAULT_IADE\<rparr>"
    by (simp_all add: exdc_c_def rfex_c_def icrf_c_def data_fault_state_def
          execute_fault_state_def fetch_fault_state_def armed_state_def tag_rfex_def upd_simps
          test_state_def test_pipeline_def)
  have "\<exists>t. vr4300_cycle_slow_dc test_env data_fault_state = Inr t"
    by (simp add: data_fault_state_def model_defs test_defs Let_def)
  then obtain t1 where t1: "vr4300_cycle_slow_dc test_env data_fault_state = Inr t1" ..
  have "\<exists>t. vr4300_cycle_slow_ex test_env execute_fault_state = Inr t"
    by (simp add: execute_fault_state_def armed_state_def model_defs test_defs Let_def)
  then obtain t2 where t2: "vr4300_cycle_slow_ex test_env execute_fault_state = Inr t2" ..
  have "\<exists>t. vr4300_cycle_slow_rf test_env fetch_fault_state = Inr t"
    by (simp add: fetch_fault_state_def model_defs test_defs Let_def)
  then obtain t3 where t3: "vr4300_cycle_slow_rf test_env fetch_fault_state = Inr t3" ..
  from slow_path_carries_fault_forward
         [where s = data_fault_state and env = test_env and s' = t1,
          THEN conjunct2, THEN conjunct2, THEN conjunct2, THEN conjunct2,
          THEN conjunct1]
       f(1) t1
       test_env_keeps_dcwb
  have "dcwb_c (pipeline t1) = exdc_c (pipeline data_fault_state)"
    by blast
  with t1 v(1) have one: "\<exists>t. vr4300_cycle_slow_dc test_env data_fault_state = Inr t \<and>
        fault (dcwb_c (pipeline t)) = VR4300_FAULT_DADE"
    by simp
  from slow_path_carries_fault_forward
         [where s = execute_fault_state and env = test_env and s' = t2,
          THEN conjunct2, THEN conjunct2, THEN conjunct2, THEN conjunct2,
          THEN conjunct2, THEN conjunct1]
       f(2) t2
       test_env_keeps_exdc test_env_keeps_dcwb
  have "exdc_c (pipeline t2) = rfex_c (pipeline execute_fault_state)"
    by blast
  with t2 v(2) have two: "\<exists>t. vr4300_cycle_slow_ex test_env execute_fault_state = Inr t \<and>
        fault (exdc_c (pipeline t)) = VR4300_FAULT_LDI"
    by simp
  from slow_path_carries_fault_forward
         [where s = fetch_fault_state and env = test_env and s' = t3,
          THEN conjunct2, THEN conjunct2, THEN conjunct2, THEN conjunct2,
          THEN conjunct2, THEN conjunct2, THEN conjunct1]
       f(3) t3
       test_env_keeps_rfex test_env_keeps_exdc test_env_keeps_dcwb
  have "rfex_c (pipeline t3) = icrf_c (pipeline fetch_fault_state)"
    by blast
  with t3 v(3) have three: "\<exists>t. vr4300_cycle_slow_rf test_env fetch_fault_state = Inr t \<and>
        fault (rfex_c (pipeline t)) = VR4300_FAULT_IADE"
    by simp
  have journey: "\<exists>s1 s2 s3.
      vr4300_cycle_slow_wb test_env fetch_fault_state = Inr s1 \<and>
      fault (rfex_c (pipeline s1)) = VR4300_FAULT_IADE \<and>
      fault (icrf_c (pipeline s1)) = VR4300_FAULT_NONE \<and>
      vr4300_cycle_slow_wb test_env s1 = Inr s2 \<and>
      fault (exdc_c (pipeline s2)) = VR4300_FAULT_IADE \<and>
      fault (rfex_c (pipeline s2)) = VR4300_FAULT_NONE \<and>
      vr4300_cycle_slow_wb test_env s2 = Inr s3 \<and>
      fault (dcwb_c (pipeline s3)) = VR4300_FAULT_IADE \<and>
      fault (exdc_c (pipeline s3)) = VR4300_FAULT_NONE"
    by (simp add: fetch_fault_state_def dcwb_c_def exdc_c_def rfex_c_def icrf_c_def
          model_defs test_defs Let_def)
  have tagged: "fault (icrf_c (pipeline stalled_fetch_fault_state)) = VR4300_FAULT_IADE"
      "fault (icrf_c (pipeline interrupted_fetch_fault_state)) = VR4300_FAULT_IADE"
      "fault (icrf_c (pipeline hazard_fetch_fault_state)) = VR4300_FAULT_IADE"
    by (simp_all add: icrf_c_def stalled_fetch_fault_state_def interrupted_fetch_fault_state_def
          hazard_fetch_fault_state_def fetch_fault_state_def tag_icrf_def upd_simps)
  have st: "0 < cycles_to_stall (pipeline stalled_fetch_fault_state)"
    by (simp add: stalled_fetch_fault_state_def)
  from slow_path_carries_fault_forward
         [where s = stalled_fetch_fault_state and env = test_env,
          THEN conjunct2, THEN conjunct2, THEN conjunct2, THEN conjunct2,
          THEN conjunct2, THEN conjunct2, THEN conjunct2, THEN conjunct2,
          THEN conjunct1] st
  obtain t4 where t4: "vr4300_cycle test_env stalled_fetch_fault_state = Inr t4"
    "icrf_latch (pipeline t4) = icrf_latch (pipeline stalled_fetch_fault_state)"
    by blast
  with tagged(1) have four: "\<exists>t. vr4300_cycle test_env stalled_fetch_fault_state = Inr t \<and>
        fault (icrf_c (pipeline t)) = VR4300_FAULT_IADE"
    by (simp add: icrf_c_def)
  have "\<exists>t. vr4300_dc_stage test_env interrupted_fetch_fault_state = Inr (1, t) \<and>
            fault (dcwb_c (pipeline t)) = VR4300_FAULT_INTR"
    by (simp add: interrupted_fetch_fault_state_def fetch_fault_state_def dcwb_c_def
          model_defs test_defs Let_def)
  then obtain t5 where t5: "vr4300_dc_stage test_env interrupted_fetch_fault_state = Inr (1, t5)"
    "fault (dcwb_c (pipeline t5)) = VR4300_FAULT_INTR"
    by blast
  have n5: "fault (exdc_c (pipeline interrupted_fetch_fault_state)) = VR4300_FAULT_NONE"
    by (simp add: exdc_c_def interrupted_fetch_fault_state_def fetch_fault_state_def upd_simps
          test_defs)
  from slow_path_carries_fault_forward
         [where s = interrupted_fetch_fault_state and env = test_env and r = 1 and t = t5,
          THEN conjunct2,
          THEN conjunct2, THEN conjunct2, THEN conjunct2, THEN conjunct2,
          THEN conjunct2, THEN conjunct2, THEN conjunct2, THEN conjunct2,
          THEN conjunct1]
       n5 t5(1) test_env_keeps_upstream
  have "vr4300_cycle_slow_dc test_env interrupted_fetch_fault_state = Inr t5 \<and>
        icrf_c (pipeline t5) = icrf_c (pipeline interrupted_fetch_fault_state)"
    by simp
  with tagged(2) t5(2) have five:
    "\<exists>t. vr4300_cycle_slow_dc test_env interrupted_fetch_fault_state = Inr t \<and>
        fault (dcwb_c (pipeline t)) = VR4300_FAULT_INTR \<and>
        fault (icrf_c (pipeline t)) = VR4300_FAULT_IADE"
    by simp
  have "\<exists>t. vr4300_ex_stage test_env hazard_fetch_fault_state = (1, t) \<and>
            fault (exdc_c (pipeline t)) = VR4300_FAULT_LDI"
    by (simp add: hazard_fetch_fault_state_def load_use_state_def forwarding_state_def exdc_c_def
          model_defs test_defs Let_def)
  then obtain t6 where t6: "vr4300_ex_stage test_env hazard_fetch_fault_state = (1, t6)"
    "fault (exdc_c (pipeline t6)) = VR4300_FAULT_LDI"
    by blast
  have n6: "fault (rfex_c (pipeline hazard_fetch_fault_state)) = VR4300_FAULT_NONE"
    by (simp add: rfex_c_def hazard_fetch_fault_state_def load_use_state_def
          forwarding_state_def tag_icrf_def upd_simps test_defs)
  from slow_path_carries_fault_forward
         [where s = hazard_fetch_fault_state and env = test_env and r = 1 and t = t6,
          THEN conjunct2,
          THEN conjunct2, THEN conjunct2, THEN conjunct2, THEN conjunct2,
          THEN conjunct2, THEN conjunct2, THEN conjunct2, THEN conjunct2,
          THEN conjunct2]
       n6 t6(1) test_env_keeps_upstream
  have "vr4300_cycle_slow_ex test_env hazard_fetch_fault_state = Inr t6 \<and>
        icrf_c (pipeline t6) = icrf_c (pipeline hazard_fetch_fault_state)"
    by simp
  with tagged(3) t6(2) have six:
    "\<exists>t. vr4300_cycle_slow_ex test_env hazard_fetch_fault_state = Inr t \<and>
        fault (exdc_c (pipeline t)) = VR4300_FAULT_LDI \<and>
        fault (icrf_c (pipeline t)) = VR4300_FAULT_IADE"
    by simp
  from one two three journey four five six show ?thesis by (intro conjI)
qed

text \<open>
  C8 as stated, with the fault moving one stage in every tick, fails: with an instruction
  address fault tagged in the IC/RF latch, a tick in which the DC stage aborts on an
  interrupt, and a tick spent stalling, both end with the tag still in the IC/RF latch
  and the RF/EX latch untagged.
\<close>

theorem fault_stays_in_aborted_and_stall_ticks:
  "fault (icrf_c (pipeline interrupted_fetch_fault_state)) = VR4300_FAULT_IADE \<and>
   \<not> isl (vr4300_cycle test_env interrupted_fetch_fault_state) \<and>
   fault (icrf_c (pipeline (projr (vr4300_cycle test_env interrupted_fetch_fault_state))))
     = VR4300_FAULT_IADE \<and>
   fault (rfex_c (pipeline (projr (vr4300_cycle test_env interrupted_fetch_fault_state))))
     = VR4300_FAULT_NONE \<and>
   fault (icrf_c (pipeline stalled_fetch_fault_state)) = VR4300_FAULT_IADE \<and>
   \<not> isl (vr4300_cycle test_env stalled_fetch_fault_state) \<and>
   fault (icrf_c (pipeline (projr (vr4300_cycle test_env stalled_fetch_fault_state))))
     = VR4300_FAULT_IADE \<and>
   fault (rfex_c (pipeline (projr (vr4300_cycle test_env stalled_fetch_fault_state))))
     = VR4300_FAULT_NONE"
  by (simp add: interrupted_fetch_fault_state_def stalled_fetch_fault_state_def
        fetch_fault_state_def icrf_c_def rfex_c_def model_defs test_defs Let_def)


end
